theory Spec2Isabelle
  imports Complex_Main "HOL-Library.Multiset" "HOL-Library.Char_ord" "HOL-Library.List_Lexorder"
    "HOL-Library.Log_Nat"
begin

section \<open>Python values\<close>

text \<open>
  A Python \<open>str\<close> is a sequence of code points. The model is \<^typ>\<open>string\<close> with one
  \<^typ>\<open>char\<close> per code point, which covers the code points U+0000 to U+00FF (Latin-1): every
  literal of \<open>generate_dashboard.py\<close> that the pipelines compare lies in that range. The Danish
  letters of the source's literals are written by their code points.
\<close>

abbreviation ae_small :: char where "ae_small \<equiv> CHR 0xE6"
abbreviation oe_small :: char where "oe_small \<equiv> CHR 0xF8"
abbreviation aa_small :: char where "aa_small \<equiv> CHR 0xE5"
abbreviation aa_cap :: char where "aa_cap \<equiv> CHR 0xC5"
abbreviation e_acute :: char where "e_acute \<equiv> CHR 0xE9"

text \<open>
  \<open>str.split()\<close> and \<open>str.strip()\<close> without arguments work on Python's whitespace; below U+0100
  these are the code points 9 to 13, 28 to 32, 133 and 160.
\<close>

definition is_space :: "char \<Rightarrow> bool" where
  "is_space c = (c \<in> set [CHR 0x09, CHR 0x0A, CHR 0x0B, CHR 0x0C, CHR 0x0D,
                           CHR 0x1C, CHR 0x1D, CHR 0x1E, CHR 0x1F, CHR 0x20, CHR 0x85, CHR 0xA0])"

text \<open>\<open>s.split()\<close>: the maximal runs of non-whitespace, in order.\<close>

fun split_words :: "string \<Rightarrow> string \<Rightarrow> string list" where
  "split_words w [] = (if w = [] then [] else [w])"
| "split_words w (c # cs) =
     (if is_space c then (if w = [] then split_words [] cs else w # split_words [] cs)
      else split_words (w @ [c]) cs)"

definition py_split :: "string \<Rightarrow> string list" where
  "py_split s = split_words [] s"

text \<open>\<open>s.split(sep)\<close> for a one-character separator: never empty, one more part than separators.\<close>

fun split_parts :: "char \<Rightarrow> string \<Rightarrow> string \<Rightarrow> string list" where
  "split_parts sep w [] = [w]"
| "split_parts sep w (c # cs) =
     (if c = sep then w # split_parts sep [] cs else split_parts sep (w @ [c]) cs)"

definition py_split_on :: "char \<Rightarrow> string \<Rightarrow> string list" where
  "py_split_on sep s = split_parts sep [] s"

definition py_strip :: "string \<Rightarrow> string" where
  "py_strip s = rev (dropWhile is_space (rev (dropWhile is_space s)))"

fun py_join :: "string \<Rightarrow> string list \<Rightarrow> string" where
  "py_join sep [] = []"
| "py_join sep [w] = w"
| "py_join sep (w # ws) = w @ sep @ py_join sep ws"

text \<open>
  \<open>s.lower()\<close> below U+0100: the letters A to Z and U+00C0 to U+00DE except the
  multiplication sign U+00D7 move up by 32; every other code point stays.
\<close>

definition lower_char :: "char \<Rightarrow> char" where
  "lower_char c =
     (let n = (of_char c :: nat)
      in if (65 \<le> n \<and> n \<le> 90) \<or> (192 \<le> n \<and> n \<le> 222 \<and> n \<noteq> 215)
         then char_of (n + 32) else c)"

definition py_lower :: "string \<Rightarrow> string" where
  "py_lower s = map lower_char s"

text \<open>\<open>sub in s\<close> on strings: some slice \<open>s[i:i+len(sub)]\<close> equals \<open>sub\<close>.\<close>

fun py_in :: "string \<Rightarrow> string \<Rightarrow> bool" where
  "py_in sub [] = (sub = [])"
| "py_in sub (c # cs) = (take (length sub) (c # cs) = sub \<or> py_in sub cs)"

text \<open>
  A spreadsheet cell is missing (NaN or \<open>None\<close>, what \<open>pd.isna\<close> accepts), a number or a text.
  Numbers are exact reals. The rounding of binary floating point enters where a result of the
  source depends on it: in the mean of a column, which is a parameter of the model
  (\<open>float_mean\<close> of the library).
\<close>

datatype cell = Missing | Num real | Str string

text \<open>
  The exceptions the modelled code can raise. \<open>ColumnNotFound\<close> is the \<open>KeyError\<close> that
  \<open>find_column\<close> raises: its message is a fixed text followed by the candidate list, which is
  the constructor's argument. \<open>LibraryError\<close> stands for any exception of a library call that
  is a parameter of the model.
\<close>

datatype error =
    ColumnNotFound "string list"
  | KeyError string
  | AttributeError
  | TypeError
  | ValueError
  | LibraryError string

definition pd_isna :: "cell \<Rightarrow> bool" where
  "pd_isna c = (c = Missing)"

definition pd_notna :: "cell \<Rightarrow> bool" where
  "pd_notna c = (c \<noteq> Missing)"

text \<open>\<open>int(x)\<close> on a number truncates towards zero.\<close>

definition py_int :: "real \<Rightarrow> int" where
  "py_int x = (if 0 \<le> x then \<lfloor>x\<rfloor> else \<lceil>x\<rceil>)"

section \<open>Tables\<close>

text \<open>
  A \<open>DataFrame\<close>: the column names in order, and the rows in order. The header decides which
  columns exist; a row gives the cell of every column name, and its values outside the header
  are never read.
\<close>

record dataframe =
  columns :: "string list"
  rows :: "(string \<Rightarrow> cell) list"

section \<open>Column resolver\<close>

text \<open>
  The lines \<open>find_column\<close> prints when it fails, one constructor per \<open>print\<close> statement:
  the candidates, the heading, one numbered line per column of the table, and the tip.
\<close>

datatype out_line =
    PrintNotFound "string list"
  | PrintAvailable
  | PrintColumn nat string
  | PrintTip

fun find_column_loop :: "string list \<Rightarrow> string list \<Rightarrow> string option" where
  "find_column_loop cols [] = None"
| "find_column_loop cols (name # names) =
     (if name \<in> set cols then Some name else find_column_loop cols names)"

definition find_column :: "dataframe \<Rightarrow> string list \<Rightarrow> out_line list \<times> (error + string)" where
  "find_column df possible_names =
     (case find_column_loop (columns df) possible_names of
        Some name \<Rightarrow> ([], Inr name)
      | None \<Rightarrow>
          ([PrintNotFound possible_names, PrintAvailable]
             @ map (\<lambda>(i, col). PrintColumn i col) (enumerate 1 (columns df))
             @ [PrintTip],
           Inl (ColumnNotFound possible_names)))"

text \<open>The column lines of a printed report, in the order printed.\<close>

fun listed_columns :: "out_line list \<Rightarrow> (nat \<times> string) list" where
  "listed_columns [] = []"
| "listed_columns (PrintColumn i col # out) = (i, col) # listed_columns out"
| "listed_columns (_ # out) = listed_columns out"

section \<open>Address classifier\<close>

definition parse_city_from_handelsnavn :: "cell \<Rightarrow> error + string" where
  "parse_city_from_handelsnavn handelsnavn =
     (case handelsnavn of
        Missing \<Rightarrow> Inr ''Ukendt''
      | Num x \<Rightarrow> Inl AttributeError
      | Str s \<Rightarrow>
          (let parts = py_split_on (CHR '','') s
           in if length parts \<ge> 2
              then (let last_part = py_strip (last parts);
                        words = py_split last_part
                    in if length words > 1 then Inr (py_join '' '' (tl words)) else Inr ''Ukendt'')
              else Inr ''Ukendt''))"

definition known_addresses :: "(string \<times> real \<times> real) list" where
  "known_addresses =
     [(''Griffenfeldsgade 4B'', (55.68953163, 12.55545457)),
      (''R'' @ [aa_small] @ ''dmandsgade 34'', (55.69978992, 12.55090717)),
      (''R'' @ [aa_small] @ ''dmandsgade 36'', (55.69987455, 12.55113735)),
      (''Ven'' @ [oe_small] @ ''gade 24'', (55.71248034, 12.5644871)),
      (''S'' @ [oe_small] @ ''ller'' @ [oe_small] @ ''dgade 17'', (55.69416374, 12.54659476)),
      (''S'' @ [oe_small] @ ''ller'' @ [oe_small] @ ''dgade 15'', (55.69406004, 12.5467663)),
      (''Holger Danskes Vej 32'', (55.68712091, 12.53648974)),
      (''Blegdamsvej 30A'', (55.69266957, 12.56496568)),
      (''Bjelkes All'' @ [e_acute] @ '' 20'', (55.69307928, 12.54489447)),
      (''Bjelkes All'' @ [e_acute] @ '' 16'', (55.69284985, 12.54508262)),
      (''Alhambravej 15'', (55.67535625, 12.54444716)),
      (''Alhambravej 13'', (55.67517812, 12.54429515))]"

fun geocode_loop :: "(string \<times> real \<times> real) list \<Rightarrow> string \<Rightarrow> real \<times> real" where
  "geocode_loop [] address = (55.6761, 12.5683)"
| "geocode_loop ((known_addr, coords) # items) address =
     (if py_in (py_lower known_addr) (py_lower address) then coords
      else geocode_loop items address)"

text \<open>
  \<open>address.lower()\<close> is evaluated in the first round of the loop; on a cell that is not a
  text (a float, NaN included) it raises \<open>AttributeError\<close>.
\<close>

definition geocode_address :: "cell \<Rightarrow> error + real \<times> real" where
  "geocode_address address =
     (case address of
        Str s \<Rightarrow> Inr (geocode_loop known_addresses s)
      | _ \<Rightarrow> Inl AttributeError)"

section \<open>Room estimate\<close>

text \<open>
  \<open>area < n\<close> on a cell: a comparison with NaN is false, a text against a number raises
  \<open>TypeError\<close>.
\<close>

definition cell_less :: "cell \<Rightarrow> real \<Rightarrow> error + bool" where
  "cell_less c n = (case c of Num a \<Rightarrow> Inr (a < n) | Missing \<Rightarrow> Inr False | Str s \<Rightarrow> Inl TypeError)"

definition estimate_rooms :: "cell \<Rightarrow> error + int" where
  "estimate_rooms area =
     (case cell_less area 50 of Inl e \<Rightarrow> Inl e | Inr True \<Rightarrow> Inr 2 | Inr False \<Rightarrow>
      (case cell_less area 75 of Inl e \<Rightarrow> Inl e | Inr True \<Rightarrow> Inr 3 | Inr False \<Rightarrow>
      (case cell_less area 100 of Inl e \<Rightarrow> Inl e | Inr True \<Rightarrow> Inr 4 | Inr False \<Rightarrow>
      (case cell_less area 125 of Inl e \<Rightarrow> Inl e | Inr True \<Rightarrow> Inr 5 | Inr False \<Rightarrow>
       Inr 6))))"

section \<open>Running a computation that can raise\<close>

definition bind_err :: "error + 'a \<Rightarrow> ('a \<Rightarrow> error + 'b) \<Rightarrow> error + 'b" where
  "bind_err m f = (case m of Inl e \<Rightarrow> Inl e | Inr x \<Rightarrow> f x)"

text \<open>A function applied to the elements in order; the first exception ends the run.\<close>

fun map_err :: "('a \<Rightarrow> error + 'b) \<Rightarrow> 'a list \<Rightarrow> error + 'b list" where
  "map_err f [] = Inr []"
| "map_err f (x # xs) =
     (case f x of
        Inl e \<Rightarrow> Inl e
      | Inr y \<Rightarrow> (case map_err f xs of Inl e \<Rightarrow> Inl e | Inr ys \<Rightarrow> Inr (y # ys)))"

section \<open>Table operations\<close>

text \<open>The names of the source's columns that hold Danish letters.\<close>

abbreviation col_aarsleje :: string where "col_aarsleje \<equiv> aa_cap # ''rsleje''"
abbreviation col_antal_vaerelser :: string where "col_antal_vaerelser \<equiv> ''Antal v'' @ ae_small # ''relser''"
abbreviation col_Antal_Vaerelser :: string where "col_Antal_Vaerelser \<equiv> ''Antal V'' @ ae_small # ''relser''"
abbreviation col_vaerelser :: string where "col_vaerelser \<equiv> ''V'' @ ae_small # ''relser''"
abbreviation col_opfoerelsesaar :: string where
  "col_opfoerelsesaar \<equiv> ''Opf'' @ oe_small # ''relses'' @ aa_small # ''r''"
abbreviation col_byggeaar :: string where "col_byggeaar \<equiv> ''Bygge'' @ aa_small # ''r''"
abbreviation col_leje_maaned :: string where "col_leje_maaned \<equiv> ''Leje/m'' @ aa_small # ''ned''"

text \<open>\<open>df[name]\<close>: the column's cells in row order, \<open>KeyError\<close> when the header lacks the name.\<close>

definition get_column :: "dataframe \<Rightarrow> string \<Rightarrow> error + cell list" where
  "get_column df name =
     (if name \<in> set (columns df) then Inr (map (\<lambda>r. r name) (rows df)) else Inl (KeyError name))"

text \<open>
  \<open>df[name] = values\<close>: a new name is appended to the header, an old one keeps its place;
  the values are aligned on the row index, and a row without a value gets a missing cell.
\<close>

definition set_column :: "dataframe \<Rightarrow> string \<Rightarrow> cell list \<Rightarrow> dataframe" where
  "set_column df name vals =
     \<lparr>columns = (if name \<in> set (columns df) then columns df else columns df @ [name]),
      rows = map (\<lambda>(i, r). r(name := (if i < length vals then vals ! i else Missing)))
                 (enumerate 0 (rows df))\<rparr>"

text \<open>\<open>df[new] = df[old]\<close>.\<close>

definition copy_column :: "dataframe \<Rightarrow> string \<Rightarrow> string \<Rightarrow> error + dataframe" where
  "copy_column df new old = bind_err (get_column df old) (\<lambda>vals. Inr (set_column df new vals))"

text \<open>\<open>df[name] = value\<close> for one value in every row.\<close>

definition set_scalar :: "dataframe \<Rightarrow> string \<Rightarrow> cell \<Rightarrow> dataframe" where
  "set_scalar df name c = set_column df name (replicate (length (rows df)) c)"

text \<open>\<open>df[names]\<close>: the table restricted to the listed columns.\<close>

definition select_columns :: "dataframe \<Rightarrow> string list \<Rightarrow> dataframe" where
  "select_columns df names = \<lparr>columns = names, rows = rows df\<rparr>"

text \<open>
  \<open>df.dropna(subset=names)\<close>: the rows whose cells under all the listed names are present, in
  their order; \<open>KeyError\<close> when a listed name is no column.
\<close>

definition dropna :: "dataframe \<Rightarrow> string list \<Rightarrow> error + dataframe" where
  "dropna df names =
     (case filter (\<lambda>n. n \<notin> set (columns df)) names of
        [] \<Rightarrow> Inr (df\<lparr>rows := filter (\<lambda>r. list_all (\<lambda>n. pd_notna (r n)) names) (rows df)\<rparr>)
      | n # ns \<Rightarrow> Inl (KeyError n))"

text \<open>\<open>row[name]\<close> inside \<open>iterrows\<close>.\<close>

definition row_get :: "dataframe \<Rightarrow> (string \<Rightarrow> cell) \<Rightarrow> string \<Rightarrow> error + cell" where
  "row_get df row name = (if name \<in> set (columns df) then Inr (row name) else Inl (KeyError name))"

text \<open>\<open>x / n\<close> on a cell: NaN stays NaN, a text raises \<open>TypeError\<close>.\<close>

definition cell_div :: "real \<Rightarrow> cell \<Rightarrow> error + cell" where
  "cell_div n c = (case c of Num a \<Rightarrow> Inr (Num (a / n)) | Missing \<Rightarrow> Inr Missing | Str s \<Rightarrow> Inl TypeError)"

text \<open>\<open>series.fillna(other)\<close>: a missing cell takes the cell of \<open>other\<close> in the same row.\<close>

definition fillna :: "cell list \<Rightarrow> cell list \<Rightarrow> cell list" where
  "fillna vals other =
     map (\<lambda>(i, v). if pd_isna v then (if i < length other then other ! i else Missing) else v)
         (enumerate 0 vals)"

subsection \<open>Series statistics\<close>

fun is_text :: "cell \<Rightarrow> bool" where
  "is_text (Str s) = True"
| "is_text _ = False"

fun is_number :: "cell \<Rightarrow> bool" where
  "is_number (Num x) = True"
| "is_number _ = False"

fun numbers :: "cell list \<Rightarrow> real list" where
  "numbers [] = []"
| "numbers (Num x # cs) = x # numbers cs"
| "numbers (_ # cs) = numbers cs"

text \<open>
  \<open>series.median()\<close> skips missing cells and gives NaN on no value at all; a text among the
  cells raises \<open>TypeError\<close>.
\<close>

definition series_median :: "cell list \<Rightarrow> error + cell" where
  "series_median cs =
     (if list_ex is_text cs then Inl TypeError
      else (let xs = sort (numbers cs); n = length xs
            in if n = 0 then Inr Missing
               else if odd n then Inr (Num (xs ! (n div 2)))
               else Inr (Num ((xs ! (n div 2 - 1) + xs ! (n div 2)) / 2))))"

text \<open>
  The distinct present values of a series with their counts, in order of first appearance: the
  table \<open>series.value_counts()\<close> builds before it sorts by count.
\<close>

fun first_seen :: "'a list \<Rightarrow> 'a list" where
  "first_seen [] = []"
| "first_seen (x # xs) = x # filter (\<lambda>y. y \<noteq> x) (first_seen xs)"

definition count_entries :: "cell list \<Rightarrow> (cell \<times> nat) list" where
  "count_entries cs =
     (let vs = filter pd_notna cs
      in map (\<lambda>k. (k, count_list vs k)) (first_seen vs))"

text \<open>
  \<open>counts.sort_index()\<close>: ascending by value, numbers by size and texts by code points;
  numbers mixed with texts cannot be compared and raise \<open>TypeError\<close>.
\<close>

fun number_of :: "cell \<Rightarrow> real" where
  "number_of (Num x) = x"
| "number_of _ = 0"

fun text_of :: "cell \<Rightarrow> string" where
  "text_of (Str s) = s"
| "text_of _ = []"

definition sort_index :: "(cell \<times> nat) list \<Rightarrow> error + (cell \<times> nat) list" where
  "sort_index kvs =
     (if list_all (\<lambda>(k, n). is_number k) kvs then Inr (sort_key (\<lambda>(k, n). number_of k) kvs)
      else if list_all (\<lambda>(k, n). is_text k) kvs then Inr (sort_key (\<lambda>(k, n). text_of k) kvs)
      else Inl TypeError)"

section \<open>Library calls\<close>

text \<open>
  What the pipelines call outside their own decision logic is a parameter of the model: the
  three chart functions (matplotlib rendering; each reads the table it is given and leaves it
  unchanged, and may raise), Python's \<open>int\<close> and \<open>float\<close> on a text, \<open>str\<close> on a cell that
  is no text, the left join \<open>df.merge(other, on=key, how='left')\<close>, and the date formatting
  \<open>pd.to_datetime(series).dt.strftime('%Y-%m-%d')\<close>.

  Two more parameters are the parts of \<open>series.mean()\<close> and \<open>series.value_counts()\<close> that
  the source leaves to the library. \<open>float_mean\<close> is the mean of the present numbers of a
  series, given in row order: the library adds them in binary floating point, rounding after
  each addition, so its result can depend on their order. \<open>tie_rank\<close> is the place the library
  gives a value among the values of a series that occur equally often (a smaller rank comes
  first; values of equal rank stay in order of first appearance): which order that is depends
  on the sort the library uses.
\<close>

record 'img library =
  create_scatter_plot :: "dataframe \<Rightarrow> string \<Rightarrow> error + 'img"
  create_heatmap :: "dataframe \<Rightarrow> string \<Rightarrow> error + 'img"
  create_summary_table :: "dataframe \<Rightarrow> string \<Rightarrow> error + 'img"
  int_of_text :: "string \<Rightarrow> error + int"
  float_of_text :: "string \<Rightarrow> error + real"
  str_of_other :: "cell \<Rightarrow> string"
  merge_left :: "dataframe \<Rightarrow> dataframe \<Rightarrow> string \<Rightarrow> error + dataframe"
  to_date_strings :: "cell list \<Rightarrow> error + cell list"
  float_mean :: "real list \<Rightarrow> real"
  tie_rank :: "cell list \<Rightarrow> cell \<Rightarrow> int"

text \<open>
  \<open>series.mean()\<close> skips missing cells and gives NaN on no value at all; a text among the
  cells raises \<open>TypeError\<close>.
\<close>

definition series_mean :: "'img library \<Rightarrow> cell list \<Rightarrow> error + cell" where
  "series_mean L cs =
     (if list_ex is_text cs then Inl TypeError
      else (let xs = numbers cs
            in if xs = [] then Inr Missing else Inr (Num (float_mean L xs))))"

text \<open>
  \<open>series.value_counts()\<close>: the distinct present values with their counts, most frequent
  first; values with equal counts are in the order the library gives them.
\<close>

definition value_counts :: "'img library \<Rightarrow> cell list \<Rightarrow> (cell \<times> nat) list" where
  "value_counts L cs =
     sort_key (\<lambda>(k, n). - int n) (sort_key (\<lambda>(k, n). tie_rank L cs k) (count_entries cs))"

text \<open>
  \<open>int(x)\<close>, \<open>float(x)\<close> and \<open>str(x)\<close> on a cell. \<open>int\<close> of NaN raises \<open>ValueError\<close>;
  \<open>float\<close> of NaN is NaN.
\<close>

definition py_int_cell :: "'img library \<Rightarrow> cell \<Rightarrow> error + int" where
  "py_int_cell L c =
     (case c of Num x \<Rightarrow> Inr (py_int x) | Missing \<Rightarrow> Inl ValueError | Str s \<Rightarrow> int_of_text L s)"

definition py_float_cell :: "'img library \<Rightarrow> cell \<Rightarrow> error + cell" where
  "py_float_cell L c =
     (case c of
        Num x \<Rightarrow> Inr (Num x)
      | Missing \<Rightarrow> Inr Missing
      | Str s \<Rightarrow> bind_err (float_of_text L s) (\<lambda>x. Inr (Num x)))"

definition py_str_cell :: "'img library \<Rightarrow> cell \<Rightarrow> string" where
  "py_str_cell L c = (case c of Str s \<Rightarrow> s | _ \<Rightarrow> str_of_other L c)"

text \<open>
  A workbook: its sheets in order, each with its name. \<open>read_excel(path, sheet_name=0)\<close> and
  \<open>read_excel(path)\<close> read the first sheet, \<open>read_excel(path, sheet_name=n)\<close> the sheet named
  \<open>n\<close>; a sheet that is not there is an exception of the library.
\<close>

type_synonym workbook = "(string \<times> dataframe) list"

definition first_sheet :: "workbook \<Rightarrow> error + dataframe" where
  "first_sheet wb = (case wb of [] \<Rightarrow> Inl (LibraryError ''read_excel'') | (n, df) # _ \<Rightarrow> Inr df)"

definition named_sheet :: "workbook \<Rightarrow> string \<Rightarrow> error + dataframe" where
  "named_sheet wb name =
     (case map_of wb name of None \<Rightarrow> Inl (LibraryError ''read_excel'') | Some df \<Rightarrow> Inr df)"

section \<open>Rental pipeline\<close>

text \<open>
  One listing of the rental output (the dictionary \<open>bolig\<close>; its key \<open>by\<close> is the field
  \<open>by_navn\<close>). \<open>lat\<close> and \<open>lng\<close> are floats, so they are cells: NaN is a float.
\<close>

record leje_bolig =
  adresse :: string
  by_navn :: string
  lat :: cell
  lng :: cell
  areal :: int
  leje_m2 :: int
  leje_maned :: int
  liggedage :: int
  varelser :: int
  opfoerelsesaar :: "int option"
  boligtype :: string

text \<open>
  The dictionary \<open>process_leje_data\<close> returns. An entry of \<open>vaerelser_data\<close> is the pair of
  its \<open>varelser\<close> and \<open>antal\<close>, an entry of \<open>by_data\<close> the pair of its \<open>by\<close> and \<open>antal\<close>.
\<close>

record 'img leje_result =
  total_boliger :: nat
  gns_leje_m2 :: int
  gns_areal :: int
  gns_leje :: int
  median_leje :: int
  center_lat :: cell
  center_lng :: cell
  vaerelser_data :: "(int \<times> int) list"
  by_data :: "(string \<times> int) list"
  boliger :: "leje_bolig list"
  scatter_img :: 'img
  heatmap_img :: 'img
  table_img :: 'img

text \<open>The sheet \<open>Worksheet\<close>, and the first sheet when reading it raises.\<close>

definition read_leje_sheet :: "workbook \<Rightarrow> error + dataframe" where
  "read_leje_sheet excel =
     (case named_sheet excel ''Worksheet'' of Inr df \<Rightarrow> Inr df | Inl e \<Rightarrow> first_sheet excel)"

text \<open>
  \<open>process_leje_data\<close> from the column lookup to the derived monthly rent: the table as it
  stands when the charts are drawn. The two loops over optional names are the loop of
  \<open>find_column\<close> without its failure.
\<close>

definition leje_standardize :: "dataframe \<Rightarrow> error + dataframe" where
  "leje_standardize df =
     bind_err (snd (find_column df [''Adresse'', ''Address''])) (\<lambda>address_col.
     bind_err (snd (find_column df [''By'', ''City'', ''Postnr.''])) (\<lambda>city_col.
     bind_err (snd (find_column df [''Lat'', ''Latitude''])) (\<lambda>lat_col.
     bind_err (snd (find_column df [''Lng'', ''Lon'', ''Longitude''])) (\<lambda>lng_col.
     bind_err (snd (find_column df [''Areal'', ''Area''])) (\<lambda>area_col.
     bind_err (snd (find_column df [''Leje/m2'', ''Leje pr. m2''])) (\<lambda>price_m2_col.
     bind_err (snd (find_column df [col_aarsleje, ''Arsleje'', ''Yearly rent''])) (\<lambda>yearly_rent_col.
     bind_err (snd (find_column df [''Liggedage'', ''Days on market''])) (\<lambda>days_col.
     bind_err (snd (find_column df [col_antal_vaerelser, col_Antal_Vaerelser, col_vaerelser, ''Rooms''])) (\<lambda>rooms_col.
     let year_col = find_column_loop (columns df)
                      [col_opfoerelsesaar, ''Opfoerelsesaar'', col_byggeaar, ''Year built''];
         type_col = find_column_loop (columns df) [''Boligtype'', ''Type'', ''Property type'']
     in
     bind_err (copy_column df ''Adresse'' address_col) (\<lambda>df.
     bind_err (copy_column df ''By'' city_col) (\<lambda>df.
     bind_err (copy_column df ''Lat'' lat_col) (\<lambda>df.
     bind_err (copy_column df ''Lng'' lng_col) (\<lambda>df.
     bind_err (copy_column df ''Areal'' area_col) (\<lambda>df.
     bind_err (copy_column df ''Leje/m2'' price_m2_col) (\<lambda>df.
     bind_err (copy_column df col_aarsleje yearly_rent_col) (\<lambda>df.
     bind_err (copy_column df ''Liggedage'' days_col) (\<lambda>df.
     bind_err (copy_column df col_antal_vaerelser rooms_col) (\<lambda>df.
     bind_err (case year_col of
                 Some c \<Rightarrow> copy_column df col_opfoerelsesaar c
               | None \<Rightarrow> Inr (set_scalar df col_opfoerelsesaar Missing)) (\<lambda>df.
     bind_err (case type_col of
                 Some c \<Rightarrow> copy_column df ''Boligtype'' c
               | None \<Rightarrow> Inr (set_scalar df ''Boligtype'' (Str ''Ikke angivet''))) (\<lambda>df.
     if col_leje_maaned \<notin> set (columns df)
     then bind_err (get_column df col_aarsleje) (\<lambda>yearly.
          bind_err (map_err (cell_div 12) yearly) (\<lambda>monthly.
          Inr (set_column df col_leje_maaned monthly)))
     else Inr df))))))))))))))))))))"

definition leje_required :: "string list" where
  "leje_required =
     [''Adresse'', ''By'', ''Lat'', ''Lng'', ''Areal'', ''Leje/m2'', col_aarsleje, ''Liggedage'',
      col_antal_vaerelser]"

text \<open>One round of the loop over \<open>df.iterrows()\<close>: the dictionary entries in their order.\<close>

definition leje_bolig_of_row :: "'img library \<Rightarrow> dataframe \<Rightarrow> (string \<Rightarrow> cell) \<Rightarrow> error + leje_bolig" where
  "leje_bolig_of_row L df row =
     bind_err (row_get df row ''Adresse'') (\<lambda>c_adresse.
     bind_err (row_get df row ''By'') (\<lambda>c_by.
     bind_err (row_get df row ''Lat'') (\<lambda>c_lat.
     bind_err (py_float_cell L c_lat) (\<lambda>v_lat.
     bind_err (row_get df row ''Lng'') (\<lambda>c_lng.
     bind_err (py_float_cell L c_lng) (\<lambda>v_lng.
     bind_err (row_get df row ''Areal'') (\<lambda>c_areal.
     bind_err (py_int_cell L c_areal) (\<lambda>v_areal.
     bind_err (row_get df row ''Leje/m2'') (\<lambda>c_leje_m2.
     bind_err (py_int_cell L c_leje_m2) (\<lambda>v_leje_m2.
     bind_err (row_get df row col_aarsleje) (\<lambda>c_aarsleje.
     bind_err (cell_div 12 c_aarsleje) (\<lambda>c_maned.
     bind_err (py_int_cell L c_maned) (\<lambda>v_leje_maned.
     bind_err (row_get df row ''Liggedage'') (\<lambda>c_liggedage.
     bind_err (py_int_cell L c_liggedage) (\<lambda>v_liggedage.
     bind_err (row_get df row col_antal_vaerelser) (\<lambda>c_varelser.
     bind_err (py_int_cell L c_varelser) (\<lambda>v_varelser.
     bind_err (row_get df row col_opfoerelsesaar) (\<lambda>c_aar.
     bind_err (if pd_notna c_aar then bind_err (py_int_cell L c_aar) (\<lambda>y. Inr (Some y))
               else Inr None) (\<lambda>v_aar.
     bind_err (row_get df row ''Boligtype'') (\<lambda>c_type.
     Inr \<lparr>adresse = py_str_cell L c_adresse,
          by_navn = py_str_cell L c_by,
          lat = v_lat,
          lng = v_lng,
          areal = v_areal,
          leje_m2 = v_leje_m2,
          leje_maned = v_leje_maned,
          liggedage = v_liggedage,
          varelser = v_varelser,
          opfoerelsesaar = v_aar,
          boligtype = (if pd_notna c_type then py_str_cell L c_type else ''Ikke angivet'')\<rparr>
     ))))))))))))))))))))"

text \<open>The statistics over the cleaned table, and the returned dictionary.\<close>

definition leje_statistics ::
  "'img library \<Rightarrow> dataframe \<Rightarrow> leje_bolig list \<Rightarrow> 'img \<Rightarrow> 'img \<Rightarrow> 'img \<Rightarrow> error + 'img leje_result" where
  "leje_statistics L df boliger_list scatter heatmap table =
     bind_err (get_column df ''Leje/m2'') (\<lambda>s_leje_m2.
     bind_err (series_mean L s_leje_m2) (\<lambda>m_leje_m2.
     bind_err (py_int_cell L m_leje_m2) (\<lambda>v_gns_leje_m2.
     bind_err (get_column df ''Areal'') (\<lambda>s_areal.
     bind_err (series_mean L s_areal) (\<lambda>m_areal.
     bind_err (py_int_cell L m_areal) (\<lambda>v_gns_areal.
     bind_err (get_column df col_aarsleje) (\<lambda>s_aarsleje.
     bind_err (map_err (cell_div 12) s_aarsleje) (\<lambda>s_maned.
     bind_err (series_mean L s_maned) (\<lambda>m_leje.
     bind_err (py_int_cell L m_leje) (\<lambda>v_gns_leje.
     bind_err (get_column df col_aarsleje) (\<lambda>s_aarsleje2.
     bind_err (map_err (cell_div 12) s_aarsleje2) (\<lambda>s_maned2.
     bind_err (series_median s_maned2) (\<lambda>md_leje.
     bind_err (py_int_cell L md_leje) (\<lambda>v_median_leje.
     bind_err (get_column df ''Lat'') (\<lambda>s_lat.
     bind_err (series_mean L s_lat) (\<lambda>v_center_lat.
     bind_err (get_column df ''Lng'') (\<lambda>s_lng.
     bind_err (series_mean L s_lng) (\<lambda>v_center_lng.
     bind_err (get_column df col_antal_vaerelser) (\<lambda>s_varelser.
     bind_err (sort_index (value_counts L s_varelser)) (\<lambda>vaerelser_counts.
     bind_err (map_err (\<lambda>(k, v). bind_err (py_int_cell L k) (\<lambda>k'. Inr (k', int v)))
                       vaerelser_counts) (\<lambda>v_vaerelser_data.
     bind_err (get_column df ''By'') (\<lambda>s_by.
     Inr \<lparr>total_boliger = length boliger_list,
          gns_leje_m2 = v_gns_leje_m2,
          gns_areal = v_gns_areal,
          gns_leje = v_gns_leje,
          median_leje = v_median_leje,
          center_lat = v_center_lat,
          center_lng = v_center_lng,
          vaerelser_data = v_vaerelser_data,
          by_data = map (\<lambda>(k, v). (py_str_cell L k, int v)) (value_counts L s_by),
          boliger = boliger_list,
          scatter_img = scatter,
          heatmap_img = heatmap,
          table_img = table\<rparr>
     ))))))))))))))))))))))"

text \<open>The part of \<open>process_leje_data\<close> after the cleaning: the listings, then the statistics.\<close>

definition leje_output ::
  "'img library \<Rightarrow> dataframe \<Rightarrow> 'img \<Rightarrow> 'img \<Rightarrow> 'img \<Rightarrow> error + 'img leje_result" where
  "leje_output L df scatter heatmap table =
     bind_err (map_err (leje_bolig_of_row L df) (rows df)) (\<lambda>boliger_list.
     leje_statistics L df boliger_list scatter heatmap table)"

definition process_leje_data :: "'img library \<Rightarrow> workbook \<Rightarrow> error + 'img leje_result" where
  "process_leje_data L excel =
     bind_err (read_leje_sheet excel) (\<lambda>df.
     bind_err (leje_standardize df) (\<lambda>df.
     bind_err (create_scatter_plot L df ''leje'') (\<lambda>scatter.
     bind_err (create_heatmap L df ''leje'') (\<lambda>heatmap.
     bind_err (create_summary_table L df ''leje'') (\<lambda>table.
     bind_err (dropna df leje_required) (\<lambda>df.
     leje_output L df scatter heatmap table))))))"

section \<open>Ownership pipeline\<close>

text \<open>One listing of the ownership output; its keys carry the prefix \<open>ejer\<close> where needed.\<close>

record ejer_bolig =
  handelsnavn :: string
  ejer_by :: string
  ejer_lat :: cell
  ejer_lng :: cell
  ejer_areal :: int
  pris :: int
  pris_m2 :: int
  ejer_varelser :: int
  handelsdato :: string
  anvendelse :: string
  ejer_opfoerelsesaar :: "int option"

record 'img ejer_result =
  ejer_total_boliger :: nat
  gns_pris_m2 :: int
  ejer_gns_areal :: int
  gns_pris :: int
  median_pris :: int
  ejer_center_lat :: cell
  ejer_center_lng :: cell
  ejer_vaerelser_data :: "(int \<times> int) list"
  ejer_by_data :: "(string \<times> int) list"
  ejer_boliger :: "ejer_bolig list"
  ejer_scatter_img :: 'img
  ejer_heatmap_img :: 'img
  ejer_table_img :: 'img

text \<open>
  The merge with the sheet \<open>Enheder\<close>, when the workbook has one: room count and coordinates
  by \<open>Handels-ID\<close>.
\<close>

definition merge_enheder :: "'img library \<Rightarrow> workbook \<Rightarrow> dataframe \<Rightarrow> error + dataframe" where
  "merge_enheder L excel df =
     (if ''Enheder'' \<in> set (map fst excel)
      then bind_err (named_sheet excel ''Enheder'') (\<lambda>df_enheder.
           let rooms_col_enheder = find_column_loop (columns df_enheder)
                                     [col_antal_vaerelser, col_Antal_Vaerelser, col_vaerelser];
               lat_col_enheder = find_column_loop (columns df_enheder) [''Latitude'', ''Lat'', ''latitude''];
               lng_col_enheder = find_column_loop (columns df_enheder)
                                   [''Longitude'', ''Lng'', ''Lon'', ''longitude'']
           in if ''Handels-ID'' \<in> set (columns df_enheder) \<and> ''Handels-ID'' \<in> set (columns df)
              then (let merge_cols = [''Handels-ID''] @ (case rooms_col_enheder of Some c \<Rightarrow> [c] | None \<Rightarrow> [])
                                       @ (case lat_col_enheder of Some c \<Rightarrow> [c] | None \<Rightarrow> [])
                                       @ (case lng_col_enheder of Some c \<Rightarrow> [c] | None \<Rightarrow> [])
                    in bind_err (merge_left L df (select_columns df_enheder merge_cols) ''Handels-ID'') (\<lambda>df.
                       bind_err (case rooms_col_enheder of
                                   Some c \<Rightarrow> (if c \<noteq> col_Antal_Vaerelser then copy_column df col_Antal_Vaerelser c
                                              else Inr df)
                                 | None \<Rightarrow> Inr df) (\<lambda>df.
                       bind_err (case lat_col_enheder of Some c \<Rightarrow> copy_column df ''lat'' c | None \<Rightarrow> Inr df) (\<lambda>df.
                       bind_err (case lng_col_enheder of Some c \<Rightarrow> copy_column df ''lng'' c | None \<Rightarrow> Inr df) (\<lambda>df.
                       Inr df)))))
              else Inr df)
      else Inr df)"

text \<open>
  The room count when the table has no column \<open>Antal Vaerelser\<close> (capital V) yet: the first synonym that
  is a column, and else the estimate from the area.
\<close>

definition ejer_rooms :: "dataframe \<Rightarrow> string \<Rightarrow> error + dataframe" where
  "ejer_rooms df area_col =
     (if col_Antal_Vaerelser \<notin> set (columns df)
      then (case find_column_loop (columns df) [col_antal_vaerelser, col_vaerelser, ''Rooms'', ''Antal rum''] of
              Some room_col \<Rightarrow> copy_column df col_Antal_Vaerelser room_col
            | None \<Rightarrow>
                bind_err (get_column df area_col) (\<lambda>areas.
                bind_err (map_err estimate_rooms areas) (\<lambda>estimates.
                Inr (set_column df col_Antal_Vaerelser (map (\<lambda>n. Num (of_int n)) estimates)))))
      else Inr df)"

text \<open>
  Geocoding, unless the table has both coordinate columns and no missing latitude: every
  trade name is geocoded, and the coordinates fill the absent columns and the missing cells.
\<close>

definition ejer_geocode :: "dataframe \<Rightarrow> string \<Rightarrow> error + dataframe" where
  "ejer_geocode df name_col =
     (if ''lat'' \<notin> set (columns df) \<or> ''lng'' \<notin> set (columns df)
         \<or> list_ex pd_isna (map (\<lambda>r. r ''lat'') (rows df))
      then bind_err (get_column df name_col) (\<lambda>names.
           bind_err (map_err geocode_address names) (\<lambda>coords.
           let lats = map (\<lambda>x. Num (fst x)) coords;
               lngs = map (\<lambda>x. Num (snd x)) coords;
               df = (if ''lat'' \<notin> set (columns df) then set_column df ''lat'' lats else df);
               df = (if ''lng'' \<notin> set (columns df) then set_column df ''lng'' lngs else df)
           in bind_err (get_column df ''lat'') (\<lambda>old_lat.
              let df = set_column df ''lat'' (fillna old_lat lats)
              in bind_err (get_column df ''lng'') (\<lambda>old_lng.
                 Inr (set_column df ''lng'' (fillna old_lng lngs))))))
      else Inr df)"

definition ejer_anvendelse :: "dataframe \<Rightarrow> error + dataframe" where
  "ejer_anvendelse df =
     (if ''Anvendelse'' \<notin> set (columns df)
      then (case find_column_loop (columns df)
                   [''Anvendelse'', ''Ejendomstype'', ''Type'', ''Enhedens anvendelse''] of
              Some c \<Rightarrow> copy_column df ''Anvendelse'' c
            | None \<Rightarrow> Inr (set_scalar df ''Anvendelse'' (Str ''Ikke angivet'')))
      else Inr df)"

text \<open>The construction year from the sheet \<open>Ejendomme\<close>, when the workbook has one.\<close>

definition merge_ejendomme :: "'img library \<Rightarrow> workbook \<Rightarrow> dataframe \<Rightarrow> error + dataframe" where
  "merge_ejendomme L excel df =
     (if ''Ejendomme'' \<in> set (map fst excel)
      then bind_err (named_sheet excel ''Ejendomme'') (\<lambda>df_ejendomme.
           case find_column_loop (columns df_ejendomme) [col_opfoerelsesaar, ''Opfoerelsesaar'', col_byggeaar] of
             Some year_col_ejend \<Rightarrow>
               (if ''Handels-ID'' \<in> set (columns df_ejendomme)
                then bind_err (merge_left L df (select_columns df_ejendomme [''Handels-ID'', year_col_ejend])
                                 ''Handels-ID'') (\<lambda>df.
                     copy_column df col_opfoerelsesaar year_col_ejend)
                else Inr (set_scalar df col_opfoerelsesaar Missing))
           | None \<Rightarrow> Inr (set_scalar df col_opfoerelsesaar Missing))
      else Inr (set_scalar df col_opfoerelsesaar Missing))"

text \<open>
  \<open>process_ejer_data\<close> from the first sheet to the standardized column names: the table as it
  stands when the charts are drawn.
\<close>

definition ejer_standardize :: "'img library \<Rightarrow> workbook \<Rightarrow> error + dataframe" where
  "ejer_standardize L excel =
     bind_err (first_sheet excel) (\<lambda>df.
     bind_err (merge_enheder L excel df) (\<lambda>df.
     bind_err (snd (find_column df [''Pris'', ''Price'', ''Salgspris''])) (\<lambda>price_col.
     bind_err (snd (find_column df [''Enhedsareal'', ''Areal'', ''Area''])) (\<lambda>area_col.
     bind_err (snd (find_column df [''Pris pr. m2 (enhedsareal)'', ''Pris pr. m2'', ''Pris/m2''])) (\<lambda>price_m2_col.
     bind_err (snd (find_column df [''Handelsnavn'', ''Adresse'', ''Address''])) (\<lambda>name_col.
     bind_err (snd (find_column df [''Handelsdato'', ''Dato'', ''Date''])) (\<lambda>date_col.
     bind_err (ejer_rooms df area_col) (\<lambda>df.
     bind_err (ejer_geocode df name_col) (\<lambda>df.
     bind_err (get_column df name_col) (\<lambda>names.
     bind_err (map_err parse_city_from_handelsnavn names) (\<lambda>cities.
     let df = set_column df ''By'' (map Str cities)
     in
     bind_err (get_column df date_col) (\<lambda>dates.
     bind_err (to_date_strings L dates) (\<lambda>date_strs.
     let df = set_column df ''Handelsdato_str'' date_strs
     in
     bind_err (ejer_anvendelse df) (\<lambda>df.
     bind_err (merge_ejendomme L excel df) (\<lambda>df.
     bind_err (copy_column df ''Pris'' price_col) (\<lambda>df.
     bind_err (copy_column df ''Enhedsareal'' area_col) (\<lambda>df.
     bind_err (copy_column df ''Pris pr. m2 (enhedsareal)'' price_m2_col) (\<lambda>df.
     bind_err (copy_column df ''Handelsnavn'' name_col) (\<lambda>df.
     copy_column df ''Handelsdato'' date_col)))))))))))))))))))"

definition ejer_required :: "string list" where
  "ejer_required =
     [''Handelsnavn'', ''By'', ''lat'', ''lng'', ''Enhedsareal'', ''Pris'', ''Pris pr. m2 (enhedsareal)'',
      col_Antal_Vaerelser]"

definition ejer_bolig_of_row :: "'img library \<Rightarrow> dataframe \<Rightarrow> (string \<Rightarrow> cell) \<Rightarrow> error + ejer_bolig" where
  "ejer_bolig_of_row L df row =
     bind_err (row_get df row ''Handelsnavn'') (\<lambda>c_navn.
     bind_err (row_get df row ''By'') (\<lambda>c_by.
     bind_err (row_get df row ''lat'') (\<lambda>c_lat.
     bind_err (py_float_cell L c_lat) (\<lambda>v_lat.
     bind_err (row_get df row ''lng'') (\<lambda>c_lng.
     bind_err (py_float_cell L c_lng) (\<lambda>v_lng.
     bind_err (row_get df row ''Enhedsareal'') (\<lambda>c_areal.
     bind_err (py_int_cell L c_areal) (\<lambda>v_areal.
     bind_err (row_get df row ''Pris'') (\<lambda>c_pris.
     bind_err (py_int_cell L c_pris) (\<lambda>v_pris.
     bind_err (row_get df row ''Pris pr. m2 (enhedsareal)'') (\<lambda>c_pris_m2.
     bind_err (py_int_cell L c_pris_m2) (\<lambda>v_pris_m2.
     bind_err (row_get df row col_Antal_Vaerelser) (\<lambda>c_varelser.
     bind_err (py_int_cell L c_varelser) (\<lambda>v_varelser.
     bind_err (row_get df row ''Handelsdato_str'') (\<lambda>c_dato.
     bind_err (row_get df row ''Anvendelse'') (\<lambda>c_anv.
     bind_err (row_get df row col_opfoerelsesaar) (\<lambda>c_aar.
     bind_err (if pd_notna c_aar then bind_err (py_int_cell L c_aar) (\<lambda>y. Inr (Some y))
               else Inr None) (\<lambda>v_aar.
     Inr \<lparr>handelsnavn = py_str_cell L c_navn,
          ejer_by = py_str_cell L c_by,
          ejer_lat = v_lat,
          ejer_lng = v_lng,
          ejer_areal = v_areal,
          pris = v_pris,
          pris_m2 = v_pris_m2,
          ejer_varelser = v_varelser,
          handelsdato = py_str_cell L c_dato,
          anvendelse = (if pd_notna c_anv then py_str_cell L c_anv else ''Ikke angivet''),
          ejer_opfoerelsesaar = v_aar\<rparr>
     ))))))))))))))))))"

definition ejer_statistics ::
  "'img library \<Rightarrow> dataframe \<Rightarrow> ejer_bolig list \<Rightarrow> 'img \<Rightarrow> 'img \<Rightarrow> 'img \<Rightarrow> error + 'img ejer_result" where
  "ejer_statistics L df boliger_list scatter heatmap table =
     bind_err (get_column df ''Pris pr. m2 (enhedsareal)'') (\<lambda>s_pris_m2.
     bind_err (series_mean L s_pris_m2) (\<lambda>m_pris_m2.
     bind_err (py_int_cell L m_pris_m2) (\<lambda>v_gns_pris_m2.
     bind_err (get_column df ''Enhedsareal'') (\<lambda>s_areal.
     bind_err (series_mean L s_areal) (\<lambda>m_areal.
     bind_err (py_int_cell L m_areal) (\<lambda>v_gns_areal.
     bind_err (get_column df ''Pris'') (\<lambda>s_pris.
     bind_err (series_mean L s_pris) (\<lambda>m_pris.
     bind_err (py_int_cell L m_pris) (\<lambda>v_gns_pris.
     bind_err (get_column df ''Pris'') (\<lambda>s_pris2.
     bind_err (series_median s_pris2) (\<lambda>md_pris.
     bind_err (py_int_cell L md_pris) (\<lambda>v_median_pris.
     bind_err (get_column df ''lat'') (\<lambda>s_lat.
     bind_err (series_mean L s_lat) (\<lambda>v_center_lat.
     bind_err (get_column df ''lng'') (\<lambda>s_lng.
     bind_err (series_mean L s_lng) (\<lambda>v_center_lng.
     bind_err (get_column df col_Antal_Vaerelser) (\<lambda>s_varelser.
     bind_err (sort_index (value_counts L s_varelser)) (\<lambda>vaerelser_counts.
     bind_err (map_err (\<lambda>(k, v). bind_err (py_int_cell L k) (\<lambda>k'. Inr (k', int v)))
                       vaerelser_counts) (\<lambda>v_vaerelser_data.
     bind_err (get_column df ''By'') (\<lambda>s_by.
     Inr \<lparr>ejer_total_boliger = length boliger_list,
          gns_pris_m2 = v_gns_pris_m2,
          ejer_gns_areal = v_gns_areal,
          gns_pris = v_gns_pris,
          median_pris = v_median_pris,
          ejer_center_lat = v_center_lat,
          ejer_center_lng = v_center_lng,
          ejer_vaerelser_data = v_vaerelser_data,
          ejer_by_data = map (\<lambda>(k, v). (py_str_cell L k, int v)) (value_counts L s_by),
          ejer_boliger = boliger_list,
          ejer_scatter_img = scatter,
          ejer_heatmap_img = heatmap,
          ejer_table_img = table\<rparr>
     ))))))))))))))))))))"

definition ejer_output ::
  "'img library \<Rightarrow> dataframe \<Rightarrow> 'img \<Rightarrow> 'img \<Rightarrow> 'img \<Rightarrow> error + 'img ejer_result" where
  "ejer_output L df scatter heatmap table =
     bind_err (map_err (ejer_bolig_of_row L df) (rows df)) (\<lambda>boliger_list.
     ejer_statistics L df boliger_list scatter heatmap table)"

definition process_ejer_data :: "'img library \<Rightarrow> workbook \<Rightarrow> error + 'img ejer_result" where
  "process_ejer_data L excel =
     bind_err (ejer_standardize L excel) (\<lambda>df.
     bind_err (create_scatter_plot L df ''ejer'') (\<lambda>scatter.
     bind_err (create_heatmap L df ''ejer'') (\<lambda>heatmap.
     bind_err (create_summary_table L df ''ejer'') (\<lambda>table.
     bind_err (dropna df ejer_required) (\<lambda>df.
     ejer_output L df scatter heatmap table)))))"

section \<open>Example inputs\<close>

text \<open>
  The mean without rounding, for examples whose sums are exact in binary floating point.
\<close>

definition exact_mean :: "real list \<Rightarrow> real" where
  "exact_mean xs = sum_list xs / real (length xs)"

text \<open>
  A library for running the pipelines on examples. Its charts are the number of rows of the
  table they are given, the number the scatter plot prints in its title. No text is a number,
  and no merge is needed: the example workbooks have one sheet. Its mean is the mean without
  rounding, and values that occur equally often stay in order of first appearance.
\<close>

definition row_count_library :: "nat library" where
  "row_count_library =
     \<lparr>create_scatter_plot = (\<lambda>df mode. Inr (length (rows df))),
      create_heatmap = (\<lambda>df mode. Inr (length (rows df))),
      create_summary_table = (\<lambda>df mode. Inr (length (rows df))),
      int_of_text = (\<lambda>s. Inl ValueError),
      float_of_text = (\<lambda>s. Inl ValueError),
      str_of_other = (\<lambda>c. ''nan''),
      merge_left = (\<lambda>df other key. Inl (LibraryError ''merge'')),
      to_date_strings = (\<lambda>dates. Inr dates),
      float_mean = exact_mean,
      tie_rank = (\<lambda>cs k. 0)\<rparr>"

text \<open>The same library, with charts that are the monthly-rent column of the table they are given.\<close>

definition monthly_rent_library :: "cell list library" where
  "monthly_rent_library =
     \<lparr>create_scatter_plot = (\<lambda>df mode. Inr (map (\<lambda>r. r col_leje_maaned) (rows df))),
      create_heatmap = (\<lambda>df mode. Inr (map (\<lambda>r. r col_leje_maaned) (rows df))),
      create_summary_table = (\<lambda>df mode. Inr (map (\<lambda>r. r col_leje_maaned) (rows df))),
      int_of_text = (\<lambda>s. Inl ValueError),
      float_of_text = (\<lambda>s. Inl ValueError),
      str_of_other = (\<lambda>c. ''nan''),
      merge_left = (\<lambda>df other key. Inl (LibraryError ''merge'')),
      to_date_strings = (\<lambda>dates. Inr dates),
      float_mean = exact_mean,
      tie_rank = (\<lambda>cs k. 0)\<rparr>"

definition leje_columns :: "string list" where
  "leje_columns =
     [''Adresse'', ''By'', ''Lat'', ''Lng'', ''Areal'', ''Leje/m2'', col_aarsleje, ''Liggedage'',
      col_antal_vaerelser]"

text \<open>A rental row: address, city, area and yearly rent vary, the other cells are fixed.\<close>

definition leje_row :: "string \<Rightarrow> string \<Rightarrow> cell \<Rightarrow> real \<Rightarrow> string \<Rightarrow> cell" where
  "leje_row adr city area yearly =
     (\<lambda>name. Missing)
       (''Adresse'' := Str adr, ''By'' := Str city, ''Lat'' := Num 55.7, ''Lng'' := Num 12.5,
        ''Areal'' := area, ''Leje/m2'' := Num 1500, col_aarsleje := Num yearly,
        ''Liggedage'' := Num 10, col_antal_vaerelser := Num 3)"

text \<open>Two rental rows; the second has no area.\<close>

definition leje_example :: workbook where
  "leje_example =
     [(''Worksheet'',
       \<lparr>columns = leje_columns,
        rows = [leje_row ''Vej 1'' ''Valby'' (Num 80) 100000,
                leje_row ''Vej 2'' ''Vanl'' Missing 120000]\<rparr>)]"

text \<open>One rental row with a yearly rent of 120000 and an explicit monthly rent of 9999.\<close>

definition leje_explicit_month :: workbook where
  "leje_explicit_month =
     [(''Worksheet'',
       \<lparr>columns = leje_columns @ [col_leje_maaned],
        rows = [(leje_row ''Vej 1'' ''Valby'' (Num 80) 120000)(col_leje_maaned := Num 9999)]\<rparr>)]"

text \<open>A complete rental table with one row in Valby and one in Vanl, and the same rows swapped.\<close>

definition leje_two_cities :: dataframe where
  "leje_two_cities =
     \<lparr>columns = leje_columns @ [col_opfoerelsesaar, ''Boligtype'', col_leje_maaned],
      rows = [leje_row ''Vej 1'' ''Valby'' (Num 80) 100000,
              leje_row ''Vej 2'' ''Vanl'' (Num 60) 120000]\<rparr>"

definition leje_two_cities_swapped :: dataframe where
  "leje_two_cities_swapped =
     \<lparr>columns = leje_columns @ [col_opfoerelsesaar, ''Boligtype'', col_leje_maaned],
      rows = [leje_row ''Vej 2'' ''Vanl'' (Num 60) 120000,
              leje_row ''Vej 1'' ''Valby'' (Num 80) 100000]\<rparr>"

definition ejer_columns :: "string list" where
  "ejer_columns = [''Pris'', ''Enhedsareal'', ''Pris pr. m2'', ''Handelsnavn'', ''Handelsdato'']"

definition ejer_row :: "cell \<Rightarrow> cell \<Rightarrow> string \<Rightarrow> cell" where
  "ejer_row name price =
     (\<lambda>col. Missing)
       (''Pris'' := price, ''Enhedsareal'' := Num 80, ''Pris pr. m2'' := Num 50000,
        ''Handelsnavn'' := name, ''Handelsdato'' := Str ''2024-01-15'')"

text \<open>Two ownership rows; the second has no price.\<close>

definition ejer_example :: workbook where
  "ejer_example =
     [(''Stamdata'',
       \<lparr>columns = ejer_columns,
        rows = [ejer_row (Str ''Venlighedsvej 1, 2970 Horsholm'') (Num 4000000),
                ejer_row (Str ''Alhambravej 15, 1826 Frederiksberg C'') Missing]\<rparr>)]"

text \<open>Two ownership rows; the second has no trade name.\<close>

definition ejer_missing_name :: workbook where
  "ejer_missing_name =
     [(''Stamdata'',
       \<lparr>columns = ejer_columns,
        rows = [ejer_row (Str ''Venlighedsvej 1, 2970 Horsholm'') (Num 4000000),
                ejer_row Missing (Num 3000000)]\<rparr>)]"

text \<open>
  A standardized ownership table with one row in Valby and one in Vanl, and the same rows
  swapped.
\<close>

definition ejer_clean_columns :: "string list" where
  "ejer_clean_columns =
     [''Handelsnavn'', ''By'', ''lat'', ''lng'', ''Enhedsareal'', ''Pris'', ''Pris pr. m2 (enhedsareal)'',
      col_Antal_Vaerelser, ''Handelsdato_str'', ''Anvendelse'', col_opfoerelsesaar]"

definition ejer_clean_row :: "string \<Rightarrow> string \<Rightarrow> real \<Rightarrow> string \<Rightarrow> cell" where
  "ejer_clean_row name city price =
     (\<lambda>col. Missing)
       (''Handelsnavn'' := Str name, ''By'' := Str city, ''lat'' := Num 55.7, ''lng'' := Num 12.5,
        ''Enhedsareal'' := Num 80, ''Pris'' := Num price, ''Pris pr. m2 (enhedsareal)'' := Num 50000,
        col_Antal_Vaerelser := Num 4, ''Handelsdato_str'' := Str ''2024-01-15'',
        ''Anvendelse'' := Str ''Bolig'')"

definition ejer_two_cities :: dataframe where
  "ejer_two_cities =
     \<lparr>columns = ejer_clean_columns,
      rows = [ejer_clean_row ''Vej 1, 2500 Valby'' ''Valby'' 4000000,
              ejer_clean_row ''Vej 2, 2720 Vanl'' ''Vanl'' 3000000]\<rparr>"

definition ejer_two_cities_swapped :: dataframe where
  "ejer_two_cities_swapped =
     \<lparr>columns = ejer_clean_columns,
      rows = [ejer_clean_row ''Vej 2, 2720 Vanl'' ''Vanl'' 3000000,
              ejer_clean_row ''Vej 1, 2500 Valby'' ''Valby'' 4000000]\<rparr>"

text \<open>The same two rows on a sheet that brings its own coordinates.\<close>

definition ejer_missing_name_located :: workbook where
  "ejer_missing_name_located =
     [(''Stamdata'',
       \<lparr>columns = ejer_columns @ [''lat'', ''lng''],
        rows = [(ejer_row (Str ''Venlighedsvej 1, 2970 Horsholm'') (Num 4000000))
                  (''lat'' := Num 55.87, ''lng'' := Num 12.5),
                (ejer_row Missing (Num 3000000))(''lat'' := Num 55.7, ''lng'' := Num 12.4)]\<rparr>)]"

subsection \<open>Binary floating point\<close>

text \<open>
  Rounding of a real number to the nearest IEEE 754 double (53 significant bits, ties to the
  even significand), for numbers in the normal range: no overflow and no subnormal numbers,
  which the areas and prices of the examples are far from. \<open>binary_exponent x\<close> is the
  integer \<open>e\<close> with \<open>2 ^ e \<le> x < 2 ^ (e + 1)\<close> for positive \<open>x\<close>.
\<close>

definition two_power :: "int \<Rightarrow> real" where
  "two_power i = (if 0 \<le> i then 2 ^ nat i else 1 / 2 ^ nat (- i))"

definition binary_exponent :: "real \<Rightarrow> int" where
  "binary_exponent x = (if 1 \<le> x then bitlen \<lfloor>x\<rfloor> - 1 else - bitlen (\<lceil>1 / x\<rceil> - 1))"

definition round_half_even :: "real \<Rightarrow> int" where
  "round_half_even m =
     (let f = \<lfloor>m\<rfloor>; d = m - of_int f
      in if d < 1 / 2 then f else if 1 / 2 < d then f + 1 else if even f then f else f + 1)"

definition round_double :: "real \<Rightarrow> real" where
  "round_double x =
     (if x = 0 then 0
      else (let ulp = two_power (binary_exponent \<bar>x\<bar> - 52)
            in sgn x * of_int (round_half_even (\<bar>x\<bar> / ulp)) * ulp))"

text \<open>
  The mean in double arithmetic: the values are added one after the other, in the order
  given, each sum rounded; the total is divided by the number of values and rounded.
\<close>

definition double_mean :: "real list \<Rightarrow> real" where
  "double_mean xs =
     round_double (foldl (\<lambda>acc x. round_double (acc + round_double x)) 0 xs / real (length xs))"

text \<open>The example library with the mean in double arithmetic.\<close>

definition double_library :: "nat library" where
  "double_library = row_count_library\<lparr>float_mean := double_mean\<rparr>"

text \<open>
  The example library with values that occur equally often in the reverse order of their
  first appearance: the rank of a value is the negated position of its first cell.
\<close>

fun first_position :: "'a list \<Rightarrow> 'a \<Rightarrow> nat" where
  "first_position [] k = 0"
| "first_position (x # xs) k = (if x = k then 0 else Suc (first_position xs k))"

definition reverse_ties_library :: "nat library" where
  "reverse_ties_library = row_count_library\<lparr>tie_rank := (\<lambda>cs k. - int (first_position cs k))\<rparr>"

text \<open>
  Three rental rows with areas 58.8, 69.6 and 21.6, two in Valby and one in Vanl, and the
  same rows in another order. In double arithmetic \<open>(58.8 + 69.6) + 21.6\<close> is the double
  just below 150, and \<open>(21.6 + 69.6) + 58.8\<close> is 150.
\<close>

definition leje_three_areas :: dataframe where
  "leje_three_areas =
     \<lparr>columns = leje_columns @ [col_opfoerelsesaar, ''Boligtype'', col_leje_maaned],
      rows = [leje_row ''Vej 1'' ''Valby'' (Num 58.8) 120000,
              leje_row ''Vej 2'' ''Valby'' (Num 69.6) 120000,
              leje_row ''Vej 3'' ''Vanl'' (Num 21.6) 120000]\<rparr>"

definition leje_three_areas_reordered :: dataframe where
  "leje_three_areas_reordered =
     \<lparr>columns = leje_columns @ [col_opfoerelsesaar, ''Boligtype'', col_leje_maaned],
      rows = [leje_row ''Vej 3'' ''Vanl'' (Num 21.6) 120000,
              leje_row ''Vej 2'' ''Valby'' (Num 69.6) 120000,
              leje_row ''Vej 1'' ''Valby'' (Num 58.8) 120000]\<rparr>"

text \<open>Three ownership rows with the same areas and cities, and the same rows in another order.\<close>

definition ejer_three_areas :: dataframe where
  "ejer_three_areas =
     \<lparr>columns = ejer_clean_columns,
      rows = [(ejer_clean_row ''Vej 1, 2500 Valby'' ''Valby'' 4000000)(''Enhedsareal'' := Num 58.8),
              (ejer_clean_row ''Vej 2, 2500 Valby'' ''Valby'' 4000000)(''Enhedsareal'' := Num 69.6),
              (ejer_clean_row ''Vej 3, 2720 Vanl'' ''Vanl'' 4000000)(''Enhedsareal'' := Num 21.6)]\<rparr>"

definition ejer_three_areas_reordered :: dataframe where
  "ejer_three_areas_reordered =
     \<lparr>columns = ejer_clean_columns,
      rows = [(ejer_clean_row ''Vej 3, 2720 Vanl'' ''Vanl'' 4000000)(''Enhedsareal'' := Num 21.6),
              (ejer_clean_row ''Vej 2, 2500 Valby'' ''Valby'' 4000000)(''Enhedsareal'' := Num 69.6),
              (ejer_clean_row ''Vej 1, 2500 Valby'' ''Valby'' 4000000)(''Enhedsareal'' := Num 58.8)]\<rparr>"

section \<open>Properties of the column resolver\<close>

lemma find_column_loop_first:
  "\<forall>p \<in> set pre. p \<notin> set cols \<Longrightarrow> name \<in> set cols \<Longrightarrow>
   find_column_loop cols (pre @ name # post) = Some name"
  by (induction pre) auto

lemma find_column_loop_none:
  "(find_column_loop cols names = None) = (\<forall>n \<in> set names. n \<notin> set cols)"
  by (induction names) auto

lemma listed_columns_append:
  "listed_columns (xs @ ys) = listed_columns xs @ listed_columns ys"
  by (induction xs rule: listed_columns.induct) auto

lemma listed_columns_map:
  "listed_columns (map (\<lambda>(i, col). PrintColumn i col) ps) = ps"
  by (induction ps) auto

text \<open>
  Claim C3, as amended. When no candidate is a column of the table, \<open>find_column\<close> raises its
  \<open>KeyError\<close>, whose message carries the full candidate list and nothing of the table. The
  table's column names are printed, not carried by the error: the printed report lists exactly
  the table's columns, in their original order, numbered from 1, after a line that repeats the
  candidate list.
\<close>

theorem find_column_failure_report:
  assumes "\<forall>name \<in> set possible_names. name \<notin> set (columns df)"
  shows "snd (find_column df possible_names) = Inl (ColumnNotFound possible_names)
       \<and> map snd (listed_columns (fst (find_column df possible_names))) = columns df
       \<and> map fst (listed_columns (fst (find_column df possible_names))) = [1 ..< 1 + length (columns df)]
       \<and> PrintNotFound possible_names \<in> set (fst (find_column df possible_names))"
proof -
  have "find_column_loop (columns df) possible_names = None"
    using assms by (simp add: find_column_loop_none)
  then show ?thesis
    by (simp add: find_column_def listed_columns_append listed_columns_map)
qed

theorem find_column_failure_report_witness:
  "snd (find_column \<lparr>columns = [''Adresse'', ''Areal''], rows = []\<rparr> [''Lat'', ''Latitude''])
     = Inl (ColumnNotFound [''Lat'', ''Latitude''])
   \<and> map snd (listed_columns (fst (find_column \<lparr>columns = [''Adresse'', ''Areal''], rows = []\<rparr> [''Lat'', ''Latitude''])))
     = [''Adresse'', ''Areal'']
   \<and> map fst (listed_columns (fst (find_column \<lparr>columns = [''Adresse'', ''Areal''], rows = []\<rparr> [''Lat'', ''Latitude''])))
     = [1, 2]"
  using find_column_failure_report [of "[''Lat'', ''Latitude'']" "\<lparr>columns = [''Adresse'', ''Areal''], rows = []\<rparr>"]
  by (simp add: upt_rec)

theorem find_column_error_omits_columns:
  "snd (find_column \<lparr>columns = [''Adresse''], rows = []\<rparr> [''Lat''])
     = snd (find_column \<lparr>columns = [''Areal''], rows = []\<rparr> [''Lat''])
   \<and> snd (find_column \<lparr>columns = [''Adresse''], rows = []\<rparr> [''Lat'']) = Inl (ColumnNotFound [''Lat''])
   \<and> columns \<lparr>columns = [''Adresse''], rows = []\<rparr> \<noteq> columns \<lparr>columns = [''Areal''], rows = []\<rparr>"
  by (simp add: find_column_def)

text \<open>
  Claim C4. When a candidate is a column of the table, \<open>find_column\<close> returns the first such
  candidate in list order, whatever candidates before it are absent, and prints nothing. The
  witness is the spec's example: the candidates \<open>Leje/m2\<close>, \<open>Leje pr. m2\<close> against a table
  whose only column is \<open>Leje pr. m2\<close>.
\<close>

theorem find_column_first_present:
  assumes "possible_names = pre @ name # post"
    and "\<forall>p \<in> set pre. p \<notin> set (columns df)"
    and "name \<in> set (columns df)"
  shows "find_column df possible_names = ([], Inr name)"
  using assms by (simp add: find_column_def find_column_loop_first)

theorem find_column_first_present_witness:
  "[''Leje/m2'', ''Leje pr. m2''] = [''Leje/m2''] @ ''Leje pr. m2'' # []
   \<and> ''Leje/m2'' \<notin> set (columns \<lparr>columns = [''Leje pr. m2''], rows = []\<rparr>)
   \<and> ''Leje pr. m2'' \<in> set (columns \<lparr>columns = [''Leje pr. m2''], rows = []\<rparr>)
   \<and> find_column \<lparr>columns = [''Leje pr. m2''], rows = []\<rparr> [''Leje/m2'', ''Leje pr. m2'']
       = ([], Inr ''Leje pr. m2'')"
  using find_column_first_present [of "[''Leje/m2'', ''Leje pr. m2'']" "[''Leje/m2'']" "''Leje pr. m2''" "[]"
      "\<lparr>columns = [''Leje pr. m2''], rows = []\<rparr>"]
  by simp

section \<open>Properties of the address classifier\<close>

lemma split_parts_no_sep:
  "sep \<notin> set s \<Longrightarrow> split_parts sep w s = [w @ s]"
  by (induction s arbitrary: w) auto

lemma split_parts_nonempty: "split_parts sep w s \<noteq> []"
  by (induction s arbitrary: w) auto

lemma split_parts_last:
  "sep \<notin> set seg \<Longrightarrow> last (split_parts sep w (pre @ sep # seg)) = seg"
  by (induction pre arbitrary: w) (auto simp: split_parts_no_sep split_parts_nonempty)

lemma split_parts_length:
  "2 \<le> length (split_parts sep w (pre @ sep # seg))"
proof (induction pre arbitrary: w)
  case Nil
  have "split_parts sep [] seg \<noteq> []" by (rule split_parts_nonempty)
  then show ?case by (cases "split_parts sep [] seg") auto
next
  case (Cons a pre)
  then show ?case using le_Suc_eq by auto
qed

lemma split_words_drop_leading:
  "split_words [] (dropWhile is_space s) = split_words [] s"
  by (induction s) auto

lemma split_words_snoc_space:
  "is_space c \<Longrightarrow> split_words w (s @ [c]) = split_words w s"
  by (induction s arbitrary: w) auto

lemma split_words_drop_trailing:
  "split_words w (rev (dropWhile is_space (rev s))) = split_words w s"
proof (induction s rule: rev_induct)
  case Nil
  then show ?case by simp
next
  case (snoc x xs)
  then show ?case by (simp add: split_words_snoc_space)
qed

lemma py_split_strip: "py_split (py_strip s) = py_split s"
  by (simp add: py_split_def py_strip_def split_words_drop_trailing split_words_drop_leading)

lemma py_in_iff: "py_in sub s = (\<exists>ps ss. s = ps @ sub @ ss)"
proof (induction s)
  case Nil
  then show ?case by auto
next
  case (Cons c cs)
  have a: "(take (length sub) (c # cs) = sub) = (\<exists>ss. c # cs = sub @ ss)"
    by (metis append_eq_conv_conj)
  have b: "(\<exists>ps ss. c # cs = ps @ sub @ ss) = ((\<exists>ss. c # cs = sub @ ss) \<or> (\<exists>ps ss. cs = ps @ sub @ ss))"
  proof
    assume "\<exists>ps ss. c # cs = ps @ sub @ ss"
    then obtain ps ss where h: "c # cs = ps @ sub @ ss" by blast
    show "(\<exists>ss. c # cs = sub @ ss) \<or> (\<exists>ps ss. cs = ps @ sub @ ss)"
    proof (cases ps)
      case Nil
      then show ?thesis using h by auto
    next
      case (Cons p ps')
      then have "cs = ps' @ sub @ ss" using h by simp
      then show ?thesis by blast
    qed
  next
    assume "(\<exists>ss. c # cs = sub @ ss) \<or> (\<exists>ps ss. cs = ps @ sub @ ss)"
    then show "\<exists>ps ss. c # cs = ps @ sub @ ss"
    proof
      assume "\<exists>ss. c # cs = sub @ ss"
      then obtain ss where "c # cs = [] @ sub @ ss" by auto
      then show ?thesis by blast
    next
      assume "\<exists>ps ss. cs = ps @ sub @ ss"
      then obtain ps ss where "cs = ps @ sub @ ss" by blast
      then have "c # cs = (c # ps) @ sub @ ss" by simp
      then show ?thesis by blast
    qed
  qed
  show ?case using Cons.IH a b by simp
qed

lemma py_split_on_no_comma:
  "sep \<notin> set s \<Longrightarrow> py_split_on sep s = [s]"
  by (simp add: py_split_on_def split_parts_no_sep)

text \<open>
  Claim C5, as amended. \<open>parse_city_from_handelsnavn\<close> returns the literal \<open>Ukendt\<close> when the
  input is missing or holds no comma. Otherwise it takes the segment after the last comma,
  splits it on whitespace, and returns \<open>Ukendt\<close> when there is at most one word, else the words
  after the first joined by single spaces. In particular the spec's address gives its city, and
  a text without a comma gives \<open>Ukendt\<close>.
\<close>

theorem parse_city_result:
  "parse_city_from_handelsnavn Missing = Inr ''Ukendt''
   \<and> (CHR '','' \<notin> set s \<longrightarrow> parse_city_from_handelsnavn (Str s) = Inr ''Ukendt'')
   \<and> (CHR '','' \<notin> set seg \<longrightarrow>
        parse_city_from_handelsnavn (Str (pre @ CHR '','' # seg)) =
          Inr (if length (py_split seg) \<le> 1 then ''Ukendt'' else py_join '' '' (tl (py_split seg))))
   \<and> parse_city_from_handelsnavn (Str (''Griffenfeldsgade 4B, 2200 K'' @ [oe_small] @ ''benhavn N''))
        = Inr (''K'' @ [oe_small] @ ''benhavn N'')
   \<and> parse_city_from_handelsnavn (Str ''SingleTokenOnly'') = Inr ''Ukendt''"
proof -
  have a: "parse_city_from_handelsnavn Missing = Inr ''Ukendt''"
    by (simp add: parse_city_from_handelsnavn_def)
  have b: "CHR '','' \<notin> set s \<longrightarrow> parse_city_from_handelsnavn (Str s) = Inr ''Ukendt''"
    by (simp add: parse_city_from_handelsnavn_def py_split_on_no_comma)
  have c: "CHR '','' \<notin> set seg \<longrightarrow>
        parse_city_from_handelsnavn (Str (pre @ CHR '','' # seg)) =
          Inr (if length (py_split seg) \<le> 1 then ''Ukendt'' else py_join '' '' (tl (py_split seg)))"
  proof
    assume h: "CHR '','' \<notin> set seg"
    have l: "last (py_split_on (CHR '','') (pre @ CHR '','' # seg)) = seg"
      using h by (simp add: py_split_on_def split_parts_last)
    have n: "2 \<le> length (py_split_on (CHR '','') (pre @ CHR '','' # seg))"
      by (simp add: py_split_on_def split_parts_length)
    show "parse_city_from_handelsnavn (Str (pre @ CHR '','' # seg)) =
          Inr (if length (py_split seg) \<le> 1 then ''Ukendt'' else py_join '' '' (tl (py_split seg)))"
      using l n by (simp add: parse_city_from_handelsnavn_def py_split_strip Let_def)
  qed
  have d: "parse_city_from_handelsnavn (Str (''Griffenfeldsgade 4B, 2200 K'' @ [oe_small] @ ''benhavn N''))
        = Inr (''K'' @ [oe_small] @ ''benhavn N'')"
    by code_simp
  have e: "parse_city_from_handelsnavn (Str ''SingleTokenOnly'') = Inr ''Ukendt''"
    by code_simp
  show ?thesis using a b c d e by blast
qed

theorem parse_city_result_witness:
  "CHR '','' \<notin> set ''Solvej 3''
   \<and> parse_city_from_handelsnavn (Str ''Solvej 3'') = Inr ''Ukendt''
   \<and> CHR '','' \<notin> set '' 8000 Aarhus C''
   \<and> parse_city_from_handelsnavn (Str (''Solvej 3'' @ CHR '','' # '' 8000 Aarhus C'')) = Inr ''Aarhus C''"
proof -
  have p: "CHR '','' \<notin> set ''Solvej 3''" by simp
  have q: "CHR '','' \<notin> set '' 8000 Aarhus C''" by simp
  have s: "py_split '' 8000 Aarhus C'' = [''8000'', ''Aarhus'', ''C'']" by code_simp
  from parse_city_result [of "''Solvej 3''" "'' 8000 Aarhus C''" "''Solvej 3''"] p q s
  show ?thesis by simp
qed

theorem parse_city_sentinel_counterexample:
  "parse_city_from_handelsnavn Missing = Inr ''Ukendt''
   \<and> parse_city_from_handelsnavn Missing \<noteq> Inr ''Unknown''
   \<and> parse_city_from_handelsnavn (Str ''Byvej 1, 9999 Ukendt'') = Inr ''Ukendt''
   \<and> length (py_split_on (CHR '','') ''Byvej 1, 9999 Ukendt'') = 2
   \<and> length (py_split (last (py_split_on (CHR '','') ''Byvej 1, 9999 Ukendt''))) = 2"
  by code_simp

lemma geocode_loop_first:
  "\<forall>(k', c') \<in> set pre. \<not> py_in (py_lower k') (py_lower s) \<Longrightarrow>
   py_in (py_lower k) (py_lower s) \<Longrightarrow>
   geocode_loop (pre @ (k, c) # post) s = c"
  by (induction pre) auto

lemma geocode_loop_none:
  "\<forall>(k', c') \<in> set items. \<not> py_in (py_lower k') (py_lower s) \<Longrightarrow>
   geocode_loop items s = (55.6761, 12.5683)"
  by (induction items) auto

text \<open>
  Claim C6. For every text address, \<open>geocode_address\<close> returns the coordinate of the first
  entry of the known-address table, in declaration order, whose key is a case-insensitive
  substring of the address, and the fallback coordinate (55.6761, 12.5683) when no key is. The
  spec's two examples are the last two conjuncts.
\<close>

theorem geocode_address_first_match:
  "(known_addresses = pre @ (k, c) # post
      \<and> (\<forall>(k', c') \<in> set pre. \<not> (\<exists>ps ss. py_lower s = ps @ py_lower k' @ ss))
      \<and> (\<exists>ps ss. py_lower s = ps @ py_lower k @ ss)
      \<longrightarrow> geocode_address (Str s) = Inr c)
   \<and> ((\<forall>(k', c') \<in> set known_addresses. \<not> (\<exists>ps ss. py_lower s = ps @ py_lower k' @ ss))
      \<longrightarrow> geocode_address (Str s) = Inr (55.6761, 12.5683))
   \<and> geocode_address (Str (''Griffenfeldsgade 4B, 2200 K'' @ [oe_small] @ ''benhavn N''))
        = Inr (55.68953163, 12.55545457)
   \<and> geocode_address (Str ''Unknown Street 99'') = Inr (55.6761, 12.5683)"
proof -
  have a: "known_addresses = pre @ (k, c) # post
      \<and> (\<forall>(k', c') \<in> set pre. \<not> (\<exists>ps ss. py_lower s = ps @ py_lower k' @ ss))
      \<and> (\<exists>ps ss. py_lower s = ps @ py_lower k @ ss)
      \<longrightarrow> geocode_address (Str s) = Inr c"
  proof
    assume h: "known_addresses = pre @ (k, c) # post
      \<and> (\<forall>(k', c') \<in> set pre. \<not> (\<exists>ps ss. py_lower s = ps @ py_lower k' @ ss))
      \<and> (\<exists>ps ss. py_lower s = ps @ py_lower k @ ss)"
    then have "\<forall>(k', c') \<in> set pre. \<not> py_in (py_lower k') (py_lower s)"
      and "py_in (py_lower k) (py_lower s)"
      by (simp_all add: py_in_iff)
    then have "geocode_loop (pre @ (k, c) # post) s = c"
      by (rule geocode_loop_first)
    then show "geocode_address (Str s) = Inr c"
      using h by (simp add: geocode_address_def)
  qed
  have b: "(\<forall>(k', c') \<in> set known_addresses. \<not> (\<exists>ps ss. py_lower s = ps @ py_lower k' @ ss))
      \<longrightarrow> geocode_address (Str s) = Inr (55.6761, 12.5683)"
    using geocode_loop_none [of known_addresses s]
    by (simp add: geocode_address_def py_in_iff)
  have c: "geocode_address (Str (''Griffenfeldsgade 4B, 2200 K'' @ [oe_small] @ ''benhavn N''))
        = Inr (55.68953163, 12.55545457)"
    by code_simp
  have d: "geocode_address (Str ''Unknown Street 99'') = Inr (55.6761, 12.5683)"
    by code_simp
  show ?thesis using a b c d by blast
qed

theorem geocode_address_first_match_witness:
  "known_addresses = take 2 known_addresses @ (''R'' @ [aa_small] @ ''dmandsgade 36'', (55.69987455, 12.55113735)) # drop 3 known_addresses
   \<and> list_all (\<lambda>(k', c'). \<not> py_in (py_lower k') (py_lower (''r'' @ [aa_cap] @ ''dmandsGADE 36, 2200 Kbh N''))) (take 2 known_addresses)
   \<and> py_in (py_lower (''R'' @ [aa_small] @ ''dmandsgade 36'')) (py_lower (''r'' @ [aa_cap] @ ''dmandsGADE 36, 2200 Kbh N''))
   \<and> geocode_address (Str (''r'' @ [aa_cap] @ ''dmandsGADE 36, 2200 Kbh N'')) = Inr (55.69987455, 12.55113735)
   \<and> list_all (\<lambda>(k', c'). \<not> py_in (py_lower k') (py_lower ''Nowhere 1'')) known_addresses
   \<and> geocode_address (Str ''Nowhere 1'') = Inr (55.6761, 12.5683)"
proof -
  let ?s = "''r'' @ [aa_cap] @ ''dmandsGADE 36, 2200 Kbh N''"
  let ?k = "''R'' @ [aa_small] @ ''dmandsgade 36''"
  have h1: "known_addresses = take 2 known_addresses @ (?k, (55.69987455, 12.55113735)) # drop 3 known_addresses"
    by code_simp
  have h2: "list_all (\<lambda>(k', c'). \<not> py_in (py_lower k') (py_lower ?s)) (take 2 known_addresses)"
    by code_simp
  have h3: "py_in (py_lower ?k) (py_lower ?s)"
    by code_simp
  have h4: "list_all (\<lambda>(k', c'). \<not> py_in (py_lower k') (py_lower ''Nowhere 1'')) known_addresses"
    by code_simp
  have g1: "geocode_address (Str ?s) = Inr (55.69987455, 12.55113735)"
    using geocode_address_first_match [of "take 2 known_addresses" ?k "(55.69987455, 12.55113735)" "drop 3 known_addresses" ?s]
      h1 h2 h3
    unfolding py_in_iff list_all_iff by blast
  have g2: "geocode_address (Str ''Nowhere 1'') = Inr (55.6761, 12.5683)"
    using geocode_address_first_match [of "[]" "[]" "(0, 0)" "[]" "''Nowhere 1''"] h4
    unfolding py_in_iff list_all_iff by blast
  show ?thesis using h1 h2 h3 h4 g1 g2 by blast
qed

section \<open>Properties of the room estimate\<close>

lemma estimate_rooms_Num:
  "estimate_rooms (Num a) =
     Inr (if a < 50 then 2 else if a < 75 then 3 else if a < 100 then 4 else if a < 125 then 5 else 6)"
  by (simp add: estimate_rooms_def cell_less_def)

text \<open>
  Claim C7. On a numeric area the room estimate is the step function with the bounds 50, 75,
  100 and 125 and the values 2 to 6; it never decreases when the area grows, and it takes
  the stated values at 49, 50, 74, 75, 99, 100, 124 and 125.
\<close>

theorem estimate_rooms_step:
  "estimate_rooms (Num a) =
     Inr (if a < 50 then 2 else if a < 75 then 3 else if a < 100 then 4 else if a < 125 then 5 else 6)
   \<and> (a \<le> b \<longrightarrow> (\<exists>m n. estimate_rooms (Num a) = Inr m \<and> estimate_rooms (Num b) = Inr n \<and> m \<le> n))
   \<and> estimate_rooms (Num 49) = Inr 2 \<and> estimate_rooms (Num 50) = Inr 3
   \<and> estimate_rooms (Num 74) = Inr 3 \<and> estimate_rooms (Num 75) = Inr 4
   \<and> estimate_rooms (Num 99) = Inr 4 \<and> estimate_rooms (Num 100) = Inr 5
   \<and> estimate_rooms (Num 124) = Inr 5 \<and> estimate_rooms (Num 125) = Inr 6"
  by (simp add: estimate_rooms_Num)

theorem estimate_rooms_step_witness:
  "(74.5::real) \<le> 75 \<and> estimate_rooms (Num 74.5) = Inr 3 \<and> estimate_rooms (Num 75) = Inr 4 \<and> (3::int) \<le> 4"
  using estimate_rooms_step [of "74.5" 75] by simp

section \<open>Properties of the pipelines\<close>

lemma bind_err_Inl [simp]: "bind_err (Inl e) f = Inl e"
  by (simp add: bind_err_def)

lemma bind_err_Inr [simp]: "bind_err (Inr x) f = f x"
  by (simp add: bind_err_def)

lemma bind_err_Inr_iff: "(bind_err m f = Inr y) = (\<exists>x. m = Inr x \<and> f x = Inr y)"
  by (cases m) auto

lemma map_err_length: "map_err f xs = Inr ys \<Longrightarrow> length ys = length xs"
  by (induction xs arbitrary: ys) (auto split: sum.splits)

lemma map_err_nth:
  "map_err f xs = Inr ys \<Longrightarrow> i < length xs \<Longrightarrow> f (xs ! i) = Inr (ys ! i)"
proof (induction xs arbitrary: ys i)
  case Nil
  then show ?case by simp
next
  case (Cons x xs)
  then show ?case by (cases i) (auto split: sum.splits)
qed

lemma geocode_example: "geocode_address (Str ''Venlighedsvej 1, 2970 Horsholm'') = Inr (55.6761, 12.5683)"
  by code_simp

lemma leje_output_fields:
  "leje_output L df s h t = Inr res \<Longrightarrow>
     scatter_img res = s \<and> heatmap_img res = h \<and> table_img res = t
     \<and> map_err (leje_bolig_of_row L df) (rows df) = Inr (boliger res)
     \<and> total_boliger res = length (rows df)"
  by (auto simp: leje_output_def leje_statistics_def bind_err_Inr_iff map_err_length)

lemma ejer_output_fields:
  "ejer_output L df s h t = Inr res \<Longrightarrow>
     ejer_scatter_img res = s \<and> ejer_heatmap_img res = h \<and> ejer_table_img res = t
     \<and> map_err (ejer_bolig_of_row L df) (rows df) = Inr (ejer_boliger res)
     \<and> ejer_total_boliger res = length (rows df)"
  by (auto simp: ejer_output_def ejer_statistics_def bind_err_Inr_iff map_err_length)

lemma dropna_rows:
  "dropna df names = Inr cleaned \<Longrightarrow>
     cleaned = df\<lparr>rows := filter (\<lambda>r. list_all (\<lambda>n. pd_notna (r n)) names) (rows df)\<rparr>"
  by (auto simp: dropna_def split: list.splits)

lemma dropna_same_iff:
  assumes "dropna df names = Inr cleaned"
  shows "(cleaned = df) = list_all (\<lambda>r. list_all (\<lambda>n. pd_notna (r n)) names) (rows df)"
proof -
  let ?P = "\<lambda>r. list_all (\<lambda>n. pd_notna (r n)) names"
  have c: "cleaned = df\<lparr>rows := filter ?P (rows df)\<rparr>"
    using assms by (rule dropna_rows)
  have "(df\<lparr>rows := filter ?P (rows df)\<rparr> = df) = (filter ?P (rows df) = rows df)"
    by (cases df) auto
  also have "\<dots> = list_all ?P (rows df)"
    by (simp add: filter_id_conv list_all_iff)
  finally show ?thesis using c by simp
qed


lemma leje_bolig_of_row_maned:
  assumes "leje_bolig_of_row L df row = Inr b"
  shows "\<exists>y. row col_aarsleje = Num y \<and> leje_maned b = py_int (y / 12)"
proof -
  from assms obtain c q where
    c: "row_get df row col_aarsleje = Inr c" and q: "cell_div 12 c = Inr q"
    and m: "py_int_cell L q = Inr (leje_maned b)"
    unfolding leje_bolig_of_row_def bind_err_Inr_iff by auto
  from q obtain y where y: "c = Num y" "q = Num (y / 12)"
    using m by (cases c) (auto simp: cell_div_def py_int_cell_def)
  have "row col_aarsleje = Num y"
    using c y by (auto simp: row_get_def split: if_splits)
  moreover have "leje_maned b = py_int (y / 12)"
    using m y by (simp add: py_int_cell_def)
  ultimately show ?thesis by blast
qed

lemma py_int_nonneg: "0 \<le> x \<Longrightarrow> py_int x = \<lfloor>x\<rfloor>"
  by (simp add: py_int_def)

lemma process_leje_listings:
  assumes "process_leje_data L excel = Inr res"
  shows "\<exists>sheet df cleaned.
           read_leje_sheet excel = Inr sheet \<and> leje_standardize sheet = Inr df
         \<and> dropna df leje_required = Inr cleaned
         \<and> create_scatter_plot L df ''leje'' = Inr (scatter_img res)
         \<and> create_heatmap L df ''leje'' = Inr (heatmap_img res)
         \<and> create_summary_table L df ''leje'' = Inr (table_img res)
         \<and> length (boliger res) = length (rows cleaned)
         \<and> (\<forall>i < length (rows cleaned). \<exists>y. (rows cleaned ! i) col_aarsleje = Num y
                \<and> leje_maned (boliger res ! i) = py_int (y / 12)
                \<and> (0 \<le> y \<longrightarrow> leje_maned (boliger res ! i) = \<lfloor>y / 12\<rfloor>))"
proof -
  from assms obtain sheet df s h t cleaned where
    a: "read_leje_sheet excel = Inr sheet" and b: "leje_standardize sheet = Inr df"
    and c: "create_scatter_plot L df ''leje'' = Inr s" and d: "create_heatmap L df ''leje'' = Inr h"
    and e: "create_summary_table L df ''leje'' = Inr t" and f: "dropna df leje_required = Inr cleaned"
    and g: "leje_output L cleaned s h t = Inr res"
    unfolding process_leje_data_def bind_err_Inr_iff by blast
  note o = leje_output_fields [OF g]
  have m: "map_err (leje_bolig_of_row L cleaned) (rows cleaned) = Inr (boliger res)"
    using o by simp
  show ?thesis
  proof (intro exI conjI)
    show "read_leje_sheet excel = Inr sheet" by (rule a)
    show "leje_standardize sheet = Inr df" by (rule b)
    show "dropna df leje_required = Inr cleaned" by (rule f)
    show "create_scatter_plot L df ''leje'' = Inr (scatter_img res)" using c o by simp
    show "create_heatmap L df ''leje'' = Inr (heatmap_img res)" using d o by simp
    show "create_summary_table L df ''leje'' = Inr (table_img res)" using e o by simp
    show "length (boliger res) = length (rows cleaned)" using m by (rule map_err_length)
    show "\<forall>i < length (rows cleaned). \<exists>y. (rows cleaned ! i) col_aarsleje = Num y
                \<and> leje_maned (boliger res ! i) = py_int (y / 12)
                \<and> (0 \<le> y \<longrightarrow> leje_maned (boliger res ! i) = \<lfloor>y / 12\<rfloor>)"
    proof (intro allI impI)
      fix i assume i: "i < length (rows cleaned)"
      have "leje_bolig_of_row L cleaned (rows cleaned ! i) = Inr (boliger res ! i)"
        using m i by (rule map_err_nth)
      then obtain y where y: "(rows cleaned ! i) col_aarsleje = Num y"
          "leje_maned (boliger res ! i) = py_int (y / 12)"
        using leje_bolig_of_row_maned by blast
      have "0 \<le> y \<longrightarrow> leje_maned (boliger res ! i) = \<lfloor>y / 12\<rfloor>"
        using y(2) by (simp add: py_int_nonneg)
      with y show "\<exists>y. (rows cleaned ! i) col_aarsleje = Num y
                \<and> leje_maned (boliger res ! i) = py_int (y / 12)
                \<and> (0 \<le> y \<longrightarrow> leje_maned (boliger res ! i) = \<lfloor>y / 12\<rfloor>)"
        by blast
    qed
  qed
qed

lemma leje_example_run:
  "process_leje_data row_count_library leje_example =
     Inr \<lparr>total_boliger = 1, gns_leje_m2 = 1500, gns_areal = 80,
        gns_leje = 8333, median_leje = 8333, center_lat = Num 55.7,
        center_lng = Num 12.5, vaerelser_data = [(3, 1)],
        by_data = [(''Valby'', 1)],
        boliger =
          [\<lparr>adresse = ''Vej 1'', by_navn = ''Valby'', lat = Num 55.7,
              lng = Num 12.5, areal = 80, leje_m2 = 1500,
              leje_maned = 8333, liggedage = 10, varelser = 3,
              opfoerelsesaar = None, boligtype = ''Ikke angivet''\<rparr>],
        scatter_img = 2, heatmap_img = 2, table_img = 2\<rparr>"
  by code_simp

lemma ejer_example_run:
  "process_ejer_data row_count_library ejer_example =
     Inr \<lparr>ejer_total_boliger = 1, gns_pris_m2 = 50000, ejer_gns_areal = 80,
        gns_pris = 4000000, median_pris = 4000000,
        ejer_center_lat = Num 55.6761,
        ejer_center_lng = Num 12.5683,
        ejer_vaerelser_data = [(4, 1)], ejer_by_data = [(''Horsholm'', 1)],
        ejer_boliger =
          [\<lparr>handelsnavn = ''Venlighedsvej 1, 2970 Horsholm'',
              ejer_by = ''Horsholm'', ejer_lat = Num 55.6761,
              ejer_lng = Num 12.5683, ejer_areal = 80,
              pris = 4000000, pris_m2 = 50000, ejer_varelser = 4,
              handelsdato = ''2024-01-15'', anvendelse = ''Ikke angivet'',
              ejer_opfoerelsesaar = None\<rparr>],
        ejer_scatter_img = 2, ejer_heatmap_img = 2, ejer_table_img = 2\<rparr>"
  by code_simp

lemma leje_two_cities_run:
  "process_leje_data row_count_library [(''Worksheet'', leje_two_cities)] =
     Inr \<lparr>total_boliger = 2, gns_leje_m2 = 1500, gns_areal = 70,
        gns_leje = 9166, median_leje = 9166, center_lat = Num 55.7,
        center_lng = Num 12.5, vaerelser_data = [(3, 2)],
        by_data = [(''Valby'', 1), (''Vanl'', 1)],
        boliger =
          [\<lparr>adresse = ''Vej 1'', by_navn = ''Valby'', lat = Num 55.7,
              lng = Num 12.5, areal = 80, leje_m2 = 1500,
              leje_maned = 8333, liggedage = 10, varelser = 3,
              opfoerelsesaar = None, boligtype = ''Ikke angivet''\<rparr>,
           \<lparr>adresse = ''Vej 2'', by_navn = ''Vanl'', lat = Num 55.7,
              lng = Num 12.5, areal = 60, leje_m2 = 1500,
              leje_maned = 10000, liggedage = 10, varelser = 3,
              opfoerelsesaar = None, boligtype = ''Ikke angivet''\<rparr>],
        scatter_img = 2, heatmap_img = 2, table_img = 2\<rparr>"
  by code_simp

lemma leje_explicit_month_run:
  "process_leje_data monthly_rent_library leje_explicit_month =
     Inr \<lparr>total_boliger = 1, gns_leje_m2 = 1500, gns_areal = 80,
        gns_leje = 10000, median_leje = 10000, center_lat = Num 55.7,
        center_lng = Num 12.5, vaerelser_data = [(3, 1)],
        by_data = [(''Valby'', 1)],
        boliger =
          [\<lparr>adresse = ''Vej 1'', by_navn = ''Valby'', lat = Num 55.7,
              lng = Num 12.5, areal = 80, leje_m2 = 1500,
              leje_maned = 10000, liggedage = 10, varelser = 3,
              opfoerelsesaar = None, boligtype = ''Ikke angivet''\<rparr>],
        scatter_img = [Num 9999], heatmap_img = [Num 9999],
        table_img = [Num 9999]\<rparr>"
  by code_simp


text \<open>
  Claim C1, as amended. In both pipelines the three charts are drawn from the standardized
  table before the rows are cleaned: the chart functions receive the table that still holds
  the rows with missing required fields. The listings and the statistics are computed from the
  cleaned table, which is that table without those rows. The two tables are equal exactly when
  no row of the standardized table misses a required field.
\<close>

theorem charts_use_table_before_cleaning:
  "(process_leje_data L excel = Inr res \<longrightarrow>
      (\<exists>sheet df cleaned.
          read_leje_sheet excel = Inr sheet \<and> leje_standardize sheet = Inr df
        \<and> create_scatter_plot L df ''leje'' = Inr (scatter_img res)
        \<and> create_heatmap L df ''leje'' = Inr (heatmap_img res)
        \<and> create_summary_table L df ''leje'' = Inr (table_img res)
        \<and> dropna df leje_required = Inr cleaned
        \<and> map_err (leje_bolig_of_row L cleaned) (rows cleaned) = Inr (boliger res)
        \<and> leje_statistics L cleaned (boliger res) (scatter_img res) (heatmap_img res) (table_img res) = Inr res
        \<and> total_boliger res = length (rows cleaned)
        \<and> (cleaned = df) = list_all (\<lambda>r. list_all (\<lambda>n. pd_notna (r n)) leje_required) (rows df)))
 \<and> (process_ejer_data L excel = Inr eres \<longrightarrow>
      (\<exists>df cleaned.
          ejer_standardize L excel = Inr df
        \<and> create_scatter_plot L df ''ejer'' = Inr (ejer_scatter_img eres)
        \<and> create_heatmap L df ''ejer'' = Inr (ejer_heatmap_img eres)
        \<and> create_summary_table L df ''ejer'' = Inr (ejer_table_img eres)
        \<and> dropna df ejer_required = Inr cleaned
        \<and> map_err (ejer_bolig_of_row L cleaned) (rows cleaned) = Inr (ejer_boliger eres)
        \<and> ejer_statistics L cleaned (ejer_boliger eres) (ejer_scatter_img eres) (ejer_heatmap_img eres)
             (ejer_table_img eres) = Inr eres
        \<and> ejer_total_boliger eres = length (rows cleaned)
        \<and> (cleaned = df) = list_all (\<lambda>r. list_all (\<lambda>n. pd_notna (r n)) ejer_required) (rows df)))"
proof (intro conjI impI)
  assume p: "process_leje_data L excel = Inr res"
  then obtain sheet df s h t cleaned where
    a: "read_leje_sheet excel = Inr sheet" and b: "leje_standardize sheet = Inr df"
    and c: "create_scatter_plot L df ''leje'' = Inr s" and d: "create_heatmap L df ''leje'' = Inr h"
    and e: "create_summary_table L df ''leje'' = Inr t" and f: "dropna df leje_required = Inr cleaned"
    and g: "leje_output L cleaned s h t = Inr res"
    unfolding process_leje_data_def bind_err_Inr_iff by blast
  note o = leje_output_fields [OF g]
  have st: "leje_statistics L cleaned (boliger res) s h t = Inr res"
    using g o by (simp add: leje_output_def)
  show "\<exists>sheet df cleaned.
          read_leje_sheet excel = Inr sheet \<and> leje_standardize sheet = Inr df
        \<and> create_scatter_plot L df ''leje'' = Inr (scatter_img res)
        \<and> create_heatmap L df ''leje'' = Inr (heatmap_img res)
        \<and> create_summary_table L df ''leje'' = Inr (table_img res)
        \<and> dropna df leje_required = Inr cleaned
        \<and> map_err (leje_bolig_of_row L cleaned) (rows cleaned) = Inr (boliger res)
        \<and> leje_statistics L cleaned (boliger res) (scatter_img res) (heatmap_img res) (table_img res) = Inr res
        \<and> total_boliger res = length (rows cleaned)
        \<and> (cleaned = df) = list_all (\<lambda>r. list_all (\<lambda>n. pd_notna (r n)) leje_required) (rows df)"
    using a b c d e f o st dropna_same_iff [OF f] by auto
next
  assume p: "process_ejer_data L excel = Inr eres"
  then obtain df s h t cleaned where
    b: "ejer_standardize L excel = Inr df"
    and c: "create_scatter_plot L df ''ejer'' = Inr s" and d: "create_heatmap L df ''ejer'' = Inr h"
    and e: "create_summary_table L df ''ejer'' = Inr t" and f: "dropna df ejer_required = Inr cleaned"
    and g: "ejer_output L cleaned s h t = Inr eres"
    unfolding process_ejer_data_def bind_err_Inr_iff by blast
  note o = ejer_output_fields [OF g]
  have st: "ejer_statistics L cleaned (ejer_boliger eres) s h t = Inr eres"
    using g o by (simp add: ejer_output_def)
  show "\<exists>df cleaned.
          ejer_standardize L excel = Inr df
        \<and> create_scatter_plot L df ''ejer'' = Inr (ejer_scatter_img eres)
        \<and> create_heatmap L df ''ejer'' = Inr (ejer_heatmap_img eres)
        \<and> create_summary_table L df ''ejer'' = Inr (ejer_table_img eres)
        \<and> dropna df ejer_required = Inr cleaned
        \<and> map_err (ejer_bolig_of_row L cleaned) (rows cleaned) = Inr (ejer_boliger eres)
        \<and> ejer_statistics L cleaned (ejer_boliger eres) (ejer_scatter_img eres) (ejer_heatmap_img eres)
             (ejer_table_img eres) = Inr eres
        \<and> ejer_total_boliger eres = length (rows cleaned)
        \<and> (cleaned = df) = list_all (\<lambda>r. list_all (\<lambda>n. pd_notna (r n)) ejer_required) (rows df)"
    using b c d e f o st dropna_same_iff [OF f] by auto
qed

theorem charts_use_table_before_cleaning_witness:
  "(\<exists>res. process_leje_data row_count_library leje_example = Inr res
      \<and> scatter_img res = 2 \<and> heatmap_img res = 2 \<and> table_img res = 2 \<and> total_boliger res = 1
      \<and> (\<exists>sheet df cleaned.
            read_leje_sheet leje_example = Inr sheet \<and> leje_standardize sheet = Inr df
          \<and> create_scatter_plot row_count_library df ''leje'' = Inr 2
          \<and> dropna df leje_required = Inr cleaned
          \<and> length (rows cleaned) = 1
          \<and> cleaned \<noteq> df))
 \<and> (\<exists>eres. process_ejer_data row_count_library ejer_example = Inr eres
      \<and> ejer_scatter_img eres = 2 \<and> ejer_heatmap_img eres = 2 \<and> ejer_table_img eres = 2
      \<and> ejer_total_boliger eres = 1
      \<and> (\<exists>df cleaned.
            ejer_standardize row_count_library ejer_example = Inr df
          \<and> create_scatter_plot row_count_library df ''ejer'' = Inr 2
          \<and> dropna df ejer_required = Inr cleaned
          \<and> length (rows cleaned) = 1
          \<and> cleaned \<noteq> df))"
proof -
  obtain res where r: "process_leje_data row_count_library leje_example = Inr res"
    and rs: "scatter_img res = 2" "heatmap_img res = 2" "table_img res = 2" "total_boliger res = 1"
    using leje_example_run by simp
  obtain eres where e: "process_ejer_data row_count_library ejer_example = Inr eres"
    and es: "ejer_scatter_img eres = 2" "ejer_heatmap_img eres = 2" "ejer_table_img eres = 2"
      "ejer_total_boliger eres = 1"
    using ejer_example_run by simp
  note t = charts_use_table_before_cleaning [where L = row_count_library and excel = leje_example and res = res]
  note u = charts_use_table_before_cleaning [where L = row_count_library and excel = ejer_example and eres = eres]
  from t r obtain sheet df cleaned where
    a: "read_leje_sheet leje_example = Inr sheet" "leje_standardize sheet = Inr df"
       "create_scatter_plot row_count_library df ''leje'' = Inr (scatter_img res)"
       "dropna df leje_required = Inr cleaned" "total_boliger res = length (rows cleaned)"
    by blast
  have n: "length (rows df) = 2"
    using a(3) rs by (simp add: row_count_library_def)
  have "cleaned \<noteq> df" using n a(5) rs by auto
  then have A: "\<exists>sheet df cleaned.
            read_leje_sheet leje_example = Inr sheet \<and> leje_standardize sheet = Inr df
          \<and> create_scatter_plot row_count_library df ''leje'' = Inr 2
          \<and> dropna df leje_required = Inr cleaned
          \<and> length (rows cleaned) = 1
          \<and> cleaned \<noteq> df"
    using a rs by auto
  from u e obtain edf ecleaned where
    b: "ejer_standardize row_count_library ejer_example = Inr edf"
       "create_scatter_plot row_count_library edf ''ejer'' = Inr (ejer_scatter_img eres)"
       "dropna edf ejer_required = Inr ecleaned" "ejer_total_boliger eres = length (rows ecleaned)"
    by blast
  have en: "length (rows edf) = 2"
    using b(2) es by (simp add: row_count_library_def)
  have "ecleaned \<noteq> edf" using en b(4) es by auto
  then have B: "\<exists>df cleaned.
            ejer_standardize row_count_library ejer_example = Inr df
          \<and> create_scatter_plot row_count_library df ''ejer'' = Inr 2
          \<and> dropna df ejer_required = Inr cleaned
          \<and> length (rows cleaned) = 1
          \<and> cleaned \<noteq> df"
    using b es by auto
  show ?thesis using r rs e es A B by blast
qed

text \<open>
  With charts that record the number of rows they are given: on a table of two rows, one of
  them incomplete, every chart is drawn from two rows while one listing is emitted.
\<close>

theorem charts_see_uncleaned_rows:
  "map_sum id (\<lambda>res. (scatter_img res, heatmap_img res, table_img res, total_boliger res, length (boliger res)))
     (process_leje_data row_count_library leje_example) = Inr (2, 2, 2, 1, 1)
 \<and> map_sum id (\<lambda>res. (ejer_scatter_img res, ejer_heatmap_img res, ejer_table_img res,
                        ejer_total_boliger res, length (ejer_boliger res)))
     (process_ejer_data row_count_library ejer_example) = Inr (2, 2, 2, 1, 1)"
  by (simp add: leje_example_run ejer_example_run)

text \<open>
  When the sheet brings its own coordinates and no latitude is missing, nothing is geocoded:
  the row without a trade name reaches the cleaning step and is dropped there.
\<close>

lemma missing_trade_name_dropped_when_located:
  "map_sum id (\<lambda>res. (ejer_scatter_img res, ejer_total_boliger res, map handelsnavn (ejer_boliger res)))
     (process_ejer_data row_count_library ejer_missing_name_located)
   = Inr (2, 1, [''Venlighedsvej 1, 2970 Horsholm''])"
  by code_simp

text \<open>
  Claim C2, evaluated at the failing input. The claim: a row with missing required fields is
  dropped by the cleaning step and nothing raises, in particular an ownership row without a
  trade name. On an ownership sheet without coordinate columns whose second row has no trade
  name, \<open>process_ejer_data\<close> raises \<open>AttributeError\<close> whatever the library does:
  \<open>geocode_address\<close> calls \<open>lower\<close> on the missing cell before the cleaning step is
  reached. \<open>parse_city_from_handelsnavn\<close> guards the same cell with \<open>pd.isna\<close>, and the
  cleaning step lists the trade name among its required fields.
\<close>

theorem missing_trade_name_raises:
  "process_ejer_data L ejer_missing_name = Inl AttributeError"
  by (simp add: process_ejer_data_def ejer_missing_name_def ejer_standardize_def first_sheet_def merge_enheder_def
      find_column_def ejer_columns_def ejer_rooms_def get_column_def set_column_def ejer_row_def estimate_rooms_def cell_less_def
      ejer_geocode_def geocode_example geocode_address_def)

text \<open>
  Claim C8. Every listing the rental pipeline emits belongs to a row of the cleaned table
  whose yearly rent is a number, and its monthly rent is that number divided by 12 and
  truncated to an integer, which is the floor for a non-negative rent. A yearly rent of 120000
  gives 10000, and one of 100000 gives 8333.
\<close>

theorem monthly_rent_truncated:
  "(process_leje_data L excel = Inr res \<longrightarrow>
      (\<exists>sheet df cleaned.
           read_leje_sheet excel = Inr sheet \<and> leje_standardize sheet = Inr df
         \<and> dropna df leje_required = Inr cleaned
         \<and> length (boliger res) = length (rows cleaned)
         \<and> (\<forall>i < length (rows cleaned). \<exists>y. (rows cleaned ! i) col_aarsleje = Num y
                \<and> leje_maned (boliger res ! i) = py_int (y / 12)
                \<and> (0 \<le> y \<longrightarrow> leje_maned (boliger res ! i) = \<lfloor>y / 12\<rfloor>))))
   \<and> py_int (120000 / 12) = 10000
   \<and> py_int (100000 / 12) = 8333"
proof (intro conjI impI)
  assume "process_leje_data L excel = Inr res"
  from process_leje_listings [OF this]
  show "\<exists>sheet df cleaned.
           read_leje_sheet excel = Inr sheet \<and> leje_standardize sheet = Inr df
         \<and> dropna df leje_required = Inr cleaned
         \<and> length (boliger res) = length (rows cleaned)
         \<and> (\<forall>i < length (rows cleaned). \<exists>y. (rows cleaned ! i) col_aarsleje = Num y
                \<and> leje_maned (boliger res ! i) = py_int (y / 12)
                \<and> (0 \<le> y \<longrightarrow> leje_maned (boliger res ! i) = \<lfloor>y / 12\<rfloor>))"
    by blast
next
  show "py_int (120000 / 12) = 10000" by (simp add: py_int_def)
next
  have "\<lfloor>100000 / 12 :: real\<rfloor> = 8333" by linarith
  then show "py_int (100000 / 12) = 8333" by (simp add: py_int_def)
qed

theorem monthly_rent_truncated_witness:
  "(\<exists>res. process_leje_data row_count_library [(''Worksheet'', leje_two_cities)] = Inr res
      \<and> map leje_maned (boliger res) = [8333, 10000]
      \<and> (\<exists>sheet df cleaned.
           read_leje_sheet [(''Worksheet'', leje_two_cities)] = Inr sheet \<and> leje_standardize sheet = Inr df
         \<and> dropna df leje_required = Inr cleaned
         \<and> length (rows cleaned) = 2))
   \<and> py_int (100000 / 12) = 8333"
proof -
  obtain res where r: "process_leje_data row_count_library [(''Worksheet'', leje_two_cities)] = Inr res"
    and rs: "map leje_maned (boliger res) = [8333, 10000]"
    using leje_two_cities_run by simp
  note t = monthly_rent_truncated [of row_count_library "[(''Worksheet'', leje_two_cities)]" res]
  from t r obtain sheet df cleaned where
    a: "read_leje_sheet [(''Worksheet'', leje_two_cities)] = Inr sheet" "leje_standardize sheet = Inr df"
       "dropna df leje_required = Inr cleaned" "length (boliger res) = length (rows cleaned)"
    by blast
  have "length (boliger res) = 2"
    using rs by (metis length_map length_Cons list.size(3) numeral_2_eq_2)
  then have "length (rows cleaned) = 2" using a(4) by simp
  then have P: "\<exists>res. process_leje_data row_count_library [(''Worksheet'', leje_two_cities)] = Inr res
      \<and> map leje_maned (boliger res) = [8333, 10000]
      \<and> (\<exists>sheet df cleaned.
           read_leje_sheet [(''Worksheet'', leje_two_cities)] = Inr sheet \<and> leje_standardize sheet = Inr df
         \<and> dropna df leje_required = Inr cleaned
         \<and> length (rows cleaned) = 2)"
    using r rs a by auto
  have Q: "py_int (100000 / 12) = 8333" using t by blast
  show ?thesis using P Q by (rule conjI)
qed

lemma rows_set_column:
  "rows (set_column df name vals) =
     map (\<lambda>(i, r). r(name := (if i < length vals then vals ! i else Missing))) (enumerate 0 (rows df))"
  by (simp add: set_column_def)

lemma rows_set_column_other:
  "n \<noteq> name \<Longrightarrow> map (\<lambda>r. r n) (rows (set_column df name vals)) = map (\<lambda>r. r n) (rows df)"
proof -
  assume h: "n \<noteq> name"
  have "map (\<lambda>r. r n) (rows (set_column df name vals))
      = map (\<lambda>p. snd p n) (enumerate 0 (rows df))"
    using h by (simp add: rows_set_column case_prod_unfold)
  also have "\<dots> = map (\<lambda>r. r n) (map snd (enumerate 0 (rows df)))"
    by (simp only: map_map comp_def)
  also have "\<dots> = map (\<lambda>r. r n) (rows df)"
    by (simp only: map_snd_enumerate)
  finally show ?thesis .
qed

lemma rows_set_column_same:
  assumes "length vals = length (rows df)"
  shows "map (\<lambda>r. r name) (rows (set_column df name vals)) = vals"
proof (rule nth_equalityI)
  show "length (map (\<lambda>r. r name) (rows (set_column df name vals))) = length vals"
    using assms by (simp add: rows_set_column)
next
  fix i assume "i < length (map (\<lambda>r. r name) (rows (set_column df name vals)))"
  then have i: "i < length (rows df)" by (simp add: rows_set_column)
  then show "map (\<lambda>r. r name) (rows (set_column df name vals)) ! i = vals ! i"
    using assms by (simp add: rows_set_column nth_enumerate_eq)
qed

lemma length_rows_set_column [simp]: "length (rows (set_column df name vals)) = length (rows df)"
  by (simp add: rows_set_column)

lemma columns_set_column:
  "set (columns (set_column df name vals)) = insert name (set (columns df))"
  by (auto simp: set_column_def)

lemma copy_column_keeps:
  assumes "copy_column df new old = Inr df'"
  shows "set (columns df') = insert new (set (columns df))
       \<and> (n \<noteq> new \<longrightarrow> map (\<lambda>r. r n) (rows df') = map (\<lambda>r. r n) (rows df))
       \<and> map (\<lambda>r. r new) (rows df') = map (\<lambda>r. r old) (rows df)"
proof -
  from assms have o: "old \<in> set (columns df)"
    and d: "df' = set_column df new (map (\<lambda>r. r old) (rows df))"
    by (auto simp: copy_column_def get_column_def bind_err_Inr_iff split: if_splits)
  show ?thesis
    using d by (simp add: columns_set_column rows_set_column_other rows_set_column_same)
qed

lemma set_scalar_keeps:
  "set (columns (set_scalar df new c)) = insert new (set (columns df))
   \<and> (n \<noteq> new \<longrightarrow> map (\<lambda>r. r n) (rows (set_scalar df new c)) = map (\<lambda>r. r n) (rows df))"
  by (simp add: set_scalar_def columns_set_column rows_set_column_other)

lemma optional_column_keeps:
  assumes "(case oc of Some c \<Rightarrow> copy_column df new c | None \<Rightarrow> Inr (set_scalar df new v)) = Inr df'"
  shows "set (columns df') = insert new (set (columns df))
       \<and> (n \<noteq> new \<longrightarrow> map (\<lambda>r. r n) (rows df') = map (\<lambda>r. r n) (rows df))"
proof (cases oc)
  case None
  then have "df' = set_scalar df new v" using assms by simp
  then show ?thesis using set_scalar_keeps by blast
next
  case (Some c)
  then have "copy_column df new c = Inr df'" using assms by simp
  from copy_column_keeps [OF this] show ?thesis by blast
qed

text \<open>The table before the monthly rent is derived: eleven assignments after the lookups.\<close>

lemma leje_standardize_steps:
  assumes "leje_standardize sheet = Inr df"
  shows "\<exists>d. set (columns d) = set (columns sheet) \<union> set leje_required \<union> {col_opfoerelsesaar, ''Boligtype''}
           \<and> map (\<lambda>r. r col_leje_maaned) (rows d) = map (\<lambda>r. r col_leje_maaned) (rows sheet)
           \<and> (if col_leje_maaned \<notin> set (columns d)
               then bind_err (get_column d col_aarsleje) (\<lambda>yearly.
                    bind_err (map_err (cell_div 12) yearly) (\<lambda>monthly.
                    Inr (set_column d col_leje_maaned monthly)))
               else Inr d) = Inr df"
proof -
  from assms obtain c1 c2 c3 c4 c5 c6 c7 c8 c9 d1 d2 d3 d4 d5 d6 d7 d8 d9 d10 d11 where
    s1: "copy_column sheet ''Adresse'' c1 = Inr d1"
    and s2: "copy_column d1 ''By'' c2 = Inr d2"
    and s3: "copy_column d2 ''Lat'' c3 = Inr d3"
    and s4: "copy_column d3 ''Lng'' c4 = Inr d4"
    and s5: "copy_column d4 ''Areal'' c5 = Inr d5"
    and s6: "copy_column d5 ''Leje/m2'' c6 = Inr d6"
    and s7: "copy_column d6 col_aarsleje c7 = Inr d7"
    and s8: "copy_column d7 ''Liggedage'' c8 = Inr d8"
    and s9: "copy_column d8 col_antal_vaerelser c9 = Inr d9"
    and s10: "(case find_column_loop (columns sheet)
                      [col_opfoerelsesaar, ''Opfoerelsesaar'', col_byggeaar, ''Year built''] of
                 Some c \<Rightarrow> copy_column d9 col_opfoerelsesaar c
               | None \<Rightarrow> Inr (set_scalar d9 col_opfoerelsesaar Missing)) = Inr d10"
    and s11: "(case find_column_loop (columns sheet) [''Boligtype'', ''Type'', ''Property type''] of
                 Some c \<Rightarrow> copy_column d10 ''Boligtype'' c
               | None \<Rightarrow> Inr (set_scalar d10 ''Boligtype'' (Str ''Ikke angivet''))) = Inr d11"
    and fin: "(if col_leje_maaned \<notin> set (columns d11)
               then bind_err (get_column d11 col_aarsleje) (\<lambda>yearly.
                    bind_err (map_err (cell_div 12) yearly) (\<lambda>monthly.
                    Inr (set_column d11 col_leje_maaned monthly)))
               else Inr d11) = Inr df"
    unfolding leje_standardize_def bind_err_Inr_iff Let_def by blast
  let ?m = "\<lambda>d. map (\<lambda>r. r col_leje_maaned) (rows d)"
  note k1 = copy_column_keeps [OF s1, of col_leje_maaned]
  note k2 = copy_column_keeps [OF s2, of col_leje_maaned]
  note k3 = copy_column_keeps [OF s3, of col_leje_maaned]
  note k4 = copy_column_keeps [OF s4, of col_leje_maaned]
  note k5 = copy_column_keeps [OF s5, of col_leje_maaned]
  note k6 = copy_column_keeps [OF s6, of col_leje_maaned]
  note k7 = copy_column_keeps [OF s7, of col_leje_maaned]
  note k8 = copy_column_keeps [OF s8, of col_leje_maaned]
  note k9 = copy_column_keeps [OF s9, of col_leje_maaned]
  note k10 = optional_column_keeps [OF s10, of col_leje_maaned]
  note k11 = optional_column_keeps [OF s11, of col_leje_maaned]
  have m1: "?m d1 = ?m sheet" using k1 by simp
  have m2: "?m d2 = ?m sheet" using k2 m1 by simp
  have m3: "?m d3 = ?m sheet" using k3 m2 by simp
  have m4: "?m d4 = ?m sheet" using k4 m3 by simp
  have m5: "?m d5 = ?m sheet" using k5 m4 by simp
  have m6: "?m d6 = ?m sheet" using k6 m5 by simp
  have m7: "?m d7 = ?m sheet" using k7 m6 by simp
  have m8: "?m d8 = ?m sheet" using k8 m7 by simp
  have m9: "?m d9 = ?m sheet" using k9 m8 by simp
  have m10: "?m d10 = ?m sheet" using k10 m9 by simp
  have m11: "?m d11 = ?m sheet" using k11 m10 by simp
  have cols: "set (columns d11) = set (columns sheet) \<union> set leje_required \<union> {col_opfoerelsesaar, ''Boligtype''}"
    using k1 k2 k3 k4 k5 k6 k7 k8 k9 k10 k11 unfolding leje_required_def by auto
  show ?thesis using cols m11 fin by blast
qed

lemma leje_standardize_explicit_month:
  assumes "leje_standardize sheet = Inr df" and "col_leje_maaned \<in> set (columns sheet)"
  shows "map (\<lambda>r. r col_leje_maaned) (rows df) = map (\<lambda>r. r col_leje_maaned) (rows sheet)"
proof -
  from leje_standardize_steps [OF assms(1)] obtain d where
    c: "set (columns d) = set (columns sheet) \<union> set leje_required \<union> {col_opfoerelsesaar, ''Boligtype''}"
    and m: "map (\<lambda>r. r col_leje_maaned) (rows d) = map (\<lambda>r. r col_leje_maaned) (rows sheet)"
    and f: "(if col_leje_maaned \<notin> set (columns d)
               then bind_err (get_column d col_aarsleje) (\<lambda>yearly.
                    bind_err (map_err (cell_div 12) yearly) (\<lambda>monthly.
                    Inr (set_column d col_leje_maaned monthly)))
               else Inr d) = Inr df"
    by blast
  have "col_leje_maaned \<in> set (columns d)" using c assms(2) by blast
  then have "df = d" using f by simp
  then show ?thesis using m by simp
qed

lemma leje_standardize_derived_month:
  assumes "leje_standardize sheet = Inr df" and "col_leje_maaned \<notin> set (columns sheet)"
  shows "map_err (cell_div 12) (map (\<lambda>r. r col_aarsleje) (rows df))
           = Inr (map (\<lambda>r. r col_leje_maaned) (rows df))"
proof -
  from leje_standardize_steps [OF assms(1)] obtain d where
    c: "set (columns d) = set (columns sheet) \<union> set leje_required \<union> {col_opfoerelsesaar, ''Boligtype''}"
    and f: "(if col_leje_maaned \<notin> set (columns d)
               then bind_err (get_column d col_aarsleje) (\<lambda>yearly.
                    bind_err (map_err (cell_div 12) yearly) (\<lambda>monthly.
                    Inr (set_column d col_leje_maaned monthly)))
               else Inr d) = Inr df"
    by blast
  have "col_leje_maaned \<notin> set (columns d)"
    using c assms(2) by (simp add: leje_required_def)
  then have "bind_err (get_column d col_aarsleje) (\<lambda>yearly.
                    bind_err (map_err (cell_div 12) yearly) (\<lambda>monthly.
                    Inr (set_column d col_leje_maaned monthly))) = Inr df"
    using f by simp
  then obtain yearly monthly where
    y: "get_column d col_aarsleje = Inr yearly"
    and mo: "map_err (cell_div 12) yearly = Inr monthly"
    and df: "df = set_column d col_leje_maaned monthly"
    unfolding bind_err_Inr_iff by auto
  have yv: "yearly = map (\<lambda>r. r col_aarsleje) (rows d)"
    using y by (auto simp: get_column_def split: if_splits)
  have len: "length monthly = length (rows d)"
    using map_err_length [OF mo] yv by simp
  have a: "map (\<lambda>r. r col_aarsleje) (rows df) = yearly"
    using df yv by (simp add: rows_set_column_other)
  have b: "map (\<lambda>r. r col_leje_maaned) (rows df) = monthly"
    using df len by (simp add: rows_set_column_same)
  show ?thesis using a b mo by simp
qed

text \<open>
  Claim C10. When the rental sheet has an explicit column \<open>Leje/maaned\<close>, that column
  reaches the chart functions unchanged, and the monthly rent of every emitted listing is
  still the yearly rent of its row divided by 12 and truncated: the explicit column is not
  read for the listings. When the sheet has no such column, the column derived for the charts
  is the yearly rent divided by 12, cell by cell.
\<close>

theorem explicit_monthly_rent_not_used:
  "(read_leje_sheet excel = Inr sheet \<and> col_leje_maaned \<in> set (columns sheet)
      \<and> process_leje_data L excel = Inr res \<longrightarrow>
      (\<exists>df cleaned.
           leje_standardize sheet = Inr df \<and> dropna df leje_required = Inr cleaned
         \<and> map (\<lambda>r. r col_leje_maaned) (rows df) = map (\<lambda>r. r col_leje_maaned) (rows sheet)
         \<and> create_scatter_plot L df ''leje'' = Inr (scatter_img res)
         \<and> create_heatmap L df ''leje'' = Inr (heatmap_img res)
         \<and> create_summary_table L df ''leje'' = Inr (table_img res)
         \<and> length (boliger res) = length (rows cleaned)
         \<and> (\<forall>i < length (rows cleaned). \<exists>y. (rows cleaned ! i) col_aarsleje = Num y
                \<and> leje_maned (boliger res ! i) = py_int (y / 12))))
   \<and> (col_leje_maaned \<notin> set (columns sheet) \<and> leje_standardize sheet = Inr sdf \<longrightarrow>
        map_err (cell_div 12) (map (\<lambda>r. r col_aarsleje) (rows sdf))
          = Inr (map (\<lambda>r. r col_leje_maaned) (rows sdf)))"
proof (intro conjI impI)
  assume h: "read_leje_sheet excel = Inr sheet \<and> col_leje_maaned \<in> set (columns sheet)
      \<and> process_leje_data L excel = Inr res"
  then have p: "process_leje_data L excel = Inr res" by simp
  from process_leje_listings [OF p] obtain sheet' df cleaned where
    a: "read_leje_sheet excel = Inr sheet'" and b: "leje_standardize sheet' = Inr df"
    and c: "dropna df leje_required = Inr cleaned"
    and i1: "create_scatter_plot L df ''leje'' = Inr (scatter_img res)"
    and i2: "create_heatmap L df ''leje'' = Inr (heatmap_img res)"
    and i3: "create_summary_table L df ''leje'' = Inr (table_img res)"
    and len: "length (boliger res) = length (rows cleaned)"
    and each: "\<forall>i < length (rows cleaned). \<exists>y. (rows cleaned ! i) col_aarsleje = Num y
                \<and> leje_maned (boliger res ! i) = py_int (y / 12)
                \<and> (0 \<le> y \<longrightarrow> leje_maned (boliger res ! i) = \<lfloor>y / 12\<rfloor>)"
    by blast
  have s: "sheet' = sheet" using a h by simp
  have m: "map (\<lambda>r. r col_leje_maaned) (rows df) = map (\<lambda>r. r col_leje_maaned) (rows sheet)"
    using leje_standardize_explicit_month b s h by blast
  have each': "\<forall>i < length (rows cleaned). \<exists>y. (rows cleaned ! i) col_aarsleje = Num y
                \<and> leje_maned (boliger res ! i) = py_int (y / 12)"
    using each by blast
  show "\<exists>df cleaned.
           leje_standardize sheet = Inr df \<and> dropna df leje_required = Inr cleaned
         \<and> map (\<lambda>r. r col_leje_maaned) (rows df) = map (\<lambda>r. r col_leje_maaned) (rows sheet)
         \<and> create_scatter_plot L df ''leje'' = Inr (scatter_img res)
         \<and> create_heatmap L df ''leje'' = Inr (heatmap_img res)
         \<and> create_summary_table L df ''leje'' = Inr (table_img res)
         \<and> length (boliger res) = length (rows cleaned)
         \<and> (\<forall>i < length (rows cleaned). \<exists>y. (rows cleaned ! i) col_aarsleje = Num y
                \<and> leje_maned (boliger res ! i) = py_int (y / 12))"
  proof (intro exI conjI)
    show "leje_standardize sheet = Inr df" using b s by simp
    show "dropna df leje_required = Inr cleaned" by (rule c)
    show "map (\<lambda>r. r col_leje_maaned) (rows df) = map (\<lambda>r. r col_leje_maaned) (rows sheet)" by (rule m)
    show "create_scatter_plot L df ''leje'' = Inr (scatter_img res)" by (rule i1)
    show "create_heatmap L df ''leje'' = Inr (heatmap_img res)" by (rule i2)
    show "create_summary_table L df ''leje'' = Inr (table_img res)" by (rule i3)
    show "length (boliger res) = length (rows cleaned)" by (rule len)
    show "\<forall>i < length (rows cleaned). \<exists>y. (rows cleaned ! i) col_aarsleje = Num y
                \<and> leje_maned (boliger res ! i) = py_int (y / 12)" by (rule each')
  qed
next
  assume "col_leje_maaned \<notin> set (columns sheet) \<and> leje_standardize sheet = Inr sdf"
  then show "map_err (cell_div 12) (map (\<lambda>r. r col_aarsleje) (rows sdf))
          = Inr (map (\<lambda>r. r col_leje_maaned) (rows sdf))"
    using leje_standardize_derived_month by blast
qed

lemma leje_explicit_month_sheet:
  "read_leje_sheet leje_explicit_month =
     Inr \<lparr>columns = leje_columns @ [col_leje_maaned],
          rows = [(leje_row ''Vej 1'' ''Valby'' (Num 80) 120000)(col_leje_maaned := Num 9999)]\<rparr>"
  by (simp add: read_leje_sheet_def named_sheet_def leje_explicit_month_def)

lemma leje_two_cities_derived:
  "map_sum id (\<lambda>df. (map (\<lambda>r. r col_aarsleje) (rows df), map (\<lambda>r. r col_leje_maaned) (rows df)))
     (leje_standardize (leje_two_cities\<lparr>columns := leje_columns\<rparr>))
   = Inr ([Num 100000, Num 120000], [Num (100000 / 12), Num 10000])"
  by code_simp

theorem explicit_monthly_rent_not_used_witness:
  "(\<exists>sheet res. read_leje_sheet leje_explicit_month = Inr sheet
       \<and> col_leje_maaned \<in> set (columns sheet)
       \<and> map (\<lambda>r. r col_leje_maaned) (rows sheet) = [Num 9999]
       \<and> map (\<lambda>r. r col_aarsleje) (rows sheet) = [Num 120000]
       \<and> process_leje_data monthly_rent_library leje_explicit_month = Inr res
       \<and> map leje_maned (boliger res) = [10000]
       \<and> scatter_img res = [Num 9999]
       \<and> (\<exists>df. leje_standardize sheet = Inr df \<and> map (\<lambda>r. r col_leje_maaned) (rows df) = [Num 9999]))
   \<and> (\<exists>sdf. col_leje_maaned \<notin> set (columns (leje_two_cities\<lparr>columns := leje_columns\<rparr>))
       \<and> leje_standardize (leje_two_cities\<lparr>columns := leje_columns\<rparr>) = Inr sdf
       \<and> map (\<lambda>r. r col_aarsleje) (rows sdf) = [Num 100000, Num 120000]
       \<and> map (\<lambda>r. r col_leje_maaned) (rows sdf) = [Num (100000 / 12), Num 10000]
       \<and> map_err (cell_div 12) (map (\<lambda>r. r col_aarsleje) (rows sdf))
            = Inr (map (\<lambda>r. r col_leje_maaned) (rows sdf)))"
proof -
  let ?sheet = "\<lparr>columns = leje_columns @ [col_leje_maaned],
          rows = [(leje_row ''Vej 1'' ''Valby'' (Num 80) 120000)(col_leje_maaned := Num 9999)]\<rparr>"
  obtain res where r: "process_leje_data monthly_rent_library leje_explicit_month = Inr res"
    and rs: "map leje_maned (boliger res) = [10000]" "scatter_img res = [Num 9999]"
    using leje_explicit_month_run by simp
  have c: "col_leje_maaned \<in> set (columns ?sheet)" by simp
  have v: "map (\<lambda>r. r col_leje_maaned) (rows ?sheet) = [Num 9999]"
    "map (\<lambda>r. r col_aarsleje) (rows ?sheet) = [Num 120000]"
    by (simp_all add: leje_row_def)
  note t = explicit_monthly_rent_not_used [where excel = leje_explicit_month and sheet = ?sheet
      and L = monthly_rent_library and res = res]
  from t leje_explicit_month_sheet c r obtain df where
    d: "leje_standardize ?sheet = Inr df"
       "map (\<lambda>r. r col_leje_maaned) (rows df) = map (\<lambda>r. r col_leje_maaned) (rows ?sheet)"
    by blast
  have A: "\<exists>sheet res. read_leje_sheet leje_explicit_month = Inr sheet
       \<and> col_leje_maaned \<in> set (columns sheet)
       \<and> map (\<lambda>r. r col_leje_maaned) (rows sheet) = [Num 9999]
       \<and> map (\<lambda>r. r col_aarsleje) (rows sheet) = [Num 120000]
       \<and> process_leje_data monthly_rent_library leje_explicit_month = Inr res
       \<and> map leje_maned (boliger res) = [10000]
       \<and> scatter_img res = [Num 9999]
       \<and> (\<exists>df. leje_standardize sheet = Inr df \<and> map (\<lambda>r. r col_leje_maaned) (rows df) = [Num 9999])"
  proof (intro exI conjI)
    show "read_leje_sheet leje_explicit_month = Inr ?sheet" by (rule leje_explicit_month_sheet)
    show "col_leje_maaned \<in> set (columns ?sheet)" by (rule c)
    show "map (\<lambda>r. r col_leje_maaned) (rows ?sheet) = [Num 9999]" by (rule v(1))
    show "map (\<lambda>r. r col_aarsleje) (rows ?sheet) = [Num 120000]" by (rule v(2))
    show "process_leje_data monthly_rent_library leje_explicit_month = Inr res" by (rule r)
    show "map leje_maned (boliger res) = [10000]" by (rule rs(1))
    show "scatter_img res = [Num 9999]" by (rule rs(2))
    show "leje_standardize ?sheet = Inr df" by (rule d(1))
    show "map (\<lambda>r. r col_leje_maaned) (rows df) = [Num 9999]" using d(2) v(1) by simp
  qed
  let ?plain = "leje_two_cities\<lparr>columns := leje_columns\<rparr>"
  obtain sdf where s: "leje_standardize ?plain = Inr sdf"
    and sv: "map (\<lambda>r. r col_aarsleje) (rows sdf) = [Num 100000, Num 120000]"
      "map (\<lambda>r. r col_leje_maaned) (rows sdf) = [Num (100000 / 12), Num 10000]"
    using leje_two_cities_derived by (cases "leje_standardize ?plain") auto
  have n: "col_leje_maaned \<notin> set (columns ?plain)"
    by (simp add: leje_columns_def)
  have "map_err (cell_div 12) (map (\<lambda>r. r col_aarsleje) (rows sdf))
            = Inr (map (\<lambda>r. r col_leje_maaned) (rows sdf))"
    using explicit_monthly_rent_not_used [where sheet = ?plain and sdf = sdf] n s by blast
  then have B: "\<exists>sdf. col_leje_maaned \<notin> set (columns ?plain)
       \<and> leje_standardize ?plain = Inr sdf
       \<and> map (\<lambda>r. r col_aarsleje) (rows sdf) = [Num 100000, Num 120000]
       \<and> map (\<lambda>r. r col_leje_maaned) (rows sdf) = [Num (100000 / 12), Num 10000]
       \<and> map_err (cell_div 12) (map (\<lambda>r. r col_aarsleje) (rows sdf))
            = Inr (map (\<lambda>r. r col_leje_maaned) (rows sdf))"
    using n s sv by (intro exI [of _ sdf] conjI)
  show ?thesis using A B by (rule conjI)
qed

section \<open>Statistics and the order of the rows\<close>

lemma mset_numbers:
  "mset (numbers cs) = image_mset number_of (filter_mset is_number (mset cs))"
  by (induction cs rule: numbers.induct) auto

lemma numbers_perm: "mset cs' = mset cs \<Longrightarrow> mset (numbers cs') = mset (numbers cs)"
  by (simp add: mset_numbers)

lemma list_ex_perm: "mset cs' = mset cs \<Longrightarrow> list_ex P cs' = list_ex P cs"
  using mset_eq_setD [of cs' cs] by (simp add: list_ex_iff)

lemma list_all_perm: "mset cs' = mset cs \<Longrightarrow> list_all P cs' = list_all P cs"
  using mset_eq_setD [of cs' cs] by (simp add: list_all_iff)

lemma sort_perm: "mset xs' = mset xs \<Longrightarrow> sort xs' = sort (xs :: real list)"
  by (rule properties_for_sort) simp_all

lemma series_mean_perm:
  assumes "mset cs' = mset cs" and "series_mean L cs = Inr m"
  shows "\<exists>m'. series_mean L cs' = Inr m' \<and> is_number m' = is_number m
       \<and> ((\<forall>xs ys. mset xs = mset ys \<longrightarrow> float_mean L xs = float_mean L ys) \<longrightarrow> m' = m)"
proof -
  have n: "mset (numbers cs') = mset (numbers cs)" using assms(1) by (rule numbers_perm)
  have l: "length (numbers cs') = length (numbers cs)"
    using n by (rule mset_eq_length)
  have e: "(numbers cs' = []) = (numbers cs = [])"
    using l by auto
  have x: "list_ex is_text cs' = list_ex is_text cs"
    using assms(1) by (rule list_ex_perm)
  have nx: "\<not> list_ex is_text cs"
    using assms(2) by (auto simp: series_mean_def split: if_splits)
  show ?thesis
  proof (cases "numbers cs = []")
    case True
    then have a: "series_mean L cs' = Inr Missing" and b: "m = Missing"
      using assms(2) e x nx by (simp_all add: series_mean_def)
    have c: "(\<forall>xs ys. mset xs = mset ys \<longrightarrow> float_mean L xs = float_mean L ys) \<longrightarrow> Missing = m"
      using b by simp
    have d: "is_number Missing = is_number m"
      using b by simp
    show ?thesis using a d c by (intro exI conjI)
  next
    case False
    then have a: "series_mean L cs' = Inr (Num (float_mean L (numbers cs')))"
      and b: "m = Num (float_mean L (numbers cs))"
      using assms(2) e x nx by (simp_all add: series_mean_def)
    have c: "(\<forall>xs ys. mset xs = mset ys \<longrightarrow> float_mean L xs = float_mean L ys)
        \<longrightarrow> Num (float_mean L (numbers cs')) = m"
      using n b by blast
    have d: "is_number (Num (float_mean L (numbers cs'))) = is_number m"
      using b by simp
    show ?thesis using a d c by (intro exI conjI)
  qed
qed

lemma series_mean_int_perm:
  assumes "mset cs' = mset cs" and "series_mean L cs = Inr m" and "py_int_cell L m = Inr v"
  shows "\<exists>m' v'. series_mean L cs' = Inr m' \<and> py_int_cell L m' = Inr v'
       \<and> ((\<forall>xs ys. mset xs = mset ys \<longrightarrow> float_mean L xs = float_mean L ys) \<longrightarrow> v' = v)"
proof -
  from series_mean_perm [OF assms(1,2)] obtain m' where
    a: "series_mean L cs' = Inr m'" and b: "is_number m' = is_number m"
    and c: "(\<forall>xs ys. mset xs = mset ys \<longrightarrow> float_mean L xs = float_mean L ys) \<longrightarrow> m' = m"
    by blast
  have "m = Missing \<or> is_number m"
    using assms(2) by (auto simp: series_mean_def Let_def split: if_splits)
  then have "is_number m"
    using assms(3) by (auto simp: py_int_cell_def)
  then have "is_number m'" using b by simp
  then obtain x where x: "m' = Num x" by (cases m') simp_all
  have d: "py_int_cell L m' = Inr (py_int x)" using x by (simp add: py_int_cell_def)
  have e: "(\<forall>xs ys. mset xs = mset ys \<longrightarrow> float_mean L xs = float_mean L ys) \<longrightarrow> py_int x = v"
  proof
    assume f: "\<forall>xs ys. mset xs = mset ys \<longrightarrow> float_mean L xs = float_mean L ys"
    have "m' = m" using c f by (rule mp)
    then have "py_int_cell L m = Inr (py_int x)" using d by simp
    then show "py_int x = v" using assms(3) by simp
  qed
  show ?thesis using a d e by (intro exI conjI)
qed

lemma series_median_perm:
  assumes "mset cs' = mset cs"
  shows "series_median cs' = series_median cs"
proof -
  have "sort (numbers cs') = sort (numbers cs)"
    using assms by (intro sort_perm numbers_perm)
  then show ?thesis
    using list_ex_perm [OF assms, of is_text] by (simp add: series_median_def Let_def)
qed

lemma map_err_Inr_iff:
  "(map_err f xs = Inr ys) = ((\<forall>x \<in> set xs. \<exists>y. f x = Inr y) \<and> ys = map (\<lambda>x. projr (f x)) xs)"
proof (induction xs arbitrary: ys)
  case Nil
  then show ?case by auto
next
  case (Cons x xs)
  show ?case
  proof (cases "f x")
    case (Inl e)
    then show ?thesis by auto
  next
    case (Inr y)
    show ?thesis
    proof (cases "map_err f xs")
      case (Inl e)
      then have "\<not> (\<forall>x \<in> set xs. \<exists>y. f x = Inr y)"
        using Cons.IH [of "map (\<lambda>x. projr (f x)) xs"] by auto
      then show ?thesis using Inl Inr by auto
    next
      case r: (Inr zs)
      then have "(\<forall>x \<in> set xs. \<exists>y. f x = Inr y) \<and> zs = map (\<lambda>x. projr (f x)) xs"
        using Cons.IH by simp
      then show ?thesis using r Inr by auto
    qed
  qed
qed

lemma map_err_perm:
  assumes "map_err f xs = Inr ys" and "mset xs' = mset xs"
  shows "\<exists>ys'. map_err f xs' = Inr ys' \<and> mset ys' = mset ys"
proof -
  have a: "\<forall>x \<in> set xs. \<exists>y. f x = Inr y" and y: "ys = map (\<lambda>x. projr (f x)) xs"
    using assms(1) by (simp_all add: map_err_Inr_iff)
  have "set xs' = set xs" using assms(2) by (rule mset_eq_setD)
  then have "map_err f xs' = Inr (map (\<lambda>x. projr (f x)) xs')"
    using a by (simp add: map_err_Inr_iff)
  moreover have "mset (map (\<lambda>x. projr (f x)) xs') = mset ys"
    using y assms(2) by simp
  ultimately show ?thesis by blast
qed

lemma set_first_seen [simp]: "set (first_seen xs) = set xs"
  by (induction xs) auto

lemma distinct_first_seen [simp]: "distinct (first_seen xs)"
  by (induction xs) auto

lemma count_list_perm:
  assumes "mset xs' = mset xs"
  shows "count_list xs' k = count_list xs k"
proof -
  have "count (mset xs') k = count (mset xs) k" using assms by simp
  then show ?thesis by (simp only: count_mset)
qed

lemma value_counts_mset: "mset (value_counts L cs) = mset (count_entries cs)"
  by (simp add: value_counts_def)

lemma value_counts_sorted: "sorted (map (\<lambda>p. - int (snd p)) (value_counts L cs))"
  by (simp add: value_counts_def case_prod_unfold)

lemma count_entries_perm:
  assumes "mset cs' = mset cs"
  shows "mset (count_entries cs') = mset (count_entries cs)"
proof -
  let ?vs = "filter pd_notna cs" and ?vs' = "filter pd_notna cs'"
  have v: "mset ?vs' = mset ?vs" using assms by simp
  have "set (first_seen ?vs') = set (first_seen ?vs)"
    using mset_eq_setD [OF v] by simp
  then have f: "mset (first_seen ?vs') = mset (first_seen ?vs)"
    using set_eq_iff_mset_eq_distinct [of "first_seen ?vs'" "first_seen ?vs"] by simp
  have "mset (count_entries cs') = mset (map (\<lambda>k. (k, count_list ?vs k)) (first_seen ?vs'))"
    using count_list_perm [OF v] by (simp add: count_entries_def Let_def)
  also have "\<dots> = mset (map (\<lambda>k. (k, count_list ?vs k)) (first_seen ?vs))"
    using f by (simp only: mset_map)
  finally show ?thesis by (simp add: count_entries_def Let_def)
qed

lemma map_fst_count_entries: "map fst (count_entries cs) = first_seen (filter pd_notna cs)"
  by (simp add: count_entries_def Let_def comp_def)

lemma value_counts_perm_mset:
  "mset cs' = mset cs \<Longrightarrow> mset (value_counts L cs') = mset (value_counts L cs)"
  using count_entries_perm [of cs' cs] by (simp add: value_counts_mset)

lemma distinct_keys_value_counts: "distinct (map fst (value_counts L cs))"
proof -
  have "mset (map fst (value_counts L cs)) = mset (map fst (count_entries cs))"
    by (simp add: value_counts_mset)
  moreover have "distinct (map fst (count_entries cs))"
    by (simp add: map_fst_count_entries)
  ultimately show ?thesis using mset_eq_imp_distinct_iff by blast
qed

lemma sort_key_perm_inj:
  assumes "mset xs' = mset xs" and "inj_on f (set xs)"
  shows "sort_key f xs' = sort_key f xs"
proof (rule sort_key_inj_key_eq)
  show "mset xs' = mset (sort_key f xs)" using assms(1) by simp
  show "inj_on f (set xs')" using assms mset_eq_setD [of xs' xs] by simp
  show "sorted (map f (sort_key f xs))" by simp
qed

lemma inj_on_number_key:
  assumes "distinct (map fst kvs)" and "list_all (\<lambda>(k, n). is_number k) kvs"
  shows "inj_on (\<lambda>(k, n). number_of k) (set kvs)"
proof (rule inj_onI)
  fix p q assume p: "p \<in> set kvs" and q: "q \<in> set kvs"
    and e: "(case p of (k, n) \<Rightarrow> number_of k) = (case q of (k, n) \<Rightarrow> number_of k)"
  have "is_number (fst p)" "is_number (fst q)"
    using assms(2) p q by (auto simp: list_all_iff)
  then have "fst p = fst q"
    using e by (cases "fst p"; cases "fst q") (auto simp: case_prod_unfold)
  then show "p = q"
    using assms(1) p q by (meson distinct_map inj_onD)
qed

lemma inj_on_text_key:
  assumes "distinct (map fst kvs)" and "list_all (\<lambda>(k, n). is_text k) kvs"
  shows "inj_on (\<lambda>(k, n). text_of k) (set kvs)"
proof (rule inj_onI)
  fix p q assume p: "p \<in> set kvs" and q: "q \<in> set kvs"
    and e: "(case p of (k, n) \<Rightarrow> text_of k) = (case q of (k, n) \<Rightarrow> text_of k)"
  have "is_text (fst p)" "is_text (fst q)"
    using assms(2) p q by (auto simp: list_all_iff)
  then have "fst p = fst q"
    using e by (cases "fst p"; cases "fst q") (auto simp: case_prod_unfold)
  then show "p = q"
    using assms(1) p q by (meson distinct_map inj_onD)
qed

lemma sort_index_perm:
  assumes "mset kvs' = mset kvs" and "distinct (map fst kvs)"
  shows "sort_index kvs' = sort_index kvs"
proof -
  have a: "list_all (\<lambda>(k, n). is_number k) kvs' = list_all (\<lambda>(k, n). is_number k) kvs"
    using assms(1) by (rule list_all_perm)
  have b: "list_all (\<lambda>(k, n). is_text k) kvs' = list_all (\<lambda>(k, n). is_text k) kvs"
    using assms(1) by (rule list_all_perm)
  have c: "list_all (\<lambda>(k, n). is_number k) kvs \<Longrightarrow>
      sort_key (\<lambda>(k, n). number_of k) kvs' = sort_key (\<lambda>(k, n). number_of k) kvs"
    using assms by (intro sort_key_perm_inj inj_on_number_key)
  have d: "list_all (\<lambda>(k, n). is_text k) kvs \<Longrightarrow>
      sort_key (\<lambda>(k, n). text_of k) kvs' = sort_key (\<lambda>(k, n). text_of k) kvs"
    using assms by (intro sort_key_perm_inj inj_on_text_key)
  show ?thesis using a b c d by (simp add: sort_index_def)
qed

lemma rooms_histogram_perm:
  "mset cs' = mset cs \<Longrightarrow> sort_index (value_counts L cs') = sort_index (value_counts L cs)"
  by (intro sort_index_perm value_counts_perm_mset distinct_keys_value_counts)

lemma value_counts_perm_counts:
  assumes "mset cs' = mset cs"
  shows "map snd (value_counts L cs') = map snd (value_counts L cs)"
proof -
  let ?key = "\<lambda>p :: cell \<times> nat. - int (snd p)"
  have m: "mset (map ?key (value_counts L cs')) = mset (map ?key (value_counts L cs))"
    using value_counts_perm_mset [OF assms, of L] by simp
  have s: "sorted (map ?key (value_counts L cs))" "sorted (map ?key (value_counts L cs'))"
    by (rule value_counts_sorted)+
  have "sort (map ?key (value_counts L cs)) = map ?key (value_counts L cs')"
    using m s(2) by (intro properties_for_sort) simp_all
  moreover have "sort (map ?key (value_counts L cs)) = map ?key (value_counts L cs)"
    using s(1) by (simp add: sort_key_id_if_sorted)
  ultimately have "map ?key (value_counts L cs') = map ?key (value_counts L cs)" by simp
  then have "map (\<lambda>i. nat (- i)) (map ?key (value_counts L cs'))
           = map (\<lambda>i. nat (- i)) (map ?key (value_counts L cs))" by simp
  then show ?thesis by (simp add: comp_def)
qed

lemma value_counts_perm_distinct_counts:
  assumes "mset cs' = mset cs" and "distinct (map snd (value_counts L cs))"
  shows "value_counts L cs' = value_counts L cs"
proof -
  let ?ties = "sort_key (\<lambda>(k, n). tie_rank L cs k) (count_entries cs)"
  let ?ties' = "sort_key (\<lambda>(k, n). tie_rank L cs' k) (count_entries cs')"
  have "mset (map snd (value_counts L cs)) = mset (map snd (count_entries cs))"
    by (simp add: value_counts_mset)
  then have d: "distinct (map snd (count_entries cs))"
    using assms(2) mset_eq_imp_distinct_iff by blast
  have i: "inj_on (\<lambda>(k, n). - int n) (set ?ties)"
  proof (rule inj_onI)
    fix p q assume p: "p \<in> set ?ties" and q: "q \<in> set ?ties"
      and "(case p of (k, n) \<Rightarrow> - int n) = (case q of (k, n) \<Rightarrow> - int n)"
    then have "snd p = snd q" by (auto simp: case_prod_unfold)
    moreover have "p \<in> set (count_entries cs)" "q \<in> set (count_entries cs)"
      using p q by simp_all
    ultimately show "p = q"
      using d by (meson distinct_map inj_onD)
  qed
  have m: "mset ?ties' = mset ?ties"
    using count_entries_perm [OF assms(1)] by simp
  show ?thesis
    unfolding value_counts_def using m i by (rule sort_key_perm_inj)
qed

lemma column_perm:
  assumes "mset rows' = mset (rows df)" and "get_column df c = Inr sc"
  shows "\<exists>sc'. get_column (df\<lparr>rows := rows'\<rparr>) c = Inr sc' \<and> mset sc' = mset sc"
proof -
  have c: "c \<in> set (columns df)" and s: "sc = map (\<lambda>r. r c) (rows df)"
    using assms(2) by (auto simp: get_column_def split: if_splits)
  have "get_column (df\<lparr>rows := rows'\<rparr>) c = Inr (map (\<lambda>r. r c) rows')"
    using c by (simp add: get_column_def)
  moreover have "mset (map (\<lambda>r. r c) rows') = mset sc"
    using assms(1) s by simp
  ultimately show ?thesis by blast
qed

lemma column_mean_int_perm:
  assumes "mset rows' = mset (rows df)" and "get_column df c = Inr sc"
    and "series_mean L sc = Inr m" and "py_int_cell L m = Inr v"
  shows "\<exists>v'. (\<forall>F :: int \<Rightarrow> error + 'r.
             bind_err (get_column (df\<lparr>rows := rows'\<rparr>) c) (\<lambda>s.
               bind_err (series_mean L s) (\<lambda>m. bind_err (py_int_cell L m) F)) = F v')
       \<and> ((\<forall>xs ys. mset xs = mset ys \<longrightarrow> float_mean L xs = float_mean L ys) \<longrightarrow> v' = v)"
proof -
  from column_perm [OF assms(1,2)] obtain sc' where
    a: "get_column (df\<lparr>rows := rows'\<rparr>) c = Inr sc'" and b: "mset sc' = mset sc" by blast
  from series_mean_int_perm [OF b assms(3,4)] obtain m' v' where
    c: "series_mean L sc' = Inr m'" and d: "py_int_cell L m' = Inr v'"
    and e: "(\<forall>xs ys. mset xs = mset ys \<longrightarrow> float_mean L xs = float_mean L ys) \<longrightarrow> v' = v"
    by blast
  have "\<forall>F :: int \<Rightarrow> error + 'r.
      bind_err (get_column (df\<lparr>rows := rows'\<rparr>) c) (\<lambda>s.
        bind_err (series_mean L s) (\<lambda>m. bind_err (py_int_cell L m) F)) = F v'"
    using a c d by simp
  then show ?thesis using e by blast
qed

lemma column_mean_perm:
  assumes "mset rows' = mset (rows df)" and "get_column df c = Inr sc" and "series_mean L sc = Inr m"
  shows "\<exists>m'. (\<forall>F :: cell \<Rightarrow> error + 'r.
             bind_err (get_column (df\<lparr>rows := rows'\<rparr>) c) (\<lambda>s. bind_err (series_mean L s) F) = F m')
       \<and> ((\<forall>xs ys. mset xs = mset ys \<longrightarrow> float_mean L xs = float_mean L ys) \<longrightarrow> m' = m)"
proof -
  from column_perm [OF assms(1,2)] obtain sc' where
    a: "get_column (df\<lparr>rows := rows'\<rparr>) c = Inr sc'" and b: "mset sc' = mset sc" by blast
  from series_mean_perm [OF b assms(3)] obtain m' where
    c: "series_mean L sc' = Inr m'"
    and e: "(\<forall>xs ys. mset xs = mset ys \<longrightarrow> float_mean L xs = float_mean L ys) \<longrightarrow> m' = m"
    by blast
  have "\<forall>F :: cell \<Rightarrow> error + 'r.
      bind_err (get_column (df\<lparr>rows := rows'\<rparr>) c) (\<lambda>s. bind_err (series_mean L s) F) = F m'"
    using a c by simp
  then show ?thesis using e by blast
qed

lemma column_median_perm:
  assumes "mset rows' = mset (rows df)" and "get_column df c = Inr sc" and "series_median sc = Inr m"
  shows "bind_err (get_column (df\<lparr>rows := rows'\<rparr>) c) (\<lambda>s. bind_err (series_median s) F) = F m"
proof -
  from column_perm [OF assms(1,2)] obtain sc' where
    a: "get_column (df\<lparr>rows := rows'\<rparr>) c = Inr sc'" and b: "mset sc' = mset sc" by blast
  have "series_median sc' = Inr m" using series_median_perm [OF b] assms(3) by simp
  then show ?thesis using a by simp
qed

lemma column_div_mean_int_perm:
  assumes "mset rows' = mset (rows df)" and "get_column df c = Inr sc"
    and "map_err (cell_div n) sc = Inr q" and "series_mean L q = Inr m"
    and "py_int_cell L m = Inr v"
  shows "\<exists>v'. (\<forall>F :: int \<Rightarrow> error + 'r.
             bind_err (get_column (df\<lparr>rows := rows'\<rparr>) c) (\<lambda>s.
               bind_err (map_err (cell_div n) s) (\<lambda>q.
                 bind_err (series_mean L q) (\<lambda>m. bind_err (py_int_cell L m) F))) = F v')
       \<and> ((\<forall>xs ys. mset xs = mset ys \<longrightarrow> float_mean L xs = float_mean L ys) \<longrightarrow> v' = v)"
proof -
  from column_perm [OF assms(1,2)] obtain sc' where
    a: "get_column (df\<lparr>rows := rows'\<rparr>) c = Inr sc'" and b: "mset sc' = mset sc" by blast
  from map_err_perm [OF assms(3) b] obtain q' where
    c: "map_err (cell_div n) sc' = Inr q'" and d: "mset q' = mset q" by blast
  from series_mean_int_perm [OF d assms(4,5)] obtain m' v' where
    f: "series_mean L q' = Inr m'" and g: "py_int_cell L m' = Inr v'"
    and e: "(\<forall>xs ys. mset xs = mset ys \<longrightarrow> float_mean L xs = float_mean L ys) \<longrightarrow> v' = v"
    by blast
  have "\<forall>F :: int \<Rightarrow> error + 'r.
      bind_err (get_column (df\<lparr>rows := rows'\<rparr>) c) (\<lambda>s.
        bind_err (map_err (cell_div n) s) (\<lambda>q.
          bind_err (series_mean L q) (\<lambda>m. bind_err (py_int_cell L m) F))) = F v'"
    using a c f g by simp
  then show ?thesis using e by blast
qed

lemma column_div_median_perm:
  assumes "mset rows' = mset (rows df)" and "get_column df c = Inr sc"
    and "map_err (cell_div n) sc = Inr q" and "series_median q = Inr m"
  shows "bind_err (get_column (df\<lparr>rows := rows'\<rparr>) c) (\<lambda>s.
           bind_err (map_err (cell_div n) s) (\<lambda>q. bind_err (series_median q) F)) = F m"
proof -
  from column_perm [OF assms(1,2)] obtain sc' where
    a: "get_column (df\<lparr>rows := rows'\<rparr>) c = Inr sc'" and b: "mset sc' = mset sc" by blast
  from map_err_perm [OF assms(3) b] obtain q' where
    c: "map_err (cell_div n) sc' = Inr q'" and d: "mset q' = mset q" by blast
  have "series_median q' = Inr m" using series_median_perm [OF d] assms(4) by simp
  then show ?thesis using a c by simp
qed

lemma column_rooms_perm:
  assumes "mset rows' = mset (rows df)" and "get_column df c = Inr sc"
    and "sort_index (value_counts L sc) = Inr h"
  shows "bind_err (get_column (df\<lparr>rows := rows'\<rparr>) c) (\<lambda>s.
           bind_err (sort_index (value_counts L s)) F) = F h"
proof -
  from column_perm [OF assms(1,2)] obtain sc' where
    a: "get_column (df\<lparr>rows := rows'\<rparr>) c = Inr sc'" and b: "mset sc' = mset sc" by blast
  have "sort_index (value_counts L sc') = Inr h"
    using rooms_histogram_perm [OF b, of L] assms(3) by simp
  then show ?thesis using a by simp
qed

lemma city_histogram_perm:
  assumes "mset sby' = mset sby"
  shows "mset (map (\<lambda>(k, v). (f k, int v)) (value_counts L sby'))
           = mset (map (\<lambda>(k, v). (f k, int v)) (value_counts L sby))
       \<and> map snd (map (\<lambda>(k, v). (f k, int v)) (value_counts L sby'))
           = map snd (map (\<lambda>(k, v). (f k, int v)) (value_counts L sby))
       \<and> (distinct (map snd (map (\<lambda>(k, v). (f k, int v)) (value_counts L sby)))
            \<longrightarrow> map (\<lambda>(k, v). (f k, int v)) (value_counts L sby')
                = map (\<lambda>(k, v). (f k, int v)) (value_counts L sby))"
proof (intro conjI impI)
  show "mset (map (\<lambda>(k, v). (f k, int v)) (value_counts L sby'))
           = mset (map (\<lambda>(k, v). (f k, int v)) (value_counts L sby))"
    using value_counts_perm_mset [OF assms, of L] by simp
next
  have e: "\<And>xs :: (cell \<times> nat) list.
      map snd (map (\<lambda>(k, v). (f k, int v)) xs) = map int (map snd xs)"
    by (simp add: case_prod_unfold comp_def)
  show "map snd (map (\<lambda>(k, v). (f k, int v)) (value_counts L sby'))
           = map snd (map (\<lambda>(k, v). (f k, int v)) (value_counts L sby))"
    using value_counts_perm_counts [OF assms, of L] by (simp only: e)
  assume "distinct (map snd (map (\<lambda>(k, v). (f k, int v)) (value_counts L sby)))"
  then have "distinct (map int (map snd (value_counts L sby)))" by (simp only: e)
  then have "distinct (map snd (value_counts L sby))"
    using distinct_map [of int "map snd (value_counts L sby)"] by blast
  then have "value_counts L sby' = value_counts L sby"
    using assms value_counts_perm_distinct_counts by blast
  then show "map (\<lambda>(k, v). (f k, int v)) (value_counts L sby')
                = map (\<lambda>(k, v). (f k, int v)) (value_counts L sby)"
    by simp
qed

lemma leje_statistics_perm:
  assumes P: "mset rows' = mset (rows df)"
    and S: "leje_statistics L df bs s h t = Inr st"
  shows "\<exists>st'. leje_statistics L (df\<lparr>rows := rows'\<rparr>) bs' s h t = Inr st'
       \<and> total_boliger st' = length bs' \<and> boliger st' = bs'
       \<and> median_leje st' = median_leje st \<and> vaerelser_data st' = vaerelser_data st
       \<and> (\<exists>sby sby'. mset sby' = mset sby
             \<and> by_data st = map (\<lambda>(k, v). (py_str_cell L k, int v)) (value_counts L sby)
             \<and> by_data st' = map (\<lambda>(k, v). (py_str_cell L k, int v)) (value_counts L sby'))
       \<and> ((\<forall>xs ys. mset xs = mset ys \<longrightarrow> float_mean L xs = float_mean L ys) \<longrightarrow>
             gns_leje_m2 st' = gns_leje_m2 st \<and> gns_areal st' = gns_areal st
           \<and> gns_leje st' = gns_leje st
           \<and> center_lat st' = center_lat st \<and> center_lng st' = center_lng st)"
proof -
  let ?free = "\<forall>xs ys. mset xs = mset ys \<longrightarrow> float_mean L xs = float_mean L ys"
  let ?df' = "df\<lparr>rows := rows'\<rparr>"
  from S obtain s1 m1 v1 s2 m2 v2 s3 q3 m3 v3 s4 q4 m4 v4 s5 m5 s6 m6 s7 hist vd sby where
    e1: "get_column df ''Leje/m2'' = Inr s1" "series_mean L s1 = Inr m1" "py_int_cell L m1 = Inr v1"
    and e2: "get_column df ''Areal'' = Inr s2" "series_mean L s2 = Inr m2" "py_int_cell L m2 = Inr v2"
    and e3: "get_column df col_aarsleje = Inr s3" "map_err (cell_div 12) s3 = Inr q3"
            "series_mean L q3 = Inr m3" "py_int_cell L m3 = Inr v3"
    and e4: "get_column df col_aarsleje = Inr s4" "map_err (cell_div 12) s4 = Inr q4"
            "series_median q4 = Inr m4" "py_int_cell L m4 = Inr v4"
    and e5: "get_column df ''Lat'' = Inr s5" "series_mean L s5 = Inr m5"
    and e6: "get_column df ''Lng'' = Inr s6" "series_mean L s6 = Inr m6"
    and e7: "get_column df col_antal_vaerelser = Inr s7" "sort_index (value_counts L s7) = Inr hist"
            "map_err (\<lambda>(k, v). bind_err (py_int_cell L k) (\<lambda>k'. Inr (k', int v))) hist = Inr vd"
    and e8: "get_column df ''By'' = Inr sby"
    and st: "\<lparr>total_boliger = length bs, gns_leje_m2 = v1, gns_areal = v2, gns_leje = v3,
              median_leje = v4, center_lat = m5, center_lng = m6, vaerelser_data = vd,
              by_data = map (\<lambda>(k, v). (py_str_cell L k, int v)) (value_counts L sby),
              boliger = bs, scatter_img = s, heatmap_img = h, table_img = t\<rparr> = st"
    unfolding leje_statistics_def bind_err_Inr_iff sum.inject by (elim exE conjE) (rule that)
  from column_mean_int_perm [OF P e1] obtain v1' where
    r1: "\<forall>F :: int \<Rightarrow> error + 'a leje_result.
           bind_err (get_column ?df' ''Leje/m2'') (\<lambda>s.
             bind_err (series_mean L s) (\<lambda>m. bind_err (py_int_cell L m) F)) = F v1'"
    and o1: "?free \<longrightarrow> v1' = v1" by blast
  from column_mean_int_perm [OF P e2] obtain v2' where
    r2: "\<forall>F :: int \<Rightarrow> error + 'a leje_result.
           bind_err (get_column ?df' ''Areal'') (\<lambda>s.
             bind_err (series_mean L s) (\<lambda>m. bind_err (py_int_cell L m) F)) = F v2'"
    and o2: "?free \<longrightarrow> v2' = v2" by blast
  from column_div_mean_int_perm [OF P e3] obtain v3' where
    r3: "\<forall>F :: int \<Rightarrow> error + 'a leje_result.
           bind_err (get_column ?df' col_aarsleje) (\<lambda>s.
             bind_err (map_err (cell_div 12) s) (\<lambda>q.
               bind_err (series_mean L q) (\<lambda>m. bind_err (py_int_cell L m) F))) = F v3'"
    and o3: "?free \<longrightarrow> v3' = v3" by blast
  from column_mean_perm [OF P e5] obtain m5' where
    r5: "\<forall>F :: cell \<Rightarrow> error + 'a leje_result.
           bind_err (get_column ?df' ''Lat'') (\<lambda>s. bind_err (series_mean L s) F) = F m5'"
    and o5: "?free \<longrightarrow> m5' = m5" by blast
  from column_mean_perm [OF P e6] obtain m6' where
    r6: "\<forall>F :: cell \<Rightarrow> error + 'a leje_result.
           bind_err (get_column ?df' ''Lng'') (\<lambda>s. bind_err (series_mean L s) F) = F m6'"
    and o6: "?free \<longrightarrow> m6' = m6" by blast
  from column_perm [OF P e8] obtain sby' where
    b: "get_column ?df' ''By'' = Inr sby'" and mb: "mset sby' = mset sby" by blast
  let ?st' = "\<lparr>total_boliger = length bs', gns_leje_m2 = v1', gns_areal = v2', gns_leje = v3',
              median_leje = v4, center_lat = m5', center_lng = m6', vaerelser_data = vd,
              by_data = map (\<lambda>(k, v). (py_str_cell L k, int v)) (value_counts L sby'),
              boliger = bs', scatter_img = s, heatmap_img = h, table_img = t\<rparr>"
  have run: "leje_statistics L ?df' bs' s h t = Inr ?st'"
    unfolding leje_statistics_def
    by (simp only: bind_err_Inr r1 [rule_format] r2 [rule_format] r3 [rule_format]
        column_div_median_perm [OF P e4(1,2,3)] e4(4) r5 [rule_format] r6 [rule_format]
        column_rooms_perm [OF P e7(1,2)] e7(3) b)
  have f: "median_leje st = v4" "vaerelser_data st = vd"
    "by_data st = map (\<lambda>(k, v). (py_str_cell L k, int v)) (value_counts L sby)"
    "gns_leje_m2 st = v1" "gns_areal st = v2" "gns_leje st = v3"
    "center_lat st = m5" "center_lng st = m6"
    using st by auto
  show ?thesis
  proof (intro exI conjI impI)
    show "leje_statistics L ?df' bs' s h t = Inr ?st'" by (rule run)
    show "total_boliger ?st' = length bs'" by simp
    show "boliger ?st' = bs'" by simp
    show "median_leje ?st' = median_leje st" using f by simp
    show "vaerelser_data ?st' = vaerelser_data st" using f by simp
    show "mset sby' = mset sby" by (rule mb)
    show "by_data st = map (\<lambda>(k, v). (py_str_cell L k, int v)) (value_counts L sby)"
      using f by simp
    show "by_data ?st' = map (\<lambda>(k, v). (py_str_cell L k, int v)) (value_counts L sby')"
      by simp
  next
    assume a: "?free"
    have "v1' = v1" using o1 a by (rule mp)
    then show "gns_leje_m2 ?st' = gns_leje_m2 st" using f by simp
  next
    assume a: "?free"
    have "v2' = v2" using o2 a by (rule mp)
    then show "gns_areal ?st' = gns_areal st" using f by simp
  next
    assume a: "?free"
    have "v3' = v3" using o3 a by (rule mp)
    then show "gns_leje ?st' = gns_leje st" using f by simp
  next
    assume a: "?free"
    have "m5' = m5" using o5 a by (rule mp)
    then show "center_lat ?st' = center_lat st" using f by simp
  next
    assume a: "?free"
    have "m6' = m6" using o6 a by (rule mp)
    then show "center_lng ?st' = center_lng st" using f by simp
  qed
qed

lemma leje_bolig_of_row_rows:
  "leje_bolig_of_row L (df\<lparr>rows := rows'\<rparr>) = leje_bolig_of_row L df"
  by (rule ext) (simp add: leje_bolig_of_row_def row_get_def)

lemma leje_output_perm:
  assumes P: "mset rows' = mset (rows df)"
    and O: "leje_output L df s h t = Inr st"
  shows "\<exists>st'. leje_output L (df\<lparr>rows := rows'\<rparr>) s h t = Inr st'
        \<and> total_boliger st' = total_boliger st
        \<and> median_leje st' = median_leje st
        \<and> vaerelser_data st' = vaerelser_data st
        \<and> mset (by_data st') = mset (by_data st)
        \<and> map snd (by_data st') = map snd (by_data st)
        \<and> (distinct (map snd (by_data st)) \<longrightarrow> by_data st' = by_data st)
        \<and> mset (boliger st') = mset (boliger st)
        \<and> ((\<forall>xs ys. mset xs = mset ys \<longrightarrow> float_mean L xs = float_mean L ys) \<longrightarrow>
              gns_leje_m2 st' = gns_leje_m2 st \<and> gns_areal st' = gns_areal st
            \<and> gns_leje st' = gns_leje st
            \<and> center_lat st' = center_lat st \<and> center_lng st' = center_lng st)"
proof -
  from O obtain bs where
    m: "map_err (leje_bolig_of_row L df) (rows df) = Inr bs"
    and S: "leje_statistics L df bs s h t = Inr st"
    unfolding leje_output_def bind_err_Inr_iff by blast
  from map_err_perm [OF m P] obtain bs' where
    m': "map_err (leje_bolig_of_row L df) rows' = Inr bs'" and mb: "mset bs' = mset bs"
    by blast
  from leje_statistics_perm [OF P S, of bs'] obtain st' sby sby' where
    run: "leje_statistics L (df\<lparr>rows := rows'\<rparr>) bs' s h t = Inr st'"
    and g: "total_boliger st' = length bs'" "boliger st' = bs'"
       "median_leje st' = median_leje st" "vaerelser_data st' = vaerelser_data st"
    and c: "mset sby' = mset sby"
    and bd: "by_data st = map (\<lambda>(k, v). (py_str_cell L k, int v)) (value_counts L sby)"
       "by_data st' = map (\<lambda>(k, v). (py_str_cell L k, int v)) (value_counts L sby')"
    and means: "(\<forall>xs ys. mset xs = mset ys \<longrightarrow> float_mean L xs = float_mean L ys) \<longrightarrow>
             gns_leje_m2 st' = gns_leje_m2 st \<and> gns_areal st' = gns_areal st
           \<and> gns_leje st' = gns_leje st
           \<and> center_lat st' = center_lat st \<and> center_lng st' = center_lng st"
    by blast
  have out: "leje_output L (df\<lparr>rows := rows'\<rparr>) s h t = Inr st'"
    using m' run by (simp add: leje_output_def leje_bolig_of_row_rows)
  have fields: "total_boliger st = length bs" "boliger st = bs"
    using S unfolding leje_statistics_def bind_err_Inr_iff by auto
  have len: "length bs' = length bs" using mb by (rule mset_eq_length)
  note hist = city_histogram_perm [OF c, of "py_str_cell L" L]
  show ?thesis
  proof (intro exI conjI)
    show "leje_output L (df\<lparr>rows := rows'\<rparr>) s h t = Inr st'" by (rule out)
    show "total_boliger st' = total_boliger st" using fields len g by simp
    show "median_leje st' = median_leje st" using g by simp
    show "vaerelser_data st' = vaerelser_data st" using g by simp
    show "mset (by_data st') = mset (by_data st)" using hist bd by simp
    show "map snd (by_data st') = map snd (by_data st)" using hist bd by simp
    show "distinct (map snd (by_data st)) \<longrightarrow> by_data st' = by_data st" using hist bd by simp
    show "mset (boliger st') = mset (boliger st)" using fields mb g by simp
    show "(\<forall>xs ys. mset xs = mset ys \<longrightarrow> float_mean L xs = float_mean L ys) \<longrightarrow>
              gns_leje_m2 st' = gns_leje_m2 st \<and> gns_areal st' = gns_areal st
            \<and> gns_leje st' = gns_leje st
            \<and> center_lat st' = center_lat st \<and> center_lng st' = center_lng st"
      by (rule means)
  qed
qed

lemma ejer_statistics_perm:
  assumes P: "mset rows' = mset (rows df)"
    and S: "ejer_statistics L df bs s h t = Inr st"
  shows "\<exists>st'. ejer_statistics L (df\<lparr>rows := rows'\<rparr>) bs' s h t = Inr st'
       \<and> ejer_total_boliger st' = length bs' \<and> ejer_boliger st' = bs'
       \<and> median_pris st' = median_pris st \<and> ejer_vaerelser_data st' = ejer_vaerelser_data st
       \<and> (\<exists>sby sby'. mset sby' = mset sby
             \<and> ejer_by_data st = map (\<lambda>(k, v). (py_str_cell L k, int v)) (value_counts L sby)
             \<and> ejer_by_data st' = map (\<lambda>(k, v). (py_str_cell L k, int v)) (value_counts L sby'))
       \<and> ((\<forall>xs ys. mset xs = mset ys \<longrightarrow> float_mean L xs = float_mean L ys) \<longrightarrow>
             gns_pris_m2 st' = gns_pris_m2 st \<and> ejer_gns_areal st' = ejer_gns_areal st
           \<and> gns_pris st' = gns_pris st
           \<and> ejer_center_lat st' = ejer_center_lat st \<and> ejer_center_lng st' = ejer_center_lng st)"
proof -
  let ?free = "\<forall>xs ys. mset xs = mset ys \<longrightarrow> float_mean L xs = float_mean L ys"
  let ?df' = "df\<lparr>rows := rows'\<rparr>"
  from S obtain s1 m1 v1 s2 m2 v2 s3 m3 v3 s4 m4 v4 s5 m5 s6 m6 s7 hist vd sby where
    e1: "get_column df ''Pris pr. m2 (enhedsareal)'' = Inr s1" "series_mean L s1 = Inr m1"
        "py_int_cell L m1 = Inr v1"
    and e2: "get_column df ''Enhedsareal'' = Inr s2" "series_mean L s2 = Inr m2" "py_int_cell L m2 = Inr v2"
    and e3: "get_column df ''Pris'' = Inr s3" "series_mean L s3 = Inr m3" "py_int_cell L m3 = Inr v3"
    and e4: "get_column df ''Pris'' = Inr s4" "series_median s4 = Inr m4" "py_int_cell L m4 = Inr v4"
    and e5: "get_column df ''lat'' = Inr s5" "series_mean L s5 = Inr m5"
    and e6: "get_column df ''lng'' = Inr s6" "series_mean L s6 = Inr m6"
    and e7: "get_column df col_Antal_Vaerelser = Inr s7" "sort_index (value_counts L s7) = Inr hist"
            "map_err (\<lambda>(k, v). bind_err (py_int_cell L k) (\<lambda>k'. Inr (k', int v))) hist = Inr vd"
    and e8: "get_column df ''By'' = Inr sby"
    and st: "\<lparr>ejer_total_boliger = length bs, gns_pris_m2 = v1, ejer_gns_areal = v2, gns_pris = v3,
              median_pris = v4, ejer_center_lat = m5, ejer_center_lng = m6, ejer_vaerelser_data = vd,
              ejer_by_data = map (\<lambda>(k, v). (py_str_cell L k, int v)) (value_counts L sby),
              ejer_boliger = bs, ejer_scatter_img = s, ejer_heatmap_img = h, ejer_table_img = t\<rparr> = st"
    unfolding ejer_statistics_def bind_err_Inr_iff sum.inject by (elim exE conjE) (rule that)
  from column_mean_int_perm [OF P e1] obtain v1' where
    r1: "\<forall>F :: int \<Rightarrow> error + 'a ejer_result.
           bind_err (get_column ?df' ''Pris pr. m2 (enhedsareal)'') (\<lambda>s.
             bind_err (series_mean L s) (\<lambda>m. bind_err (py_int_cell L m) F)) = F v1'"
    and o1: "?free \<longrightarrow> v1' = v1" by blast
  from column_mean_int_perm [OF P e2] obtain v2' where
    r2: "\<forall>F :: int \<Rightarrow> error + 'a ejer_result.
           bind_err (get_column ?df' ''Enhedsareal'') (\<lambda>s.
             bind_err (series_mean L s) (\<lambda>m. bind_err (py_int_cell L m) F)) = F v2'"
    and o2: "?free \<longrightarrow> v2' = v2" by blast
  from column_mean_int_perm [OF P e3] obtain v3' where
    r3: "\<forall>F :: int \<Rightarrow> error + 'a ejer_result.
           bind_err (get_column ?df' ''Pris'') (\<lambda>s.
             bind_err (series_mean L s) (\<lambda>m. bind_err (py_int_cell L m) F)) = F v3'"
    and o3: "?free \<longrightarrow> v3' = v3" by blast
  from column_mean_perm [OF P e5] obtain m5' where
    r5: "\<forall>F :: cell \<Rightarrow> error + 'a ejer_result.
           bind_err (get_column ?df' ''lat'') (\<lambda>s. bind_err (series_mean L s) F) = F m5'"
    and o5: "?free \<longrightarrow> m5' = m5" by blast
  from column_mean_perm [OF P e6] obtain m6' where
    r6: "\<forall>F :: cell \<Rightarrow> error + 'a ejer_result.
           bind_err (get_column ?df' ''lng'') (\<lambda>s. bind_err (series_mean L s) F) = F m6'"
    and o6: "?free \<longrightarrow> m6' = m6" by blast
  from column_perm [OF P e8] obtain sby' where
    b: "get_column ?df' ''By'' = Inr sby'" and mb: "mset sby' = mset sby" by blast
  let ?st' = "\<lparr>ejer_total_boliger = length bs', gns_pris_m2 = v1', ejer_gns_areal = v2', gns_pris = v3',
              median_pris = v4, ejer_center_lat = m5', ejer_center_lng = m6', ejer_vaerelser_data = vd,
              ejer_by_data = map (\<lambda>(k, v). (py_str_cell L k, int v)) (value_counts L sby'),
              ejer_boliger = bs', ejer_scatter_img = s, ejer_heatmap_img = h, ejer_table_img = t\<rparr>"
  have run: "ejer_statistics L ?df' bs' s h t = Inr ?st'"
    unfolding ejer_statistics_def
    by (simp only: bind_err_Inr r1 [rule_format] r2 [rule_format] r3 [rule_format]
        column_median_perm [OF P e4(1,2)] e4(3) r5 [rule_format] r6 [rule_format]
        column_rooms_perm [OF P e7(1,2)] e7(3) b)
  have f: "median_pris st = v4" "ejer_vaerelser_data st = vd"
    "ejer_by_data st = map (\<lambda>(k, v). (py_str_cell L k, int v)) (value_counts L sby)"
    "gns_pris_m2 st = v1" "ejer_gns_areal st = v2" "gns_pris st = v3"
    "ejer_center_lat st = m5" "ejer_center_lng st = m6"
    using st by auto
  show ?thesis
  proof (intro exI conjI impI)
    show "ejer_statistics L ?df' bs' s h t = Inr ?st'" by (rule run)
    show "ejer_total_boliger ?st' = length bs'" by simp
    show "ejer_boliger ?st' = bs'" by simp
    show "median_pris ?st' = median_pris st" using f by simp
    show "ejer_vaerelser_data ?st' = ejer_vaerelser_data st" using f by simp
    show "mset sby' = mset sby" by (rule mb)
    show "ejer_by_data st = map (\<lambda>(k, v). (py_str_cell L k, int v)) (value_counts L sby)"
      using f by simp
    show "ejer_by_data ?st' = map (\<lambda>(k, v). (py_str_cell L k, int v)) (value_counts L sby')"
      by simp
  next
    assume a: "?free"
    have "v1' = v1" using o1 a by (rule mp)
    then show "gns_pris_m2 ?st' = gns_pris_m2 st" using f by simp
  next
    assume a: "?free"
    have "v2' = v2" using o2 a by (rule mp)
    then show "ejer_gns_areal ?st' = ejer_gns_areal st" using f by simp
  next
    assume a: "?free"
    have "v3' = v3" using o3 a by (rule mp)
    then show "gns_pris ?st' = gns_pris st" using f by simp
  next
    assume a: "?free"
    have "m5' = m5" using o5 a by (rule mp)
    then show "ejer_center_lat ?st' = ejer_center_lat st" using f by simp
  next
    assume a: "?free"
    have "m6' = m6" using o6 a by (rule mp)
    then show "ejer_center_lng ?st' = ejer_center_lng st" using f by simp
  qed
qed

lemma ejer_bolig_of_row_rows:
  "ejer_bolig_of_row L (df\<lparr>rows := rows'\<rparr>) = ejer_bolig_of_row L df"
  by (rule ext) (simp add: ejer_bolig_of_row_def row_get_def)

lemma ejer_output_perm:
  assumes P: "mset rows' = mset (rows df)"
    and O: "ejer_output L df s h t = Inr st"
  shows "\<exists>st'. ejer_output L (df\<lparr>rows := rows'\<rparr>) s h t = Inr st'
        \<and> ejer_total_boliger st' = ejer_total_boliger st
        \<and> median_pris st' = median_pris st
        \<and> ejer_vaerelser_data st' = ejer_vaerelser_data st
        \<and> mset (ejer_by_data st') = mset (ejer_by_data st)
        \<and> map snd (ejer_by_data st') = map snd (ejer_by_data st)
        \<and> (distinct (map snd (ejer_by_data st)) \<longrightarrow> ejer_by_data st' = ejer_by_data st)
        \<and> mset (ejer_boliger st') = mset (ejer_boliger st)
        \<and> ((\<forall>xs ys. mset xs = mset ys \<longrightarrow> float_mean L xs = float_mean L ys) \<longrightarrow>
              gns_pris_m2 st' = gns_pris_m2 st \<and> ejer_gns_areal st' = ejer_gns_areal st
            \<and> gns_pris st' = gns_pris st
            \<and> ejer_center_lat st' = ejer_center_lat st \<and> ejer_center_lng st' = ejer_center_lng st)"
proof -
  from O obtain bs where
    m: "map_err (ejer_bolig_of_row L df) (rows df) = Inr bs"
    and S: "ejer_statistics L df bs s h t = Inr st"
    unfolding ejer_output_def bind_err_Inr_iff by blast
  from map_err_perm [OF m P] obtain bs' where
    m': "map_err (ejer_bolig_of_row L df) rows' = Inr bs'" and mb: "mset bs' = mset bs"
    by blast
  from ejer_statistics_perm [OF P S, of bs'] obtain st' sby sby' where
    run: "ejer_statistics L (df\<lparr>rows := rows'\<rparr>) bs' s h t = Inr st'"
    and g: "ejer_total_boliger st' = length bs'" "ejer_boliger st' = bs'"
       "median_pris st' = median_pris st" "ejer_vaerelser_data st' = ejer_vaerelser_data st"
    and c: "mset sby' = mset sby"
    and bd: "ejer_by_data st = map (\<lambda>(k, v). (py_str_cell L k, int v)) (value_counts L sby)"
       "ejer_by_data st' = map (\<lambda>(k, v). (py_str_cell L k, int v)) (value_counts L sby')"
    and means: "(\<forall>xs ys. mset xs = mset ys \<longrightarrow> float_mean L xs = float_mean L ys) \<longrightarrow>
             gns_pris_m2 st' = gns_pris_m2 st \<and> ejer_gns_areal st' = ejer_gns_areal st
           \<and> gns_pris st' = gns_pris st
           \<and> ejer_center_lat st' = ejer_center_lat st \<and> ejer_center_lng st' = ejer_center_lng st"
    by blast
  have out: "ejer_output L (df\<lparr>rows := rows'\<rparr>) s h t = Inr st'"
    using m' run by (simp add: ejer_output_def ejer_bolig_of_row_rows)
  have fields: "ejer_total_boliger st = length bs" "ejer_boliger st = bs"
    using S unfolding ejer_statistics_def bind_err_Inr_iff by auto
  have len: "length bs' = length bs" using mb by (rule mset_eq_length)
  note hist = city_histogram_perm [OF c, of "py_str_cell L" L]
  show ?thesis
  proof (intro exI conjI)
    show "ejer_output L (df\<lparr>rows := rows'\<rparr>) s h t = Inr st'" by (rule out)
    show "ejer_total_boliger st' = ejer_total_boliger st" using fields len g by simp
    show "median_pris st' = median_pris st" using g by simp
    show "ejer_vaerelser_data st' = ejer_vaerelser_data st" using g by simp
    show "mset (ejer_by_data st') = mset (ejer_by_data st)" using hist bd by simp
    show "map snd (ejer_by_data st') = map snd (ejer_by_data st)" using hist bd by simp
    show "distinct (map snd (ejer_by_data st)) \<longrightarrow> ejer_by_data st' = ejer_by_data st"
      using hist bd by simp
    show "mset (ejer_boliger st') = mset (ejer_boliger st)" using fields mb g by simp
    show "(\<forall>xs ys. mset xs = mset ys \<longrightarrow> float_mean L xs = float_mean L ys) \<longrightarrow>
              gns_pris_m2 st' = gns_pris_m2 st \<and> ejer_gns_areal st' = ejer_gns_areal st
            \<and> gns_pris st' = gns_pris st
            \<and> ejer_center_lat st' = ejer_center_lat st \<and> ejer_center_lng st' = ejer_center_lng st"
      by (rule means)
  qed
qed


subsection \<open>Runs on the example tables\<close>

lemma exact_mean_perm:
  assumes "mset xs = mset ys"
  shows "exact_mean xs = exact_mean ys"
proof -
  have s: "sum_list xs = sum_list ys"
    using arg_cong [OF assms, of sum_mset] by (simp add: sum_mset_sum_list)
  have l: "length xs = length ys"
    using assms by (rule mset_eq_length)
  show ?thesis using s l by (simp add: exact_mean_def)
qed

lemma row_count_library_mean:
  "\<forall>xs ys. mset xs = mset ys \<longrightarrow> float_mean row_count_library xs = float_mean row_count_library ys"
proof (intro allI impI)
  fix xs ys :: "real list"
  assume "mset xs = mset ys"
  then have "exact_mean xs = exact_mean ys" by (rule exact_mean_perm)
  then show "float_mean row_count_library xs = float_mean row_count_library ys"
    by (simp add: row_count_library_def)
qed

lemma leje_two_cities_output:
  "map_sum id (\<lambda>st. (total_boliger st, gns_leje_m2 st, gns_areal st, gns_leje st, median_leje st,
                      center_lat st, center_lng st, vaerelser_data st, by_data st))
     (leje_output row_count_library leje_two_cities 2 2 2)
   = Inr (2, 1500, 70, 9166, 9166, Num 55.7, Num 12.5, [(3, 2)], [(''Valby'', 1), (''Vanl'', 1)])"
  by code_simp

lemma leje_two_cities_swapped_output:
  "map_sum id (\<lambda>st. (total_boliger st, gns_leje_m2 st, gns_areal st, gns_leje st, median_leje st,
                      center_lat st, center_lng st, vaerelser_data st, by_data st))
     (leje_output row_count_library leje_two_cities_swapped 2 2 2)
   = Inr (2, 1500, 70, 9166, 9166, Num 55.7, Num 12.5, [(3, 2)], [(''Vanl'', 1), (''Valby'', 1)])"
  by code_simp

lemma ejer_two_cities_output:
  "map_sum id (\<lambda>st. (ejer_total_boliger st, gns_pris_m2 st, ejer_gns_areal st, gns_pris st, median_pris st,
                      ejer_center_lat st, ejer_center_lng st, ejer_vaerelser_data st, ejer_by_data st))
     (ejer_output row_count_library ejer_two_cities 2 2 2)
   = Inr (2, 50000, 80, 3500000, 3500000, Num 55.7, Num 12.5, [(4, 2)], [(''Valby'', 1), (''Vanl'', 1)])"
  by code_simp

lemma ejer_two_cities_swapped_output:
  "map_sum id (\<lambda>st. (ejer_total_boliger st, gns_pris_m2 st, ejer_gns_areal st, gns_pris st, median_pris st,
                      ejer_center_lat st, ejer_center_lng st, ejer_vaerelser_data st, ejer_by_data st))
     (ejer_output row_count_library ejer_two_cities_swapped 2 2 2)
   = Inr (2, 50000, 80, 3500000, 3500000, Num 55.7, Num 12.5, [(4, 2)], [(''Vanl'', 1), (''Valby'', 1)])"
  by code_simp

lemma reverse_ties_output:
  "map_sum id by_data (leje_output reverse_ties_library leje_two_cities 2 2 2)
     = Inr [(''Vanl'', 1), (''Valby'', 1)]"
  "map_sum id by_data (leje_output reverse_ties_library leje_two_cities_swapped 2 2 2)
     = Inr [(''Valby'', 1), (''Vanl'', 1)]"
  "map_sum id ejer_by_data (ejer_output reverse_ties_library ejer_two_cities 2 2 2)
     = Inr [(''Vanl'', 1), (''Valby'', 1)]"
  "map_sum id ejer_by_data (ejer_output reverse_ties_library ejer_two_cities_swapped 2 2 2)
     = Inr [(''Valby'', 1), (''Vanl'', 1)]"
  by code_simp+

lemma swapped_rows:
  "leje_two_cities_swapped = leje_two_cities\<lparr>rows := rows leje_two_cities_swapped\<rparr>"
  "mset (rows leje_two_cities_swapped) = mset (rows leje_two_cities)"
  "ejer_two_cities_swapped = ejer_two_cities\<lparr>rows := rows ejer_two_cities_swapped\<rparr>"
  "mset (rows ejer_two_cities_swapped) = mset (rows ejer_two_cities)"
  by (simp_all add: leje_two_cities_swapped_def leje_two_cities_def
      ejer_two_cities_swapped_def ejer_two_cities_def)

lemma reordered_rows:
  "mset (rows leje_three_areas_reordered) = mset (rows leje_three_areas)"
  "columns leje_three_areas_reordered = columns leje_three_areas"
  "mset (rows ejer_three_areas_reordered) = mset (rows ejer_three_areas)"
  "columns ejer_three_areas_reordered = columns ejer_three_areas"
  "leje_three_areas_reordered = leje_three_areas\<lparr>rows := rows leje_three_areas_reordered\<rparr>"
  "ejer_three_areas_reordered = ejer_three_areas\<lparr>rows := rows ejer_three_areas_reordered\<rparr>"
  by (simp_all add: leje_three_areas_reordered_def leje_three_areas_def
      ejer_three_areas_reordered_def ejer_three_areas_def)

lemma three_areas_city_histogram:
  "map_sum id by_data (leje_output row_count_library leje_three_areas 3 3 3)
     = Inr [(''Valby'', 2), (''Vanl'', 1)]"
  "map_sum id ejer_by_data (ejer_output row_count_library ejer_three_areas 3 3 3)
     = Inr [(''Valby'', 2), (''Vanl'', 1)]"
  by code_simp+

subsection \<open>Runs in double arithmetic\<close>

lemma bitlen_numeral_step: "bitlen (numeral n) = bitlen (numeral n div 2) + 1"
  by (subst compute_bitlen) simp

lemma bitlen_one: "bitlen 1 = 1"
  by (subst compute_bitlen) simp

lemmas double_eval = double_mean_def round_double_def two_power_def binary_exponent_def
  round_half_even_def Let_def bitlen_numeral_step bitlen_one

lemma float_mean_double_library: "float_mean double_library = double_mean"
  by (simp add: double_library_def)

lemma double_mean_areas:
  "series_mean double_library [Num 58.8, Num 69.6, Num 21.6]
     = Inr (Num (7036874417766399 / 140737488355328))"
  "series_mean double_library [Num 21.6, Num 69.6, Num 58.8] = Inr (Num 50)"
  by (simp_all add: series_mean_def float_mean_double_library double_eval)

lemma double_mean_truncated:
  "py_int_cell double_library (Num (7036874417766399 / 140737488355328)) = Inr 49"
  "py_int_cell double_library (Num 50) = Inr 50"
  by (simp_all add: py_int_cell_def py_int_def)

lemma double_mean_constant:
  "series_mean double_library [Num 1500, Num 1500, Num 1500] = Inr (Num 1500)"
  "series_mean double_library [Num 10000, Num 10000, Num 10000] = Inr (Num 10000)"
  "series_mean double_library [Num 50000, Num 50000, Num 50000] = Inr (Num 50000)"
  "series_mean double_library [Num 4000000, Num 4000000, Num 4000000] = Inr (Num 4000000)"
  by (simp_all add: series_mean_def float_mean_double_library double_eval)

lemma double_mean_constant_truncated:
  "py_int_cell double_library (Num 1500) = Inr 1500"
  "py_int_cell double_library (Num 10000) = Inr 10000"
  "py_int_cell double_library (Num 50000) = Inr 50000"
  "py_int_cell double_library (Num 4000000) = Inr 4000000"
  by (simp_all add: py_int_cell_def py_int_def)

lemma double_mean_center:
  "\<exists>x. series_mean double_library [Num 55.7, Num 55.7, Num 55.7] = Inr (Num x)"
  "\<exists>x. series_mean double_library [Num 12.5, Num 12.5, Num 12.5] = Inr (Num x)"
  by (simp_all add: series_mean_def)

lemma three_rows_median:
  "series_median [Num 10000, Num 10000, Num 10000] = Inr (Num 10000)"
  "series_median [Num 4000000, Num 4000000, Num 4000000] = Inr (Num 4000000)"
  by code_simp+

lemma three_rows_monthly:
  "map_err (cell_div 12) [Num 120000, Num 120000, Num 120000]
     = Inr [Num 10000, Num 10000, Num 10000]"
  by code_simp

lemma three_rows_rooms:
  "sort_index (value_counts double_library [Num 3, Num 3, Num 3]) = Inr [(Num 3, 3)]"
  "map_err (\<lambda>(k, v). bind_err (py_int_cell double_library k) (\<lambda>k'. Inr (k', int v))) [(Num 3, 3)]
     = Inr [(3, 3)]"
  "sort_index (value_counts double_library [Num 4, Num 4, Num 4]) = Inr [(Num 4, 3)]"
  "map_err (\<lambda>(k, v). bind_err (py_int_cell double_library k) (\<lambda>k'. Inr (k', int v))) [(Num 4, 3)]
     = Inr [(4, 3)]"
  by code_simp+

lemma leje_three_areas_columns:
  "get_column leje_three_areas ''Leje/m2'' = Inr [Num 1500, Num 1500, Num 1500]"
  "get_column leje_three_areas ''Areal'' = Inr [Num 58.8, Num 69.6, Num 21.6]"
  "get_column leje_three_areas col_aarsleje = Inr [Num 120000, Num 120000, Num 120000]"
  "get_column leje_three_areas ''Lat'' = Inr [Num 55.7, Num 55.7, Num 55.7]"
  "get_column leje_three_areas ''Lng'' = Inr [Num 12.5, Num 12.5, Num 12.5]"
  "get_column leje_three_areas col_antal_vaerelser = Inr [Num 3, Num 3, Num 3]"
  "get_column leje_three_areas ''By'' = Inr [Str ''Valby'', Str ''Valby'', Str ''Vanl'']"
  by code_simp+

lemma leje_three_areas_reordered_columns:
  "get_column leje_three_areas_reordered ''Leje/m2'' = Inr [Num 1500, Num 1500, Num 1500]"
  "get_column leje_three_areas_reordered ''Areal'' = Inr [Num 21.6, Num 69.6, Num 58.8]"
  "get_column leje_three_areas_reordered col_aarsleje = Inr [Num 120000, Num 120000, Num 120000]"
  "get_column leje_three_areas_reordered ''Lat'' = Inr [Num 55.7, Num 55.7, Num 55.7]"
  "get_column leje_three_areas_reordered ''Lng'' = Inr [Num 12.5, Num 12.5, Num 12.5]"
  "get_column leje_three_areas_reordered col_antal_vaerelser = Inr [Num 3, Num 3, Num 3]"
  "get_column leje_three_areas_reordered ''By'' = Inr [Str ''Vanl'', Str ''Valby'', Str ''Valby'']"
  by code_simp+

lemma leje_three_areas_listings:
  "\<not> isl (map_err (leje_bolig_of_row double_library leje_three_areas) (rows leje_three_areas))"
  "\<not> isl (map_err (leje_bolig_of_row double_library leje_three_areas_reordered)
            (rows leje_three_areas_reordered))"
  by code_simp+

lemma leje_three_areas_mean:
  "map_sum id gns_areal (leje_output double_library leje_three_areas 3 3 3) = Inr 49"
proof -
  obtain bs where bs: "map_err (leje_bolig_of_row double_library leje_three_areas)
      (rows leje_three_areas) = Inr bs"
    using leje_three_areas_listings(1)
    by (cases "map_err (leje_bolig_of_row double_library leje_three_areas) (rows leje_three_areas)")
       simp_all
  obtain x y where
    x: "series_mean double_library [Num 55.7, Num 55.7, Num 55.7] = Inr (Num x)"
    and y: "series_mean double_library [Num 12.5, Num 12.5, Num 12.5] = Inr (Num y)"
    using double_mean_center by blast
  have "leje_output double_library leje_three_areas 3 3 3 =
      Inr \<lparr>total_boliger = length bs, gns_leje_m2 = 1500, gns_areal = 49, gns_leje = 10000,
           median_leje = 10000, center_lat = Num x, center_lng = Num y, vaerelser_data = [(3, 3)],
           by_data = map (\<lambda>(k, v). (py_str_cell double_library k, int v))
                       (value_counts double_library [Str ''Valby'', Str ''Valby'', Str ''Vanl'']),
           boliger = bs, scatter_img = 3, heatmap_img = 3, table_img = 3\<rparr>"
    unfolding leje_output_def leje_statistics_def
    by (simp only: bind_err_Inr bs leje_three_areas_columns double_mean_areas double_mean_truncated
        double_mean_constant double_mean_constant_truncated three_rows_monthly three_rows_median
        three_rows_rooms x y)
  then show ?thesis by simp
qed

lemma leje_three_areas_reordered_mean:
  "map_sum id gns_areal (leje_output double_library leje_three_areas_reordered 3 3 3) = Inr 50"
proof -
  obtain bs where bs: "map_err (leje_bolig_of_row double_library leje_three_areas_reordered)
      (rows leje_three_areas_reordered) = Inr bs"
    using leje_three_areas_listings(2)
    by (cases "map_err (leje_bolig_of_row double_library leje_three_areas_reordered)
                 (rows leje_three_areas_reordered)")
       simp_all
  obtain x y where
    x: "series_mean double_library [Num 55.7, Num 55.7, Num 55.7] = Inr (Num x)"
    and y: "series_mean double_library [Num 12.5, Num 12.5, Num 12.5] = Inr (Num y)"
    using double_mean_center by blast
  have "leje_output double_library leje_three_areas_reordered 3 3 3 =
      Inr \<lparr>total_boliger = length bs, gns_leje_m2 = 1500, gns_areal = 50, gns_leje = 10000,
           median_leje = 10000, center_lat = Num x, center_lng = Num y, vaerelser_data = [(3, 3)],
           by_data = map (\<lambda>(k, v). (py_str_cell double_library k, int v))
                       (value_counts double_library [Str ''Vanl'', Str ''Valby'', Str ''Valby'']),
           boliger = bs, scatter_img = 3, heatmap_img = 3, table_img = 3\<rparr>"
    unfolding leje_output_def leje_statistics_def
    by (simp only: bind_err_Inr bs leje_three_areas_reordered_columns double_mean_areas
        double_mean_truncated double_mean_constant double_mean_constant_truncated
        three_rows_monthly three_rows_median three_rows_rooms x y)
  then show ?thesis by simp
qed

lemma ejer_three_areas_columns:
  "get_column ejer_three_areas ''Pris pr. m2 (enhedsareal)'' = Inr [Num 50000, Num 50000, Num 50000]"
  "get_column ejer_three_areas ''Enhedsareal'' = Inr [Num 58.8, Num 69.6, Num 21.6]"
  "get_column ejer_three_areas ''Pris'' = Inr [Num 4000000, Num 4000000, Num 4000000]"
  "get_column ejer_three_areas ''lat'' = Inr [Num 55.7, Num 55.7, Num 55.7]"
  "get_column ejer_three_areas ''lng'' = Inr [Num 12.5, Num 12.5, Num 12.5]"
  "get_column ejer_three_areas col_Antal_Vaerelser = Inr [Num 4, Num 4, Num 4]"
  "get_column ejer_three_areas ''By'' = Inr [Str ''Valby'', Str ''Valby'', Str ''Vanl'']"
  by code_simp+

lemma ejer_three_areas_reordered_columns:
  "get_column ejer_three_areas_reordered ''Pris pr. m2 (enhedsareal)''
     = Inr [Num 50000, Num 50000, Num 50000]"
  "get_column ejer_three_areas_reordered ''Enhedsareal'' = Inr [Num 21.6, Num 69.6, Num 58.8]"
  "get_column ejer_three_areas_reordered ''Pris'' = Inr [Num 4000000, Num 4000000, Num 4000000]"
  "get_column ejer_three_areas_reordered ''lat'' = Inr [Num 55.7, Num 55.7, Num 55.7]"
  "get_column ejer_three_areas_reordered ''lng'' = Inr [Num 12.5, Num 12.5, Num 12.5]"
  "get_column ejer_three_areas_reordered col_Antal_Vaerelser = Inr [Num 4, Num 4, Num 4]"
  "get_column ejer_three_areas_reordered ''By'' = Inr [Str ''Vanl'', Str ''Valby'', Str ''Valby'']"
  by code_simp+

lemma ejer_three_areas_listings:
  "\<not> isl (map_err (ejer_bolig_of_row double_library ejer_three_areas) (rows ejer_three_areas))"
  "\<not> isl (map_err (ejer_bolig_of_row double_library ejer_three_areas_reordered)
            (rows ejer_three_areas_reordered))"
  by code_simp+

lemma ejer_three_areas_mean:
  "map_sum id ejer_gns_areal (ejer_output double_library ejer_three_areas 3 3 3) = Inr 49"
proof -
  obtain bs where bs: "map_err (ejer_bolig_of_row double_library ejer_three_areas)
      (rows ejer_three_areas) = Inr bs"
    using ejer_three_areas_listings(1)
    by (cases "map_err (ejer_bolig_of_row double_library ejer_three_areas) (rows ejer_three_areas)")
       simp_all
  obtain x y where
    x: "series_mean double_library [Num 55.7, Num 55.7, Num 55.7] = Inr (Num x)"
    and y: "series_mean double_library [Num 12.5, Num 12.5, Num 12.5] = Inr (Num y)"
    using double_mean_center by blast
  have "ejer_output double_library ejer_three_areas 3 3 3 =
      Inr \<lparr>ejer_total_boliger = length bs, gns_pris_m2 = 50000, ejer_gns_areal = 49,
           gns_pris = 4000000, median_pris = 4000000, ejer_center_lat = Num x,
           ejer_center_lng = Num y, ejer_vaerelser_data = [(4, 3)],
           ejer_by_data = map (\<lambda>(k, v). (py_str_cell double_library k, int v))
                       (value_counts double_library [Str ''Valby'', Str ''Valby'', Str ''Vanl'']),
           ejer_boliger = bs, ejer_scatter_img = 3, ejer_heatmap_img = 3, ejer_table_img = 3\<rparr>"
    unfolding ejer_output_def ejer_statistics_def
    by (simp only: bind_err_Inr bs ejer_three_areas_columns double_mean_areas double_mean_truncated
        double_mean_constant double_mean_constant_truncated three_rows_median three_rows_rooms x y)
  then show ?thesis by simp
qed

lemma ejer_three_areas_reordered_mean:
  "map_sum id ejer_gns_areal (ejer_output double_library ejer_three_areas_reordered 3 3 3) = Inr 50"
proof -
  obtain bs where bs: "map_err (ejer_bolig_of_row double_library ejer_three_areas_reordered)
      (rows ejer_three_areas_reordered) = Inr bs"
    using ejer_three_areas_listings(2)
    by (cases "map_err (ejer_bolig_of_row double_library ejer_three_areas_reordered)
                 (rows ejer_three_areas_reordered)")
       simp_all
  obtain x y where
    x: "series_mean double_library [Num 55.7, Num 55.7, Num 55.7] = Inr (Num x)"
    and y: "series_mean double_library [Num 12.5, Num 12.5, Num 12.5] = Inr (Num y)"
    using double_mean_center by blast
  have "ejer_output double_library ejer_three_areas_reordered 3 3 3 =
      Inr \<lparr>ejer_total_boliger = length bs, gns_pris_m2 = 50000, ejer_gns_areal = 50,
           gns_pris = 4000000, median_pris = 4000000, ejer_center_lat = Num x,
           ejer_center_lng = Num y, ejer_vaerelser_data = [(4, 3)],
           ejer_by_data = map (\<lambda>(k, v). (py_str_cell double_library k, int v))
                       (value_counts double_library [Str ''Vanl'', Str ''Valby'', Str ''Valby'']),
           ejer_boliger = bs, ejer_scatter_img = 3, ejer_heatmap_img = 3, ejer_table_img = 3\<rparr>"
    unfolding ejer_output_def ejer_statistics_def
    by (simp only: bind_err_Inr bs ejer_three_areas_reordered_columns double_mean_areas
        double_mean_truncated double_mean_constant double_mean_constant_truncated
        three_rows_median three_rows_rooms x y)
  then show ?thesis by simp
qed



end
